theory Spec2Isabelle
  imports Complex_Main "HOL-Library.Multiset"
begin

section \<open>Data model (main.go, lines 19-86)\<close>

text \<open>
  The structs of main.go as records. Go strings are byte strings, here \<open>string\<close>
  (lists of 8-bit characters). A slice is a list.
\<close>

record DockerStat =
  BlockIO :: string
  CPUPerc :: string
  Container :: string
  ID :: string
  MemPerc :: string
  MemUsage :: string
  Name :: string
  NetIO :: string
  PIDs :: string

text \<open>
  A value of Go's \<open>time.Time\<close>: the calendar fields the value shows in its own location,
  the nanosecond within the second, and the offset of that location in seconds east of
  UTC (0 for the values \<open>time.Parse\<close> returns, the local zone's offset for \<open>time.Now\<close>).
  The monotonic clock reading that \<open>time.Now\<close> attaches is not part of the model:
  two times are compared by the instant they denote.
\<close>

record time =
  year :: int
  month :: nat
  day :: nat
  hour :: nat
  minute :: nat
  second :: nat
  nsec :: nat
  offset :: int

record StatsFile =
  Name :: string
  Timestamp :: time
  Stats :: "DockerStat list"

section \<open>Strings and paths (package strings, path/filepath)\<close>

definition isDigit :: "char \<Rightarrow> bool" where
  "isDigit c = (48 \<le> (of_char c :: nat) \<and> (of_char c :: nat) \<le> 57)"

definition digitVal :: "char \<Rightarrow> nat" where
  "digitVal c = of_char c - 48"

definition HasSuffix :: "string \<Rightarrow> string \<Rightarrow> bool" where
  "HasSuffix s suffix =
     (length suffix \<le> length s \<and> drop (length s - length suffix) s = suffix)"

definition TrimSuffix :: "string \<Rightarrow> string \<Rightarrow> string" where
  "TrimSuffix s suffix = (if HasSuffix s suffix then take (length s - length suffix) s else s)"

text \<open>\<open>strings.Split s sep\<close> for a separator of one byte: the pieces between its occurrences.\<close>

fun Split :: "string \<Rightarrow> char \<Rightarrow> string list" where
  "Split [] sep = [[]]"
| "Split (c # cs) sep =
     (if c = sep then [] # Split cs sep
      else (case Split cs sep of p # ps \<Rightarrow> (c # p) # ps | [] \<Rightarrow> [[c]]))"

text \<open>
  \<open>strings.TrimSpace\<close> removes the leading and trailing Unicode white space of a UTF-8
  string: the six ASCII space characters and the code points U+0085, U+00A0, U+1680,
  U+2000 to U+200A, U+2028, U+2029, U+202F, U+205F and U+3000, each in its UTF-8 encoding.
\<close>

definition spaceRunes :: "string list" where
  "spaceRunes =
     map (\<lambda>n. [char_of (n::nat)]) [9, 10, 11, 12, 13, 32]
     @ [[char_of (194::nat), char_of (133::nat)], [char_of (194::nat), char_of (160::nat)],
        [char_of (225::nat), char_of (154::nat), char_of (128::nat)]]
     @ map (\<lambda>n. [char_of (226::nat), char_of (128::nat), char_of (n::nat)])
         [128, 129, 130, 131, 132, 133, 134, 135, 136, 137, 138, 168, 169, 175]
     @ [[char_of (226::nat), char_of (129::nat), char_of (159::nat)],
        [char_of (227::nat), char_of (128::nat), char_of (128::nat)]]"

definition leadingSpace :: "string \<Rightarrow> nat" where
  "leadingSpace s =
     (case filter (\<lambda>r. take (length r) s = r) spaceRunes of [] \<Rightarrow> 0 | r # _ \<Rightarrow> length r)"

definition trailingSpace :: "string \<Rightarrow> nat" where
  "trailingSpace s =
     (case filter (\<lambda>r. HasSuffix s r) spaceRunes of [] \<Rightarrow> 0 | r # _ \<Rightarrow> length r)"

function TrimLeft :: "string \<Rightarrow> string" where
  "TrimLeft s = (if leadingSpace s = 0 \<or> s = [] then s else TrimLeft (drop (leadingSpace s) s))"
  by pat_completeness auto
termination
  by (relation "measure length") auto

function TrimRight :: "string \<Rightarrow> string" where
  "TrimRight s =
     (if trailingSpace s = 0 \<or> s = [] then s
      else TrimRight (take (length s - trailingSpace s) s))"
  by pat_completeness auto
termination
  by (relation "measure length") auto

definition TrimSpace :: "string \<Rightarrow> string" where
  "TrimSpace s = TrimRight (TrimLeft s)"

text \<open>
  \<open>filepath.Base\<close> on a system whose separator is \<open>/\<close>: trailing slashes are dropped, the
  last element is returned; the empty path gives \<open>.\<close>, a path of slashes gives \<open>/\<close>.
\<close>

definition slash :: char where
  "slash = CHR ''/''"

definition Base :: "string \<Rightarrow> string" where
  "Base path =
     (if path = [] then ''.''
      else let p = rev (dropWhile (\<lambda>c. c = slash) (rev path));
               e = rev (takeWhile (\<lambda>c. c \<noteq> slash) (rev p))
           in if e = [] then ''/'' else e)"

text \<open>
  \<open>filepath.Clean\<close>: empty and \<open>.\<close> elements disappear, an element \<open>..\<close> removes the
  element before it (it stays at the start of a relative path, and is dropped at the root).
  The elements are kept in reverse while the path is scanned.
\<close>

fun cleanElems :: "bool \<Rightarrow> string list \<Rightarrow> string list \<Rightarrow> string list" where
  "cleanElems rooted out [] = rev out"
| "cleanElems rooted out (e # es) =
     (if e = [] \<or> e = ''.'' then cleanElems rooted out es
      else if e = ''..'' then
        (case out of
           o1 # os \<Rightarrow> if o1 = ''..'' then cleanElems rooted (e # out) es
                      else cleanElems rooted os es
         | [] \<Rightarrow> if rooted then cleanElems rooted out es else cleanElems rooted [e] es)
      else cleanElems rooted (e # out) es)"

fun joinWith :: "char \<Rightarrow> string list \<Rightarrow> string" where
  "joinWith sep [] = []"
| "joinWith sep [e] = e"
| "joinWith sep (e # es) = e @ sep # joinWith sep es"

definition Clean :: "string \<Rightarrow> string" where
  "Clean path =
     (if path = [] then ''.''
      else let rooted = (hd path = slash);
               r = (if rooted then [slash] else []) @ joinWith slash (cleanElems rooted [] (Split path slash))
           in if r = [] then ''.'' else r)"

text \<open>\<open>filepath.Join dir name\<close>: empty arguments are ignored, the rest is joined and cleaned.\<close>

definition Join :: "string \<Rightarrow> string \<Rightarrow> string" where
  "Join dir name =
     (case filter (\<lambda>e. e \<noteq> []) [dir, name] of
        [] \<Rightarrow> []
      | es \<Rightarrow> Clean (joinWith slash es))"

section \<open>Package time: parsing and formatting\<close>

definition isLeap :: "int \<Rightarrow> bool" where
  "isLeap y = (y mod 4 = 0 \<and> (y mod 100 \<noteq> 0 \<or> y mod 400 = 0))"

definition daysIn :: "nat \<Rightarrow> int \<Rightarrow> nat" where
  "daysIn m y =
     (if m = 2 then (if isLeap y then 29 else 28)
      else if m = 4 \<or> m = 6 \<or> m = 9 \<or> m = 11 then 30 else 31)"

text \<open>The number of days from 1970-01-01 to the given date of the proleptic Gregorian calendar.\<close>

definition daysFromCivil :: "int \<Rightarrow> nat \<Rightarrow> nat \<Rightarrow> int" where
  "daysFromCivil y m d =
     (let y' = (if m \<le> 2 then y - 1 else y);
          era = y' div 400;
          yoe = y' - era * 400;
          mp = (if m > 2 then int m - 3 else int m + 9);
          doy = (153 * mp + 2) div 5 + int d - 1;
          doe = yoe * 365 + yoe div 4 - yoe div 100 + doy
      in era * 146097 + doe - 719468)"

text \<open>The instant a time denotes, in nanoseconds since 1970-01-01 00:00:00 UTC.\<close>

definition unixNano :: "time \<Rightarrow> int" where
  "unixNano t =
     ((daysFromCivil (year t) (month t) (day t) * 86400
        + int (hour t) * 3600 + int (minute t) * 60 + int (second t)) - offset t) * 1000000000
     + int (nsec t)"

definition After :: "time \<Rightarrow> time \<Rightarrow> bool" where
  "After t u = (unixNano t > unixNano u)"

definition Before :: "time \<Rightarrow> time \<Rightarrow> bool" where
  "Before t u = (unixNano t < unixNano u)"

text \<open>The zero value \<open>time.Time{}\<close>: January 1, year 1, 00:00:00 UTC.\<close>

definition zeroTime :: time where
  "zeroTime = \<lparr>year = 1, month = 1, day = 1, hour = 0, minute = 0, second = 0, nsec = 0, offset = 0\<rparr>"

text \<open>\<open>getnum\<close> of time/format.go: one or two digits; exactly two when \<open>fixed\<close>.\<close>

fun getnum :: "string \<Rightarrow> bool \<Rightarrow> (nat \<times> string) option" where
  "getnum [] fixed = None"
| "getnum [c] fixed = (if isDigit c \<and> \<not> fixed then Some (digitVal c, []) else None)"
| "getnum (c # d # r) fixed =
     (if \<not> isDigit c then None
      else if \<not> isDigit d then (if fixed then None else Some (digitVal c, d # r))
      else Some (digitVal c * 10 + digitVal d, r))"

text \<open>
  \<open>skip\<close> of time/format.go for a literal of one byte: a space of the layout stands for
  any run of spaces of the value (also none, at its end); any other byte must be there.
\<close>

fun skip :: "string \<Rightarrow> char \<Rightarrow> string option" where
  "skip [] lit = (if lit = CHR '' '' then Some [] else None)"
| "skip (c # r) lit =
     (if lit = CHR '' '' then
        (if c \<noteq> CHR '' '' then None else Some (dropWhile (\<lambda>x. x = CHR '' '') (c # r)))
      else if c = lit then Some r else None)"

text \<open>The four digits of the layout element \<open>2006\<close>.\<close>

definition getyear :: "string \<Rightarrow> (int \<times> string) option" where
  "getyear v =
     (if length v < 4 \<or> \<not> list_all isDigit (take 4 v) then None
      else Some (int (foldl (\<lambda>a c. a * 10 + digitVal c) 0 (take 4 v)), drop 4 v))"

text \<open>
  A fractional second after the seconds field is read although the layout has none:
  a period or comma and at least one digit; the first nine digits count.
\<close>

definition getfrac :: "string \<Rightarrow> nat \<times> string" where
  "getfrac v =
     (case v of
        c # d # r \<Rightarrow>
          if (c = CHR ''.'' \<or> c = CHR '','') \<and> isDigit d then
            let ds = takeWhile isDigit (d # r);
                ds9 = take 9 ds
            in (foldl (\<lambda>a x. a * 10 + digitVal x) 0 ds9 * 10 ^ (9 - length ds9),
                dropWhile isDigit (d # r))
          else (0, v)
      | _ \<Rightarrow> (0, v))"

text \<open>
  \<open>time.Parse\<close> for the two layouts of main.go, \<open>2006-01-02_15-04-05\<close> and
  \<open>2006-01-02 15:04:05\<close>: they differ in the literal between date and time (\<open>mid\<close>) and in
  the literal between the fields of the time of day (\<open>sep\<close>). The hour field \<open>15\<close> takes
  one or two digits, the fields \<open>01\<close>, \<open>02\<close>, \<open>04\<close>, \<open>05\<close> exactly two. Text after the last
  field is an error, and so is a field out of range or a day the month does not have.
  The result is in UTC. \<open>None\<close> stands for the error (Go returns the zero time with it).
\<close>

definition parseDate :: "string \<Rightarrow> ((int \<times> nat \<times> nat) \<times> string) option" where
  "parseDate v0 =
     Option.bind (getyear v0) (\<lambda>(y, v1).
     Option.bind (skip v1 CHR ''-'') (\<lambda>v2.
     Option.bind (getnum v2 True) (\<lambda>(mo, v3).
     if mo = 0 \<or> 12 < mo then None else
     Option.bind (skip v3 CHR ''-'') (\<lambda>v4.
     Option.bind (getnum v4 True) (\<lambda>(d, v5). Some ((y, mo, d), v5))))))"

definition parseClock :: "char \<Rightarrow> string \<Rightarrow> ((nat \<times> nat \<times> nat \<times> nat) \<times> string) option" where
  "parseClock sep v6 =
     Option.bind (getnum v6 False) (\<lambda>(h, v7).
     if 24 \<le> h then None else
     Option.bind (skip v7 sep) (\<lambda>v8.
     Option.bind (getnum v8 True) (\<lambda>(mi, v9).
     if 60 \<le> mi then None else
     Option.bind (skip v9 sep) (\<lambda>v10.
     Option.bind (getnum v10 True) (\<lambda>(s, v11).
     if 60 \<le> s then None else
     (case getfrac v11 of (ns, v12) \<Rightarrow> Some ((h, mi, s, ns), v12)))))))"

definition parseLayout :: "char \<Rightarrow> char \<Rightarrow> string \<Rightarrow> time option" where
  "parseLayout mid sep v0 =
     Option.bind (parseDate v0) (\<lambda>((y, mo, d), v5).
     Option.bind (skip v5 mid) (\<lambda>v6.
     Option.bind (parseClock sep v6) (\<lambda>((h, mi, s, ns), v12).
     if v12 \<noteq> [] then None
     else if d < 1 \<or> daysIn mo y < d then None
     else Some \<lparr>year = y, month = mo, day = d, hour = h, minute = mi, second = s,
                nsec = ns, offset = 0\<rparr>)))"

text \<open>\<open>time.Parse("2006-01-02_15-04-05", s)\<close>, the layout of the file names.\<close>

definition parseFileStamp :: "string \<Rightarrow> time option" where
  "parseFileStamp s = parseLayout CHR ''_'' CHR ''-'' s"

text \<open>\<open>time.Parse("2006-01-02 15:04:05", s)\<close>, the layout of the data points.\<close>

definition parsePointStamp :: "string \<Rightarrow> time option" where
  "parsePointStamp s = parseLayout CHR '' '' CHR '':'' s"

text \<open>\<open>appendInt\<close> of time/format.go: the decimal digits, padded with zeros to a width.\<close>

function decimal :: "nat \<Rightarrow> string" where
  "decimal n = (if n < 10 then [char_of (48 + n)] else decimal (n div 10) @ [char_of (48 + n mod 10)])"
  by pat_completeness auto
termination
  by (relation "measure id") auto

definition appendInt :: "int \<Rightarrow> nat \<Rightarrow> string" where
  "appendInt x width =
     (let ds = decimal (nat \<bar>x\<bar>)
      in (if x < 0 then ''-'' else []) @ replicate (width - length ds) CHR ''0'' @ ds)"

text \<open>\<open>t.Format("2006-01-02 15:04:05")\<close>.\<close>

definition Format :: "time \<Rightarrow> string" where
  "Format t =
     appendInt (year t) 4 @ ''-'' @ appendInt (int (month t)) 2 @ ''-'' @ appendInt (int (day t)) 2
     @ '' '' @ appendInt (int (hour t)) 2 @ '':'' @ appendInt (int (minute t)) 2
     @ '':'' @ appendInt (int (second t)) 2"

section \<open>Package sort\<close>

text \<open>
  \<open>sort.Slice\<close> is a parameter of the model: any function \<open>srt\<close> that returns a
  permutation of the slice and, when the comparison \<open>lt\<close> is a strict weak ordering of its elements
  (what the documentation of \<open>sort.Interface\<close> asks of \<open>Less\<close>), a slice in which no
  element is less than an earlier one. It is not stable, and which permutation it returns
  among equal elements is left open. \<open>lt\<close> is the closure the caller passes, read as a
  relation on the elements.
\<close>

definition strictWeak :: "('a \<Rightarrow> 'a \<Rightarrow> bool) \<Rightarrow> 'a set \<Rightarrow> bool" where
  "strictWeak lt A =
     ((\<forall>a\<in>A. \<forall>b\<in>A. lt a b \<longrightarrow> \<not> lt b a)
      \<and> (\<forall>a\<in>A. \<forall>b\<in>A. \<forall>c\<in>A. \<not> lt a b \<and> \<not> lt b c \<longrightarrow> \<not> lt a c))"

definition sortContract :: "(('a \<Rightarrow> 'a \<Rightarrow> bool) \<Rightarrow> 'a list \<Rightarrow> 'a list) \<Rightarrow> bool" where
  "sortContract srt =
     (\<forall>lt xs. mset (srt lt xs) = mset xs
        \<and> (strictWeak lt (set xs) \<longrightarrow> sorted_wrt (\<lambda>a b. \<not> lt b a) (srt lt xs)))"

text \<open>
  \<open>insertionSortLessFunc\<close> of sort/zsortfunc.go, which is all \<open>sort.Slice\<close> runs on a slice
  of at most 12 elements: each element moves towards the front while it is lt than the
  element before it. \<open>insertBack\<close> works on the sorted prefix in reverse.
\<close>

fun insertBack :: "('a \<Rightarrow> 'a \<Rightarrow> bool) \<Rightarrow> 'a \<Rightarrow> 'a list \<Rightarrow> 'a list" where
  "insertBack lt x [] = [x]"
| "insertBack lt x (y # ys) = (if lt x y then y # insertBack lt x ys else x # y # ys)"

definition insertionSort :: "('a \<Rightarrow> 'a \<Rightarrow> bool) \<Rightarrow> 'a list \<Rightarrow> 'a list" where
  "insertionSort lt xs = rev (foldl (\<lambda>acc x. insertBack lt x acc) [] xs)"

section \<open>The environment: directory, files, decoder, clock\<close>

text \<open>
  What the loader reads from outside. A file that opens gives the bytes that could be
  read and whether reading them ended in an I/O error instead of the end of the file.
  \<open>ReadDir\<close> is \<open>os.ReadDir\<close> (\<open>None\<close>: the directory cannot be read), \<open>Open\<close> is
  \<open>os.Open\<close>, \<open>Unmarshal\<close> is \<open>json.Unmarshal\<close> into a fresh \<open>DockerStat\<close> (\<open>None\<close>: it
  returns an error), and \<open>Now p\<close> is the reading \<open>time.Now()\<close> gives while the file at
  path \<open>p\<close> is parsed.
\<close>

record DirEntry =
  Name :: string
  IsDir :: bool

record File =
  bytes :: string
  readFails :: bool

record world =
  ReadDir :: "string \<Rightarrow> DirEntry list option"
  Open :: "string \<Rightarrow> File option"
  Unmarshal :: "string \<Rightarrow> DockerStat option"
  Now :: "string \<Rightarrow> time"

datatype error =
  ErrOpen string
| ErrParseLine nat string
| ErrRead string
| ErrReadDir string

section \<open>parseStatsFile (main.go, lines 88-138)\<close>

text \<open>
  \<open>bufio.Scanner\<close> with \<open>ScanLines\<close>: the pieces between newlines, without a last empty
  piece, each without one trailing carriage return. A line of \<open>MaxScanTokenSize\<close> bytes or
  more stops the scan with \<open>ErrTooLong\<close>.
\<close>

definition MaxScanTokenSize :: nat where
  "MaxScanTokenSize = 65536"

definition rawLines :: "string \<Rightarrow> string list" where
  "rawLines s = (let ps = Split s (char_of (10::nat)) in if last ps = [] then butlast ps else ps)"

definition dropCR :: "string \<Rightarrow> string" where
  "dropCR l = (if l \<noteq> [] \<and> last l = char_of (13::nat) then butlast l else l)"

text \<open>
  The loop of lines 100-118 over the lines still to be scanned: \<open>lineNum\<close> counts the
  lines seen, \<open>dockerStats\<close> holds the records decoded. The first line that does not decode
  ends the function with an error; so does a line too long for the scanner.
\<close>

fun scanLoop ::
  "(string \<Rightarrow> DockerStat option) \<Rightarrow> string \<Rightarrow> nat \<Rightarrow> DockerStat list \<Rightarrow> string list
     \<Rightarrow> error + DockerStat list" where
  "scanLoop um filePath lineNum dockerStats [] = Inr dockerStats"
| "scanLoop um filePath lineNum dockerStats (raw # rest) =
     (if MaxScanTokenSize \<le> length raw then Inl (ErrRead filePath)
      else let line = TrimSpace (dropCR raw) in
        if line = [] then scanLoop um filePath (lineNum + 1) dockerStats rest
        else (case um line of
                None \<Rightarrow> Inl (ErrParseLine (lineNum + 1) filePath)
              | Some stat \<Rightarrow> scanLoop um filePath (lineNum + 1) (dockerStats @ [stat]) rest))"

text \<open>Lines 120-131: the timestamp from the file name, with the clock as fallback.\<close>

definition fileTimestamp :: "string \<Rightarrow> time \<Rightarrow> time" where
  "fileTimestamp basename fallback =
     (if CHR ''_'' \<in> set basename then
        let parts = Split basename CHR ''_'' in
        if length parts \<ge> 3 then
          (case parseFileStamp (parts ! 0 @ ''_'' @ parts ! 1) of
             Some t \<Rightarrow> t
           | None \<Rightarrow> fallback)
        else fallback
      else fallback)"

definition parseStatsFile :: "world \<Rightarrow> string \<Rightarrow> error + StatsFile" where
  "parseStatsFile w filePath =
     (case Open w filePath of
        None \<Rightarrow> Inl (ErrOpen filePath)
      | Some file \<Rightarrow>
          (case scanLoop (Unmarshal w) filePath 0 [] (rawLines (bytes file)) of
             Inl e \<Rightarrow> Inl e
           | Inr dockerStats \<Rightarrow>
               if readFails file then Inl (ErrRead filePath)
               else let basename = Base filePath
                    in Inr \<lparr>StatsFile.Name = basename,
                            Timestamp = fileTimestamp basename (Now w filePath),
                            Stats = dockerStats\<rparr>))"

section \<open>loadAllStatsFiles (main.go, lines 140-169)\<close>

text \<open>
  The loop of lines 148-161 over the directory entries. The state is the slice
  \<open>statsFiles\<close> and the log: every \<open>log.Printf\<close> warning is recorded as the path and the
  error it reports.
\<close>

fun loadLoop ::
  "world \<Rightarrow> string \<Rightarrow> (string \<times> error) list \<Rightarrow> StatsFile list \<Rightarrow> DirEntry list
     \<Rightarrow> (string \<times> error) list \<times> StatsFile list" where
  "loadLoop w dir warnings statsFiles [] = (warnings, statsFiles)"
| "loadLoop w dir warnings statsFiles (file # files) =
     (if IsDir file \<or> \<not> HasSuffix (DirEntry.Name file) ''.json'' then
        loadLoop w dir warnings statsFiles files
      else let filePath = Join dir (DirEntry.Name file) in
        (case parseStatsFile w filePath of
           Inl err \<Rightarrow> loadLoop w dir (warnings @ [(filePath, err)]) statsFiles files
         | Inr statsFile \<Rightarrow> loadLoop w dir warnings (statsFiles @ [statsFile]) files))"

definition newestFirst :: "StatsFile \<Rightarrow> StatsFile \<Rightarrow> bool" where
  "newestFirst a b = After (Timestamp a) (Timestamp b)"

text \<open>The result: the warnings logged, and the error or the sorted slice.\<close>

definition loadAllStatsFiles ::
  "((StatsFile \<Rightarrow> StatsFile \<Rightarrow> bool) \<Rightarrow> StatsFile list \<Rightarrow> StatsFile list) \<Rightarrow> world \<Rightarrow> string
     \<Rightarrow> (string \<times> error) list \<times> (error + StatsFile list)" where
  "loadAllStatsFiles srt w dir =
     (case ReadDir w dir of
        None \<Rightarrow> ([], Inl (ErrReadDir dir))
      | Some files \<Rightarrow>
          (case loadLoop w dir [] [] files of
             (warnings, statsFiles) \<Rightarrow> (warnings, Inr (srt newestFirst statsFiles))))"

section \<open>Well-formed snapshot files\<close>

text \<open>
  The entries of the directory the loader parses: regular entries whose name ends in
  \<open>.json\<close>.
\<close>

definition candidate :: "DirEntry \<Rightarrow> bool" where
  "candidate e = (\<not> IsDir e \<and> HasSuffix (DirEntry.Name e) ''.json'')"

text \<open>
  The input format as the specification words it: newline-delimited JSON, one record
  per non-blank line, blank lines skipped. A line is acceptable when it is blank or
  decodes as a record; a file is structurally well-formed when it opens, is read to its
  end, and every line is acceptable.
\<close>

definition lineDecodes :: "(string \<Rightarrow> DockerStat option) \<Rightarrow> string \<Rightarrow> bool" where
  "lineDecodes um raw = (TrimSpace (dropCR raw) = [] \<or> um (TrimSpace (dropCR raw)) \<noteq> None)"

definition structurallyWellFormed :: "world \<Rightarrow> string \<Rightarrow> bool" where
  "structurallyWellFormed w filePath =
     (case Open w filePath of
        None \<Rightarrow> False
      | Some file \<Rightarrow> \<not> readFails file \<and> list_all (lineDecodes (Unmarshal w)) (rawLines (bytes file)))"

text \<open>
  What the scanner of line 97 asks for besides: every line, its end-of-line marker left
  out, is shorter than the scanner's buffer of \<open>MaxScanTokenSize\<close> bytes.
\<close>

definition linesFit :: "world \<Rightarrow> string \<Rightarrow> bool" where
  "linesFit w filePath =
     (case Open w filePath of
        None \<Rightarrow> True
      | Some file \<Rightarrow> list_all (\<lambda>raw. length raw < MaxScanTokenSize) (rawLines (bytes file)))"

section \<open>float64\<close>

text \<open>
  An IEEE 754 binary64 value: not a number, the two infinities, the negative zero, or a
  finite number given by its value (\<open>Fin 0\<close> is the positive zero). The operations
  round to nearest, ties to even, as Go's do.
\<close>

datatype float64 = NaN | PosInf | NegInf | NegZero | Fin rat

definition pow2 :: "int \<Rightarrow> rat" where
  "pow2 e = (if 0 \<le> e then 2 ^ nat e else 1 / 2 ^ nat (- e))"

function bitLength :: "int \<Rightarrow> int" where
  "bitLength n = (if n \<le> 0 then 0 else 1 + bitLength (n div 2))"
  by pat_completeness auto
termination
  by (relation "measure nat") auto

text \<open>
  For \<open>a > 0\<close>, the exponent \<open>e\<close> with \<open>2 ^ e \<le> a < 2 ^ (e + 1)\<close>: one less than the
  number of bits of the integer part when \<open>a \<ge> 1\<close>, and below 1 the negated number of
  bits of the integer just under \<open>1 / a\<close>.
\<close>

definition floorLog2 :: "rat \<Rightarrow> int" where
  "floorLog2 a = (if 1 \<le> a then bitLength \<lfloor>a\<rfloor> - 1 else - bitLength (\<lceil>1 / a\<rceil> - 1))"

definition roundEven :: "rat \<Rightarrow> int" where
  "roundEven x =
     (if x - of_int \<lfloor>x\<rfloor> < 1 / 2 then \<lfloor>x\<rfloor>
      else if 1 / 2 < x - of_int \<lfloor>x\<rfloor> then \<lfloor>x\<rfloor> + 1
      else if even \<lfloor>x\<rfloor> then \<lfloor>x\<rfloor>
      else \<lfloor>x\<rfloor> + 1)"

definition signedInf :: "bool \<Rightarrow> float64" where
  "signedInf neg = (if neg then NegInf else PosInf)"

definition signedZero :: "bool \<Rightarrow> float64" where
  "signedZero neg = (if neg then NegZero else Fin 0)"

text \<open>
  The binary64 value nearest to a rational \<open>q\<close>: 53 bits of precision, so numbers with
  exponent \<open>e\<close> are multiples of \<open>2 ^ (e - 52)\<close>; the exponent is at least -1022 (below
  it the spacing stays \<open>2 ^ -1074\<close>: subnormal numbers and zero); a magnitude that
  rounds to \<open>2 ^ 1024\<close> or more is an infinity.
\<close>

definition roundToUlp :: "rat \<Rightarrow> int \<Rightarrow> rat" where
  "roundToUlp a e = of_int (roundEven (a / pow2 (e - 52))) * pow2 (e - 52)"

definition fromMagnitude :: "bool \<Rightarrow> rat \<Rightarrow> float64" where
  "fromMagnitude neg r =
     (if pow2 1024 \<le> r then signedInf neg
      else if r = 0 then signedZero neg
      else Fin (if neg then - r else r))"

definition round64 :: "rat \<Rightarrow> float64" where
  "round64 q =
     (if q = 0 then Fin 0
      else fromMagnitude (q < 0) (roundToUlp \<bar>q\<bar> (max (floorLog2 \<bar>q\<bar>) (- 1022))))"

definition isNaN :: "float64 \<Rightarrow> bool" where
  "isNaN x = (x = NaN)"

definition isZero :: "float64 \<Rightarrow> bool" where
  "isZero x = (x = NegZero \<or> x = Fin 0)"

definition signbit :: "float64 \<Rightarrow> bool" where
  "signbit x = (case x of NegInf \<Rightarrow> True | NegZero \<Rightarrow> True | Fin q \<Rightarrow> q < 0 | _ \<Rightarrow> False)"

definition valueOf :: "float64 \<Rightarrow> rat" where
  "valueOf x = (case x of Fin q \<Rightarrow> q | _ \<Rightarrow> 0)"

text \<open>
  The place of a number in the order of the extended reals: the infinities below and
  above all finite values, the two zeros equal.
\<close>

definition rank :: "float64 \<Rightarrow> int \<times> rat" where
  "rank x = (case x of PosInf \<Rightarrow> (1, 0) | NegInf \<Rightarrow> (- 1, 0) | _ \<Rightarrow> (0, valueOf x))"

text \<open>Go's \<open><\<close>, \<open>>\<close> and \<open><=\<close> on float64: every comparison with NaN is false.\<close>

definition flt :: "float64 \<Rightarrow> float64 \<Rightarrow> bool" where
  "flt x y =
     (\<not> isNaN x \<and> \<not> isNaN y
      \<and> (fst (rank x) < fst (rank y) \<or> (fst (rank x) = fst (rank y) \<and> snd (rank x) < snd (rank y))))"

definition fgt :: "float64 \<Rightarrow> float64 \<Rightarrow> bool" where
  "fgt x y = flt y x"

definition fle :: "float64 \<Rightarrow> float64 \<Rightarrow> bool" where
  "fle x y = (\<not> isNaN x \<and> \<not> isNaN y \<and> \<not> flt y x)"

definition isInf :: "float64 \<Rightarrow> bool" where
  "isInf x = (x = PosInf \<or> x = NegInf)"

text \<open>Go's \<open>+\<close> on float64.\<close>

definition fadd :: "float64 \<Rightarrow> float64 \<Rightarrow> float64" where
  "fadd x y =
     (if isNaN x \<or> isNaN y then NaN
      else if isInf x then (if isInf y \<and> x \<noteq> y then NaN else x)
      else if isInf y then y
      else if isZero x \<and> isZero y then (if x = NegZero \<and> y = NegZero then NegZero else Fin 0)
      else round64 (valueOf x + valueOf y))"

text \<open>Go's \<open>/\<close> on float64.\<close>

definition fdiv :: "float64 \<Rightarrow> float64 \<Rightarrow> float64" where
  "fdiv x y =
     (if isNaN x \<or> isNaN y then NaN
      else if isInf x then (if isInf y then NaN else signedInf (signbit x \<noteq> signbit y))
      else if isInf y then signedZero (signbit x \<noteq> signbit y)
      else if isZero y then (if isZero x then NaN else signedInf (signbit x \<noteq> signbit y))
      else if isZero x then signedZero (signbit x \<noteq> signbit y)
      else round64 (valueOf x / valueOf y))"

text \<open>The conversion \<open>float64(n)\<close> of an \<open>int\<close>.\<close>

definition float64_of_int :: "int \<Rightarrow> float64" where
  "float64_of_int n = round64 (of_int n)"

section \<open>strconv.ParseFloat\<close>

datatype numError = ErrSyntax | ErrRange

definition toLowerASCII :: "char \<Rightarrow> char" where
  "toLowerASCII c =
     (if 65 \<le> (of_char c :: nat) \<and> (of_char c :: nat) \<le> 90 then char_of ((of_char c :: nat) + 32)
      else c)"

definition isHexLetter :: "char \<Rightarrow> bool" where
  "isHexLetter c =
     (97 \<le> (of_char (toLowerASCII c) :: nat) \<and> (of_char (toLowerASCII c) :: nat) \<le> 102)"

definition hexVal :: "char \<Rightarrow> nat" where
  "hexVal c = of_char (toLowerASCII c) - 87"

fun commonPrefixLenIgnoreCase :: "string \<Rightarrow> string \<Rightarrow> nat" where
  "commonPrefixLenIgnoreCase (c # s) (d # prefix) =
     (if toLowerASCII c = d then Suc (commonPrefixLenIgnoreCase s prefix) else 0)"
| "commonPrefixLenIgnoreCase s prefix = 0"

text \<open>
  \<open>special\<close> of strconv/atof.go: \<open>inf\<close> and \<open>infinity\<close> with an optional sign, and \<open>nan\<close>
  without one, in any case of the letters. The result is the value and the number of
  bytes it takes.
\<close>

definition infPrefix :: "bool \<Rightarrow> nat \<Rightarrow> string \<Rightarrow> (float64 \<times> nat) option" where
  "infPrefix neg nsign s =
     (let n0 = commonPrefixLenIgnoreCase s ''infinity'';
          n = (if 3 < n0 \<and> n0 < 8 then 3 else n0)
      in if n = 3 \<or> n = 8 then Some (signedInf neg, nsign + n) else None)"

definition special :: "string \<Rightarrow> (float64 \<times> nat) option" where
  "special s =
     (case s of
        [] \<Rightarrow> None
      | c # r \<Rightarrow>
          if c = CHR ''+'' \<or> c = CHR ''-'' then infPrefix (c = CHR ''-'') 1 r
          else if c = CHR ''i'' \<or> c = CHR ''I'' then infPrefix False 0 s
          else if c = CHR ''n'' \<or> c = CHR ''N'' then
            (if commonPrefixLenIgnoreCase s ''nan'' = 3 then Some (NaN, 3) else None)
          else None)"

text \<open>
  The digit loop of \<open>readFloat\<close>: the value of the digits read so far, how many of them
  follow the point, and whether a point, a digit and an underscore were seen. It stops
  at a second point or at any other byte. All digits are kept (Go keeps the first 19 in
  a \<open>uint64\<close> and goes back to the text for the rest when they matter).
\<close>

fun digitsLoop ::
  "nat \<Rightarrow> string \<Rightarrow> nat \<times> nat \<times> bool \<times> bool \<times> bool
     \<Rightarrow> (nat \<times> nat \<times> bool \<times> bool \<times> bool) \<times> string" where
  "digitsLoop base [] st = (st, [])"
| "digitsLoop base (c # cs) (mantissa, fracDigits, sawdot, sawdigits, underscores) =
     (if c = CHR ''_'' then digitsLoop base cs (mantissa, fracDigits, sawdot, sawdigits, True)
      else if c = CHR ''.'' then
        (if sawdot then ((mantissa, fracDigits, sawdot, sawdigits, underscores), c # cs)
         else digitsLoop base cs (mantissa, fracDigits, True, sawdigits, underscores))
      else if isDigit c then
        digitsLoop base cs
          (mantissa * base + digitVal c, (if sawdot then fracDigits + 1 else fracDigits), sawdot, True, underscores)
      else if base = 16 \<and> isHexLetter c then
        digitsLoop base cs
          (mantissa * base + hexVal c, (if sawdot then fracDigits + 1 else fracDigits), sawdot, True, underscores)
      else ((mantissa, fracDigits, sawdot, sawdigits, underscores), c # cs))"

text \<open>The digits of the exponent; once the exponent has reached 10000 further digits are dropped.\<close>

fun expLoop :: "string \<Rightarrow> nat \<times> bool \<Rightarrow> (nat \<times> bool) \<times> string" where
  "expLoop [] st = (st, [])"
| "expLoop (c # cs) (e, underscores) =
     (if c = CHR ''_'' then expLoop cs (e, True)
      else if isDigit c then expLoop cs ((if e < 10000 then e * 10 + digitVal c else e), underscores)
      else ((e, underscores), c # cs))"

text \<open>\<open>underscoreOK\<close>: an underscore stands between two digits, or after the base prefix.\<close>

fun underscoreLoop :: "bool \<Rightarrow> char \<Rightarrow> string \<Rightarrow> bool" where
  "underscoreLoop hex saw [] = (saw \<noteq> CHR ''_'')"
| "underscoreLoop hex saw (c # cs) =
     (if isDigit c \<or> (hex \<and> isHexLetter c) then underscoreLoop hex CHR ''0'' cs
      else if c = CHR ''_'' then (if saw \<noteq> CHR ''0'' then False else underscoreLoop hex CHR ''_'' cs)
      else if saw = CHR ''_'' then False
      else underscoreLoop hex CHR ''!'' cs)"

definition dropSign :: "string \<Rightarrow> string" where
  "dropSign s = (case s of c # r \<Rightarrow> if c = CHR ''+'' \<or> c = CHR ''-'' then r else s | [] \<Rightarrow> s)"

definition underscoreOK :: "string \<Rightarrow> bool" where
  "underscoreOK s =
     (case dropSign s of
        c # d # r \<Rightarrow>
          if c = CHR ''0'' \<and> toLowerASCII d \<in> {CHR ''b'', CHR ''o'', CHR ''x''}
          then underscoreLoop (toLowerASCII d = CHR ''x'') CHR ''0'' r
          else underscoreLoop False CHR ''^'' (c # d # r)
      | s' \<Rightarrow> underscoreLoop False CHR ''^'' s')"

text \<open>
  The optional exponent after the digits: \<open>e\<close> (\<open>p\<close> for a hexadecimal number, which must
  have one), an optional sign and at least one digit. \<open>None\<close>: not a number.
\<close>

definition readExponent :: "bool \<Rightarrow> bool \<Rightarrow> string \<Rightarrow> (int \<times> bool \<times> string) option" where
  "readExponent hex underscores s =
     (case s of
        c # r \<Rightarrow>
          if toLowerASCII c = (if hex then CHR ''p'' else CHR ''e'') then
            (case r of
               [] \<Rightarrow> None
             | d # r' \<Rightarrow>
                 let esign = (if d = CHR ''-'' then - 1 else 1 :: int);
                     ds = (if d = CHR ''+'' \<or> d = CHR ''-'' then r' else r)
                 in (case ds of
                       [] \<Rightarrow> None
                     | x # _ \<Rightarrow>
                         if \<not> isDigit x then None
                         else (case expLoop ds (0, underscores) of
                                 ((e, underscores'), rest) \<Rightarrow> Some (esign * int e, underscores', rest))))
          else if hex then None
          else Some (0, underscores, s)
      | [] \<Rightarrow> if hex then None else Some (0, underscores, s))"

text \<open>
  \<open>readFloat\<close>: sign, digits in base 10 or (after \<open>0x\<close>) 16, and exponent, read from the
  front of the string. The result is the sign, the number as a rational, and the rest of
  the string; \<open>None\<close> when the front of the string is not a number.
\<close>

definition readFloat :: "string \<Rightarrow> (bool \<times> rat \<times> string) option" where
  "readFloat s =
     (if s = [] then None
      else let neg = (hd s = CHR ''-'');
               s1 = dropSign s;
               hex = (2 < length s1 \<and> hd s1 = CHR ''0'' \<and> toLowerASCII (s1 ! 1) = CHR ''x'');
               s2 = (if hex then drop 2 s1 else s1)
           in (case digitsLoop (if hex then 16 else 10) s2 (0, 0, False, False, False) of
                 ((mantissa, fracDigits, sawdot, sawdigits, underscores), s3) \<Rightarrow>
                   if \<not> sawdigits then None
                   else (case readExponent hex underscores s3 of
                           None \<Rightarrow> None
                         | Some (e, underscores', rest) \<Rightarrow>
                             if underscores' \<and> \<not> underscoreOK (take (length s - length rest) s)
                             then None
                             else let x = (if hex then e - 4 * int fracDigits else e - int fracDigits);
                                      scale = (if hex then pow2 x
                                               else if 0 \<le> x then 10 ^ nat x else 1 / 10 ^ nat (- x))
                                  in Some (neg, of_nat mantissa * scale, rest))))"

text \<open>
  \<open>strconv.ParseFloat(s, 64)\<close>: the value and the error. The whole string must be a
  number; if not, the value is 0 and the error \<open>ErrSyntax\<close>. The value is the nearest
  float64; when that is an infinity the error is \<open>ErrRange\<close>.
\<close>

definition ParseFloat :: "string \<Rightarrow> float64 \<times> numError option" where
  "ParseFloat s =
     (case special s of
        Some (f, n) \<Rightarrow> if n = length s then (f, None) else (Fin 0, Some ErrSyntax)
      | None \<Rightarrow>
          (case readFloat s of
             None \<Rightarrow> (Fin 0, Some ErrSyntax)
           | Some (neg, q, rest) \<Rightarrow>
               if rest \<noteq> [] then (Fin 0, Some ErrSyntax)
               else let f = (if q = 0 then signedZero neg else round64 (if neg then - q else q))
                    in (f, if isInf f then Some ErrRange else None)))"

section \<open>Data points, series and summaries (main.go, lines 44-86)\<close>

record ContainerDataPoint =
  Timestamp :: string
  CPUPerc :: float64
  MemPerc :: float64
  MemUsage :: string
  NetIO :: string
  BlockIO :: string
  PIDs :: string

record ContainerComparison =
  ContainerID :: string
  ContainerName :: string
  Data :: "ContainerDataPoint list"

record ContainerComparisonWithStats = ContainerComparison +
  AvgCPU :: float64
  MaxCPU :: float64
  MinCPU :: float64
  AvgMem :: float64
  MaxMem :: float64
  MinMem :: float64

record ContainerSummary =
  ContainerID :: string
  ContainerName :: string
  DataPoints :: int
  AvgCPU :: float64
  MaxCPU :: float64
  MinCPU :: float64
  AvgMem :: float64
  MaxMem :: float64
  MinMem :: float64
  FirstSeen :: string
  LastSeen :: string

text \<open>
  The conversion of a record into a data point, lines 179-195 and again lines 285-301:
  the percentages lose one trailing \<open>%\<close> and are parsed, the error of \<open>ParseFloat\<close> is
  dropped; the timestamp is the formatted timestamp of the snapshot.
\<close>

definition dataPointOf :: "StatsFile \<Rightarrow> DockerStat \<Rightarrow> ContainerDataPoint" where
  "dataPointOf statsFile stat =
     \<lparr>ContainerDataPoint.Timestamp = Format (StatsFile.Timestamp statsFile),
      CPUPerc = fst (ParseFloat (TrimSuffix (DockerStat.CPUPerc stat) ''%'')),
      MemPerc = fst (ParseFloat (TrimSuffix (DockerStat.MemPerc stat) ''%'')),
      MemUsage = DockerStat.MemUsage stat,
      NetIO = DockerStat.NetIO stat,
      BlockIO = DockerStat.BlockIO stat,
      PIDs = DockerStat.PIDs stat\<rparr>"

text \<open>
  The comparison both sorts of data points use (lines 206-210 and 316-320): the
  timestamps are parsed again, the errors are dropped, so a timestamp that does not
  parse counts as the zero time.
\<close>

definition pointTime :: "ContainerDataPoint \<Rightarrow> time" where
  "pointTime p =
     (case parsePointStamp (ContainerDataPoint.Timestamp p) of Some t \<Rightarrow> t | None \<Rightarrow> zeroTime)"

definition oldestFirst :: "ContainerDataPoint \<Rightarrow> ContainerDataPoint \<Rightarrow> bool" where
  "oldestFirst a b = Before (pointTime a) (pointTime b)"

section \<open>getContainerComparison (main.go, lines 171-217)\<close>

text \<open>The inner loop over the records of one snapshot; the state is \<open>(dataPoints, containerName)\<close>.\<close>

fun matchLoop ::
  "string \<Rightarrow> StatsFile \<Rightarrow> ContainerDataPoint list \<times> string \<Rightarrow> DockerStat list
     \<Rightarrow> ContainerDataPoint list \<times> string" where
  "matchLoop containerID statsFile (dataPoints, containerName) [] = (dataPoints, containerName)"
| "matchLoop containerID statsFile (dataPoints, containerName) (stat # stats) =
     (if ID stat = containerID then
        matchLoop containerID statsFile
          (dataPoints @ [dataPointOf statsFile stat],
           (if containerName = [] then DockerStat.Name stat else containerName))
          stats
      else matchLoop containerID statsFile (dataPoints, containerName) stats)"

text \<open>The outer loop over the snapshots.\<close>

fun filesLoop ::
  "string \<Rightarrow> ContainerDataPoint list \<times> string \<Rightarrow> StatsFile list
     \<Rightarrow> ContainerDataPoint list \<times> string" where
  "filesLoop containerID st [] = st"
| "filesLoop containerID st (statsFile # statsFiles) =
     filesLoop containerID (matchLoop containerID statsFile st (Stats statsFile)) statsFiles"

definition getContainerComparison ::
  "((ContainerDataPoint \<Rightarrow> ContainerDataPoint \<Rightarrow> bool) \<Rightarrow> ContainerDataPoint list
      \<Rightarrow> ContainerDataPoint list)
     \<Rightarrow> StatsFile list \<Rightarrow> string \<Rightarrow> ContainerComparison" where
  "getContainerComparison srt statsFiles containerID =
     (case filesLoop containerID ([], []) statsFiles of
        (dataPoints, containerName) \<Rightarrow>
          \<lparr>ContainerComparison.ContainerID = containerID,
           ContainerComparison.ContainerName = containerName,
           ContainerComparison.Data = srt oldestFirst dataPoints\<rparr>)"

section \<open>getContainerComparisonWithStats (main.go, lines 219-275)\<close>

text \<open>
  The loop that main.go writes four times (lines 240-248, 255-263, 326-334, 341-349):
  the state is the sum, the maximum and the minimum so far.
\<close>

fun statLoop :: "float64 \<times> float64 \<times> float64 \<Rightarrow> float64 list \<Rightarrow> float64 \<times> float64 \<times> float64" where
  "statLoop st [] = st"
| "statLoop (sumV, maxV, minV) (v # vs) =
     statLoop (fadd sumV v, (if fgt v maxV then v else maxV), (if flt v minV then v else minV)) vs"

text \<open>
  Average, maximum and minimum of a slice that is not empty: the sum starts at 0, the
  maximum and the minimum at the first element, and the average is the sum divided by
  the length. Both callers ask before whether the slice is empty.
\<close>

definition seriesStats :: "float64 list \<Rightarrow> float64 \<times> float64 \<times> float64" where
  "seriesStats values =
     (case statLoop (Fin 0, hd values, hd values) values of
        (sumV, maxV, minV) \<Rightarrow> (fdiv sumV (float64_of_int (int (length values))), maxV, minV))"

definition getContainerComparisonWithStats ::
  "((ContainerDataPoint \<Rightarrow> ContainerDataPoint \<Rightarrow> bool) \<Rightarrow> ContainerDataPoint list
      \<Rightarrow> ContainerDataPoint list)
     \<Rightarrow> StatsFile list \<Rightarrow> string \<Rightarrow> ContainerComparisonWithStats" where
  "getContainerComparisonWithStats srt statsFiles containerID =
     (let comparison = getContainerComparison srt statsFiles containerID in
      if length (Data comparison) = 0 then
        \<lparr>ContainerComparison.ContainerID = ContainerComparison.ContainerID comparison,
         ContainerComparison.ContainerName = ContainerComparison.ContainerName comparison,
         ContainerComparison.Data = Data comparison,
         ContainerComparisonWithStats.AvgCPU = Fin 0,
         ContainerComparisonWithStats.MaxCPU = Fin 0,
         ContainerComparisonWithStats.MinCPU = Fin 0,
         ContainerComparisonWithStats.AvgMem = Fin 0,
         ContainerComparisonWithStats.MaxMem = Fin 0,
         ContainerComparisonWithStats.MinMem = Fin 0\<rparr>
      else
        (case (seriesStats (map CPUPerc (Data comparison)), seriesStats (map MemPerc (Data comparison))) of
           ((avgCPU, maxCPU, minCPU), (avgMem, maxMem, minMem)) \<Rightarrow>
             \<lparr>ContainerComparison.ContainerID = ContainerComparison.ContainerID comparison,
              ContainerComparison.ContainerName = ContainerComparison.ContainerName comparison,
              ContainerComparison.Data = Data comparison,
              ContainerComparisonWithStats.AvgCPU = avgCPU,
              ContainerComparisonWithStats.MaxCPU = maxCPU,
              ContainerComparisonWithStats.MinCPU = minCPU,
              ContainerComparisonWithStats.AvgMem = avgMem,
              ContainerComparisonWithStats.MaxMem = maxMem,
              ContainerComparisonWithStats.MinMem = minMem\<rparr>))"

section \<open>getAllContainerSummaries (main.go, lines 277-375)\<close>

text \<open>
  A Go map with string keys: the entries, each key once. Reading a key that is not there
  gives the zero value; writing replaces the entry or adds one. The order in which
  \<open>range\<close> visits the entries is chosen by the runtime at each loop: it is the
  parameter \<open>rng\<close> of the model, any function that returns a permutation of the entries.
\<close>

definition mapGet :: "'v \<Rightarrow> (string \<times> 'v) list \<Rightarrow> string \<Rightarrow> 'v" where
  "mapGet zero m k = (case map_of m k of None \<Rightarrow> zero | Some v \<Rightarrow> v)"

fun mapSet :: "(string \<times> 'v) list \<Rightarrow> string \<Rightarrow> 'v \<Rightarrow> (string \<times> 'v) list" where
  "mapSet [] k v = [(k, v)]"
| "mapSet ((k', v') # m) k v = (if k' = k then (k, v) # m else (k', v') # mapSet m k v)"

definition rangeContract :: "((string \<times> 'v) list \<Rightarrow> (string \<times> 'v) list) \<Rightarrow> bool" where
  "rangeContract rng = (\<forall>m. mset (rng m) = mset m)"

text \<open>Lines 283-306; the state is \<open>(containerData, containerNames)\<close>.\<close>

fun collectStats ::
  "StatsFile \<Rightarrow> (string \<times> ContainerDataPoint list) list \<times> (string \<times> string) list
     \<Rightarrow> DockerStat list
     \<Rightarrow> (string \<times> ContainerDataPoint list) list \<times> (string \<times> string) list" where
  "collectStats statsFile (containerData, containerNames) [] = (containerData, containerNames)"
| "collectStats statsFile (containerData, containerNames) (stat # stats) =
     collectStats statsFile
       (mapSet containerData (ID stat)
          (mapGet [] containerData (ID stat) @ [dataPointOf statsFile stat]),
        mapSet containerNames (ID stat) (DockerStat.Name stat))
       stats"

fun collectFiles ::
  "(string \<times> ContainerDataPoint list) list \<times> (string \<times> string) list \<Rightarrow> StatsFile list
     \<Rightarrow> (string \<times> ContainerDataPoint list) list \<times> (string \<times> string) list" where
  "collectFiles st [] = st"
| "collectFiles st (statsFile # statsFiles) =
     collectFiles (collectStats statsFile st (Stats statsFile)) statsFiles"

text \<open>Lines 315-364, the summary of one container from its data points, which are not empty.\<close>

definition summarize ::
  "((ContainerDataPoint \<Rightarrow> ContainerDataPoint \<Rightarrow> bool) \<Rightarrow> ContainerDataPoint list
      \<Rightarrow> ContainerDataPoint list)
     \<Rightarrow> (string \<times> string) list \<Rightarrow> string \<Rightarrow> ContainerDataPoint list \<Rightarrow> ContainerSummary" where
  "summarize srt containerNames containerID dataPoints0 =
     (let dataPoints = srt oldestFirst dataPoints0 in
      case (seriesStats (map CPUPerc dataPoints), seriesStats (map MemPerc dataPoints)) of
        ((avgCPU, maxCPU, minCPU), (avgMem, maxMem, minMem)) \<Rightarrow>
          \<lparr>ContainerSummary.ContainerID = containerID,
           ContainerName = mapGet [] containerNames containerID,
           DataPoints = int (length dataPoints),
           AvgCPU = avgCPU, MaxCPU = maxCPU, MinCPU = minCPU,
           AvgMem = avgMem, MaxMem = maxMem, MinMem = minMem,
           FirstSeen = ContainerDataPoint.Timestamp (hd dataPoints),
           LastSeen = ContainerDataPoint.Timestamp (last dataPoints)\<rparr>)"

text \<open>Lines 309-367, the loop over the entries of \<open>containerData\<close> in the order of \<open>range\<close>.\<close>

fun summaryLoop ::
  "((ContainerDataPoint \<Rightarrow> ContainerDataPoint \<Rightarrow> bool) \<Rightarrow> ContainerDataPoint list
      \<Rightarrow> ContainerDataPoint list)
     \<Rightarrow> (string \<times> string) list \<Rightarrow> ContainerSummary list
     \<Rightarrow> (string \<times> ContainerDataPoint list) list \<Rightarrow> ContainerSummary list" where
  "summaryLoop srt containerNames summaries [] = summaries"
| "summaryLoop srt containerNames summaries ((containerID, dataPoints) # rest) =
     (if length dataPoints = 0 then summaryLoop srt containerNames summaries rest
      else summaryLoop srt containerNames
             (summaries @ [summarize srt containerNames containerID dataPoints]) rest)"

definition byAvgCPU :: "ContainerSummary \<Rightarrow> ContainerSummary \<Rightarrow> bool" where
  "byAvgCPU a b = fgt (ContainerSummary.AvgCPU a) (ContainerSummary.AvgCPU b)"

definition getAllContainerSummaries ::
  "((ContainerDataPoint \<Rightarrow> ContainerDataPoint \<Rightarrow> bool) \<Rightarrow> ContainerDataPoint list
      \<Rightarrow> ContainerDataPoint list)
     \<Rightarrow> ((ContainerSummary \<Rightarrow> ContainerSummary \<Rightarrow> bool) \<Rightarrow> ContainerSummary list
          \<Rightarrow> ContainerSummary list)
     \<Rightarrow> ((string \<times> ContainerDataPoint list) list \<Rightarrow> (string \<times> ContainerDataPoint list) list)
     \<Rightarrow> StatsFile list \<Rightarrow> ContainerSummary list" where
  "getAllContainerSummaries srtPoints srtSummaries rng statsFiles =
     (case collectFiles ([], []) statsFiles of
        (containerData, containerNames) \<Rightarrow>
          srtSummaries byAvgCPU (summaryLoop srtPoints containerNames [] (rng containerData)))"

section \<open>Reference notions for the series\<close>

text \<open>
  The records of a catalog in the order in which both functions scan them, each with
  its snapshot; those of one container; the data points they are converted into; and
  the first non-empty string of a list (the empty string when there is none).
\<close>

definition records :: "StatsFile list \<Rightarrow> (StatsFile \<times> DockerStat) list" where
  "records statsFiles = concat (map (\<lambda>statsFile. map (Pair statsFile) (Stats statsFile)) statsFiles)"

definition matches :: "string \<Rightarrow> StatsFile list \<Rightarrow> (StatsFile \<times> DockerStat) list" where
  "matches containerID statsFiles = filter (\<lambda>r. ID (snd r) = containerID) (records statsFiles)"

definition pointsOf :: "string \<Rightarrow> StatsFile list \<Rightarrow> ContainerDataPoint list" where
  "pointsOf containerID statsFiles =
     map (\<lambda>r. dataPointOf (fst r) (snd r)) (matches containerID statsFiles)"

definition firstNonEmpty :: "string list \<Rightarrow> string" where
  "firstNonEmpty names = (case filter (\<lambda>n. n \<noteq> []) names of [] \<Rightarrow> [] | n # _ \<Rightarrow> n)"

text \<open>
  What the two maps hold after the records \<open>rs\<close> have been scanned: for each container
  its data points in scan order, and the name of its last record.
\<close>

definition scanned ::
  "(string \<times> ContainerDataPoint list) list \<times> (string \<times> string) list
     \<Rightarrow> (StatsFile \<times> DockerStat) list \<Rightarrow> bool" where
  "scanned st rs =
     (distinct (map fst (fst st)) \<and> distinct (map fst (snd st))
      \<and> (\<forall>k. map_of (fst st) k =
            (if filter (\<lambda>r. ID (snd r) = k) rs = [] then None
             else Some (map (\<lambda>r. dataPointOf (fst r) (snd r)) (filter (\<lambda>r. ID (snd r) = k) rs))))
      \<and> (\<forall>k. map_of (snd st) k =
            (if filter (\<lambda>r. ID (snd r) = k) rs = [] then None
             else Some (DockerStat.Name (snd (last (filter (\<lambda>r. ID (snd r) = k) rs)))))))"

section \<open>The refresh loop of main (main.go, lines 1125-1154)\<close>

record ServerData =
  Files :: "StatsFile list"

text \<open>
  The two variables the goroutine writes: the local \<open>statsFiles\<close> of \<open>main\<close> and the
  \<open>Files\<close> field behind the pointer \<open>serverData\<close>.
\<close>

record mainState =
  statsFiles :: "StatsFile list"
  serverData :: ServerData

text \<open>
  One pass of the body of the \<open>for range ticker.C\<close> loop. \<open>scriptOk\<close> says whether
  \<open>cmd.Run()\<close> of \<open>bash run.sh\<close> returned no error, and \<open>w\<close> is the environment it left.
  Every \<open>continue\<close> leaves the state as it was.
\<close>

definition refreshTick ::
  "((StatsFile \<Rightarrow> StatsFile \<Rightarrow> bool) \<Rightarrow> StatsFile list \<Rightarrow> StatsFile list) \<Rightarrow> world \<Rightarrow> bool
     \<Rightarrow> mainState \<Rightarrow> mainState" where
  "refreshTick srt w scriptOk st =
     (if \<not> scriptOk then st
      else (case snd (loadAllStatsFiles srt w ''stats/'') of
              Inl err \<Rightarrow> st
            | Inr newStatsFiles \<Rightarrow>
                if length newStatsFiles = 0 then st
                else st\<lparr>statsFiles := newStatsFiles,
                        serverData := (serverData st)\<lparr>Files := newStatsFiles\<rparr>\<rparr>))"

section \<open>An example environment\<close>

text \<open>
  A directory \<open>stats/\<close> with the two snapshot files of Scenario A, a subdirectory, a
  snapshot file whose second line does not decode, and a file that is no snapshot file.
  The decoder is given on the lines that occur: each of the two records decodes to the
  record with the nine fields its line holds, and no other line of the examples is JSON.
\<close>

definition statAbc :: "string \<Rightarrow> string \<Rightarrow> DockerStat" where
  "statAbc cpu mem =
     \<lparr>DockerStat.BlockIO = ''0B / 0B'', DockerStat.CPUPerc = cpu, DockerStat.Container = ''abc'',
      DockerStat.ID = ''abc'', DockerStat.MemPerc = mem, DockerStat.MemUsage = ''10MiB / 1GiB'',
      DockerStat.Name = ''web'', DockerStat.NetIO = ''1kB / 2kB'', DockerStat.PIDs = ''3''\<rparr>"

definition lineA :: string where
  "lineA = ''{\"BlockIO\":\"0B / 0B\",\"CPUPerc\":\"10.00%\",\"Container\":\"abc\",\"ID\":\"abc\",\"MemPerc\":\"20.00%\",\"MemUsage\":\"10MiB / 1GiB\",\"Name\":\"web\",\"NetIO\":\"1kB / 2kB\",\"PIDs\":\"3\"}''"

definition lineB :: string where
  "lineB = ''{\"BlockIO\":\"0B / 0B\",\"CPUPerc\":\"30.00%\",\"Container\":\"abc\",\"ID\":\"abc\",\"MemPerc\":\"40.00%\",\"MemUsage\":\"10MiB / 1GiB\",\"Name\":\"web\",\"NetIO\":\"1kB / 2kB\",\"PIDs\":\"3\"}''"

definition exampleUnmarshal :: "string \<Rightarrow> DockerStat option" where
  "exampleUnmarshal line =
     (if line = lineA then Some (statAbc ''10.00%'' ''20.00%'')
      else if line = lineB then Some (statAbc ''30.00%'' ''40.00%'')
      else None)"

definition exampleNow :: time where
  "exampleNow = \<lparr>year = 2026, month = 11, day = 3, hour = 12, minute = 0, second = 0,
                  nsec = 0, offset = 0\<rparr>"

definition exampleWorld :: world where
  "exampleWorld =
     \<lparr>ReadDir = (\<lambda>dir. if dir = ''stats/'' then
          Some [\<lparr>DirEntry.Name = ''2024-01-01_10-00-00_x.json'', IsDir = False\<rparr>,
                \<lparr>DirEntry.Name = ''2024-01-01_11-00-00_x.json'', IsDir = False\<rparr>,
                \<lparr>DirEntry.Name = ''archive.json'', IsDir = True\<rparr>,
                \<lparr>DirEntry.Name = ''broken_1_2.json'', IsDir = False\<rparr>,
                \<lparr>DirEntry.Name = ''notes.txt'', IsDir = False\<rparr>]
        else None),
      Open = (\<lambda>p. if p = ''stats/2024-01-01_10-00-00_x.json''
                     then Some \<lparr>bytes = lineA @ [char_of (10::nat)], readFails = False\<rparr>
                   else if p = ''stats/2024-01-01_11-00-00_x.json''
                     then Some \<lparr>bytes = [char_of (10::nat)] @ lineB, readFails = False\<rparr>
                   else if p = ''stats/broken_1_2.json''
                     then Some \<lparr>bytes = lineA @ [char_of (10::nat)] @ ''{broken'', readFails = False\<rparr>
                   else None),
      Unmarshal = exampleUnmarshal,
      Now = (\<lambda>p. exampleNow)\<rparr>"

definition t10 :: time where
  "t10 = \<lparr>year = 2024, month = 1, day = 1, hour = 10, minute = 0, second = 0, nsec = 0, offset = 0\<rparr>"

definition t11 :: time where
  "t11 = \<lparr>year = 2024, month = 1, day = 1, hour = 11, minute = 0, second = 0, nsec = 0, offset = 0\<rparr>"

definition fileA :: StatsFile where
  "fileA = \<lparr>StatsFile.Name = ''2024-01-01_10-00-00_x.json'', StatsFile.Timestamp = t10,
            Stats = [statAbc ''10.00%'' ''20.00%'']\<rparr>"

definition fileB :: StatsFile where
  "fileB = \<lparr>StatsFile.Name = ''2024-01-01_11-00-00_x.json'', StatsFile.Timestamp = t11,
            Stats = [statAbc ''30.00%'' ''40.00%'']\<rparr>"

text \<open>
  Two more environments, one whose directory is empty and one whose directory cannot be
  read, and a state of the server that holds one snapshot.
\<close>

definition emptyWorld :: world where
  "emptyWorld = exampleWorld\<lparr>ReadDir := (\<lambda>dir. Some [])\<rparr>"

definition unreadableWorld :: world where
  "unreadableWorld = exampleWorld\<lparr>ReadDir := (\<lambda>dir. None)\<rparr>"

text \<open>
  A directory whose one snapshot file is empty and has a name of two segments only, and
  a directory whose one snapshot file has a first line of 65536 spaces and then the
  record of \<open>lineA\<close>.
\<close>

definition twoSegmentWorld :: world where
  "twoSegmentWorld =
     exampleWorld\<lparr>ReadDir := (\<lambda>dir. Some [\<lparr>DirEntry.Name = ''2024-01-01_10-00-00.json'', IsDir = False\<rparr>]),
                  Open := (\<lambda>p. Some \<lparr>bytes = [], readFails = False\<rparr>)\<rparr>"

definition longBlank :: string where
  "longBlank = replicate 65536 CHR '' ''"

definition longLineWorld :: world where
  "longLineWorld =
     exampleWorld\<lparr>ReadDir := (\<lambda>dir. Some [\<lparr>DirEntry.Name = ''2024-01-01_10-00-00_x.json'', IsDir = False\<rparr>]),
                  Open := (\<lambda>p. Some \<lparr>bytes = longBlank @ [char_of (10::nat)] @ lineA, readFails = False\<rparr>)\<rparr>"

definition state0 :: mainState where
  "state0 = \<lparr>statsFiles = [fileA], serverData = \<lparr>Files = [fileA]\<rparr>\<rparr>"

text \<open>
  Catalogs for the series and the summaries. \<open>snapshot\<close> is the snapshot of a file that
  is named after the given time, as the files of Scenario A are, and holds the given
  records; \<open>pointAt\<close> is the data point of a record made by \<open>statAbc\<close> with the timestamp
  and percentages given.
\<close>

definition t12 :: time where
  "t12 = \<lparr>year = 2024, month = 1, day = 1, hour = 12, minute = 0, second = 0, nsec = 0, offset = 0\<rparr>"

definition tFar :: time where
  "tFar = \<lparr>year = 10000, month = 1, day = 1, hour = 0, minute = 0, second = 0, nsec = 0, offset = 0\<rparr>"


definition fileFar :: StatsFile where
  "fileFar = \<lparr>StatsFile.Name = ''latest.json'', StatsFile.Timestamp = tFar,
              Stats = [statAbc ''10.00%'' ''20.00%'']\<rparr>"

definition snapshotName :: "time \<Rightarrow> string" where
  "snapshotName t =
     map (\<lambda>c. if c = CHR '' '' then CHR ''_'' else if c = CHR '':'' then CHR ''-'' else c) (Format t)
     @ ''_x.json''"

definition snapshot :: "time \<Rightarrow> DockerStat list \<Rightarrow> StatsFile" where
  "snapshot t rs = \<lparr>StatsFile.Name = snapshotName t, StatsFile.Timestamp = t, Stats = rs\<rparr>"

definition pointAt :: "string \<Rightarrow> float64 \<Rightarrow> float64 \<Rightarrow> ContainerDataPoint" where
  "pointAt ts cpu mem =
     \<lparr>ContainerDataPoint.Timestamp = ts, CPUPerc = cpu, MemPerc = mem,
      MemUsage = ''10MiB / 1GiB'', NetIO = ''1kB / 2kB'', BlockIO = ''0B / 0B'', PIDs = ''3''\<rparr>"

text \<open>The binary64 value of the decimal 0.1, and what three of them add up to and average to.\<close>

definition tenth :: rat where
  "tenth = 3602879701896397 / 36028797018963968"

definition tenthAvg :: rat where
  "tenthAvg = 7205759403792795 / 72057594037927936"

text \<open>
  The catalog the loader returns for the example directory (Scenario A), and catalogs
  in which a snapshot carries a year of five digits, a container was renamed, two
  containers have the same average, a percentage reads \<open>NaN%\<close>, and three snapshots
  report \<open>0.10%\<close>.
\<close>

definition scenarioA :: "StatsFile list" where
  "scenarioA = [fileB, fileA]"


definition renamedCatalog :: "StatsFile list" where
  "renamedCatalog =
     [snapshot t11 [(statAbc ''30.00%'' ''40.00%'')\<lparr>DockerStat.Name := ''api''\<rparr>],
      snapshot t10 [statAbc ''10.00%'' ''20.00%'']]"

definition tieCatalog :: "StatsFile list" where
  "tieCatalog =
     [snapshot t10 [(statAbc ''10.00%'' ''20.00%'')\<lparr>DockerStat.ID := ''aaa''\<rparr>,
                    (statAbc ''10.00%'' ''20.00%'')\<lparr>DockerStat.ID := ''bbb''\<rparr>]]"

definition nanCatalog :: "StatsFile list" where
  "nanCatalog =
     [snapshot t11 [statAbc ''30.00%'' ''40.00%''], snapshot t10 [statAbc ''NaN%'' ''20.00%'']]"

definition tenthCatalog :: "StatsFile list" where
  "tenthCatalog =
     [snapshot t12 [statAbc ''0.10%'' ''20.00%''], snapshot t11 [statAbc ''0.10%'' ''20.00%''],
      snapshot t10 [statAbc ''0.10%'' ''20.00%'']]"

definition pointA :: ContainerDataPoint where
  "pointA = pointAt ''2024-01-01 10:00:00'' (Fin 10) (Fin 20)"

definition pointB :: ContainerDataPoint where
  "pointB = pointAt ''2024-01-01 11:00:00'' (Fin 30) (Fin 40)"


definition pointNaN :: ContainerDataPoint where
  "pointNaN = pointAt ''2024-01-01 10:00:00'' NaN (Fin 20)"

definition summaryA :: ContainerSummary where
  "summaryA =
     \<lparr>ContainerSummary.ContainerID = ''abc'', ContainerSummary.ContainerName = ''web'',
      DataPoints = 2,
      ContainerSummary.AvgCPU = Fin 20, ContainerSummary.MaxCPU = Fin 30,
      ContainerSummary.MinCPU = Fin 10, ContainerSummary.AvgMem = Fin 30,
      ContainerSummary.MaxMem = Fin 40, ContainerSummary.MinMem = Fin 20,
      FirstSeen = ''2024-01-01 10:00:00'', LastSeen = ''2024-01-01 11:00:00''\<rparr>"

section \<open>Properties of the sort\<close>

lemma insertBack_mset: "mset (insertBack lt x ys) = add_mset x (mset ys)"
  by (induction ys) auto

lemma foldl_insertBack_mset:
  "mset (foldl (\<lambda>acc x. insertBack lt x acc) acc xs) = mset acc + mset xs"
  by (induction xs arbitrary: acc) (auto simp: insertBack_mset)

lemma insertionSort_mset: "mset (insertionSort lt xs) = mset xs"
  by (simp add: insertionSort_def foldl_insertBack_mset)

lemma strictWeak_mono: "strictWeak lt A \<Longrightarrow> B \<subseteq> A \<Longrightarrow> strictWeak lt B"
  unfolding strictWeak_def by (meson subsetD)

lemma strictWeak_asym: "strictWeak lt A \<Longrightarrow> a \<in> A \<Longrightarrow> b \<in> A \<Longrightarrow> lt a b \<Longrightarrow> \<not> lt b a"
  unfolding strictWeak_def by blast

lemma strictWeak_negtrans:
  "strictWeak lt A \<Longrightarrow> a \<in> A \<Longrightarrow> b \<in> A \<Longrightarrow> c \<in> A \<Longrightarrow> \<not> lt a b \<Longrightarrow> \<not> lt b c \<Longrightarrow> \<not> lt a c"
  unfolding strictWeak_def by blast

lemma set_insertBack: "set (insertBack lt x ys) = insert x (set ys)"
  by (induction ys) auto

lemma insertBack_sorted:
  assumes sw: "strictWeak lt (insert x (set ys))"
    and s: "sorted_wrt (\<lambda>a b. \<not> lt a b) ys"
  shows "sorted_wrt (\<lambda>a b. \<not> lt a b) (insertBack lt x ys)"
  using sw s
proof (induction ys)
  case Nil
  then show ?case by simp
next
  case (Cons y ys)
  note sw = Cons.prems(1)
  have sw': "strictWeak lt (insert x (set ys))"
    by (rule strictWeak_mono[OF sw]) auto
  have sys: "sorted_wrt (\<lambda>a b. \<not> lt a b) ys" and yall: "\<forall>z\<in>set ys. \<not> lt y z"
    using Cons.prems(2) by simp_all
  show ?case
  proof (cases "lt x y")
    case True
    have ih: "sorted_wrt (\<lambda>a b. \<not> lt a b) (insertBack lt x ys)"
      by (rule Cons.IH[OF sw' sys])
    have "\<not> lt y x"
      by (rule strictWeak_asym[OF sw _ _ True]) simp_all
    with yall have "\<forall>z\<in>set (insertBack lt x ys). \<not> lt y z"
      by (simp add: set_insertBack)
    with True ih show ?thesis by simp
  next
    case False
    have "\<forall>z\<in>set ys. \<not> lt x z"
    proof
      fix z assume z: "z \<in> set ys"
      then have "\<not> lt y z" using yall by simp
      with False z show "\<not> lt x z"
        using strictWeak_negtrans[OF sw, of x y z] by simp
    qed
    with False sys yall show ?thesis by simp
  qed
qed

lemma foldl_insertBack_sorted:
  "strictWeak lt (set acc \<union> set xs) \<Longrightarrow> sorted_wrt (\<lambda>a b. \<not> lt a b) acc
   \<Longrightarrow> sorted_wrt (\<lambda>a b. \<not> lt a b) (foldl (\<lambda>acc x. insertBack lt x acc) acc xs)"
proof (induction xs arbitrary: acc)
  case Nil
  then show ?case by simp
next
  case (Cons x xs)
  have sw1: "strictWeak lt (insert x (set acc))"
    by (rule strictWeak_mono[OF Cons.prems(1)]) auto
  have s1: "sorted_wrt (\<lambda>a b. \<not> lt a b) (insertBack lt x acc)"
    by (rule insertBack_sorted[OF sw1 Cons.prems(2)])
  have sw2: "strictWeak lt (set (insertBack lt x acc) \<union> set xs)"
    by (rule strictWeak_mono[OF Cons.prems(1)]) (auto simp: set_insertBack)
  show ?case using Cons.IH[OF sw2 s1] by simp
qed

lemma insertionSort_contract: "sortContract insertionSort"
  unfolding sortContract_def
proof (intro allI conjI impI)
  fix lt :: "'a \<Rightarrow> 'a \<Rightarrow> bool" and xs
  show "mset (insertionSort lt xs) = mset xs" by (rule insertionSort_mset)
next
  fix lt :: "'a \<Rightarrow> 'a \<Rightarrow> bool" and xs
  assume "strictWeak lt (set xs)"
  then have "sorted_wrt (\<lambda>a b. \<not> lt a b) (foldl (\<lambda>acc x. insertBack lt x acc) [] xs)"
    by (intro foldl_insertBack_sorted) simp_all
  then show "sorted_wrt (\<lambda>a b. \<not> lt b a) (insertionSort lt xs)"
    by (simp add: insertionSort_def sorted_wrt_rev)
qed

lemma sortContract_mset: "sortContract srt \<Longrightarrow> mset (srt lt xs) = mset xs"
  unfolding sortContract_def by blast

lemma sortContract_sorted:
  "sortContract srt \<Longrightarrow> strictWeak lt (set xs) \<Longrightarrow> sorted_wrt (\<lambda>a b. \<not> lt b a) (srt lt xs)"
  unfolding sortContract_def by blast

lemma newestFirst_strictWeak: "strictWeak newestFirst A"
  unfolding strictWeak_def newestFirst_def After_def by auto

lemma scanLoop_ok:
  "(\<exists>ds. scanLoop um p n acc ls = Inr ds)
     \<longleftrightarrow> list_all (lineDecodes um) ls \<and> list_all (\<lambda>raw. length raw < MaxScanTokenSize) ls"
proof (induction ls arbitrary: n acc)
  case Nil
  then show ?case by simp
next
  case (Cons raw rest)
  show ?case
    using Cons.IH by (auto simp: lineDecodes_def Let_def split: option.splits)
qed

lemma parseStatsFile_ok:
  "(\<exists>sf. parseStatsFile w p = Inr sf) \<longleftrightarrow> structurallyWellFormed w p \<and> linesFit w p"
proof (cases "Open w p")
  case None
  then show ?thesis by (simp add: parseStatsFile_def structurallyWellFormed_def)
next
  case (Some fl)
  show ?thesis
    using scanLoop_ok[of "Unmarshal w" p 0 "[]" "rawLines (bytes fl)"] Some
    by (auto simp: parseStatsFile_def structurallyWellFormed_def linesFit_def Let_def
        split: sum.splits)
qed

lemma loadLoop_result:
  "loadLoop w dir ws acc files =
     (ws @ map (\<lambda>e. (Join dir (DirEntry.Name e), projl (parseStatsFile w (Join dir (DirEntry.Name e)))))
            (filter (\<lambda>e. candidate e
                        \<and> \<not> (structurallyWellFormed w (Join dir (DirEntry.Name e))
                             \<and> linesFit w (Join dir (DirEntry.Name e)))) files),
      acc @ map (\<lambda>e. projr (parseStatsFile w (Join dir (DirEntry.Name e))))
            (filter (\<lambda>e. candidate e
                        \<and> structurallyWellFormed w (Join dir (DirEntry.Name e))
                        \<and> linesFit w (Join dir (DirEntry.Name e))) files))"
proof (induction files arbitrary: ws acc)
  case Nil
  then show ?case by simp
next
  case (Cons fl files)
  show ?case
  proof (cases "candidate fl")
    case False
    then show ?thesis using Cons.IH by (auto simp: candidate_def)
  next
    case True
    show ?thesis
    proof (cases "parseStatsFile w (Join dir (DirEntry.Name fl))")
      case (Inl err)
      then have "\<not> (structurallyWellFormed w (Join dir (DirEntry.Name fl))
                    \<and> linesFit w (Join dir (DirEntry.Name fl)))"
        using parseStatsFile_ok[of w "Join dir (DirEntry.Name fl)"] by auto
      with True Inl show ?thesis using Cons.IH by (auto simp: candidate_def Let_def)
    next
      case (Inr sf)
      then have "structurallyWellFormed w (Join dir (DirEntry.Name fl))
                 \<and> linesFit w (Join dir (DirEntry.Name fl))"
        using parseStatsFile_ok[of w "Join dir (DirEntry.Name fl)"] by auto
      with True Inr show ?thesis using Cons.IH by (auto simp: candidate_def Let_def)
    qed
  qed
qed

section \<open>The example environment, evaluated\<close>

lemma lineA_short: "\<not> MaxScanTokenSize \<le> length lineA"
  by (simp add: MaxScanTokenSize_def lineA_def)

lemma lineB_short: "\<not> MaxScanTokenSize \<le> length lineB"
  by (simp add: MaxScanTokenSize_def lineB_def)

lemma blank_short: "\<not> MaxScanTokenSize \<le> length ([]::string)"
  by (simp add: MaxScanTokenSize_def)

lemma broken_short: "\<not> MaxScanTokenSize \<le> length ''{broken''"
  by (simp add: MaxScanTokenSize_def)

lemma world_Unmarshal: "Unmarshal exampleWorld = exampleUnmarshal"
  by (simp add: exampleWorld_def)

lemma world_Now: "Now exampleWorld p = exampleNow"
  by (simp add: exampleWorld_def)

lemma world_Open_A:
  "Open exampleWorld ''stats/2024-01-01_10-00-00_x.json''
     = Some \<lparr>bytes = lineA @ [char_of (10::nat)], readFails = False\<rparr>"
  by (simp add: exampleWorld_def)

lemma world_Open_B:
  "Open exampleWorld ''stats/2024-01-01_11-00-00_x.json''
     = Some \<lparr>bytes = [char_of (10::nat)] @ lineB, readFails = False\<rparr>"
  by (simp add: exampleWorld_def)

lemma world_Open_broken:
  "Open exampleWorld ''stats/broken_1_2.json''
     = Some \<lparr>bytes = lineA @ [char_of (10::nat)] @ ''{broken'', readFails = False\<rparr>"
  by (simp add: exampleWorld_def)

lemma lineA_trim: "TrimSpace (dropCR lineA) = lineA"
  by code_simp

lemma lineB_trim: "TrimSpace (dropCR lineB) = lineB"
  by code_simp

lemma blank_trim: "TrimSpace (dropCR []) = []"
  by code_simp

lemma broken_trim: "TrimSpace (dropCR ''{broken'') = ''{broken''"
  by code_simp

lemma lineA_nonempty: "lineA \<noteq> []"
  by (simp add: lineA_def)

lemma lineB_nonempty: "lineB \<noteq> []"
  by (simp add: lineB_def)

lemma unmarshal_lineA: "exampleUnmarshal lineA = Some (statAbc ''10.00%'' ''20.00%'')"
  by (simp add: exampleUnmarshal_def)

lemma unmarshal_lineB: "exampleUnmarshal lineB = Some (statAbc ''30.00%'' ''40.00%'')"
  by code_simp

lemma unmarshal_broken: "exampleUnmarshal ''{broken'' = None"
  by code_simp

lemma rawLines_A: "rawLines (lineA @ [char_of (10::nat)]) = [lineA]"
  by code_simp

lemma rawLines_B: "rawLines ([char_of (10::nat)] @ lineB) = [[], lineB]"
  by code_simp

lemma rawLines_broken: "rawLines (lineA @ [char_of (10::nat)] @ ''{broken'') = [lineA, ''{broken'']"
  by code_simp

lemma scan_A: "scanLoop exampleUnmarshal p 0 [] [lineA] = Inr [statAbc ''10.00%'' ''20.00%'']"
  by (simp add: lineA_short lineA_trim lineA_nonempty unmarshal_lineA)

lemma scan_B: "scanLoop exampleUnmarshal p 0 [] [[], lineB] = Inr [statAbc ''30.00%'' ''40.00%'']"
  by (simp add: lineB_short lineB_trim lineB_nonempty unmarshal_lineB blank_trim blank_short del: list.size)

lemma scan_broken: "scanLoop exampleUnmarshal p 0 [] [lineA, ''{broken''] = Inl (ErrParseLine 2 p)"
  by (simp add: lineA_short lineA_trim lineA_nonempty unmarshal_lineA broken_trim unmarshal_broken broken_short del: list.size)

lemma stamp_A: "fileTimestamp ''2024-01-01_10-00-00_x.json'' exampleNow = t10"
  by code_simp

lemma stamp_B: "fileTimestamp ''2024-01-01_11-00-00_x.json'' exampleNow = t11"
  by code_simp

lemma parse_fileA: "parseStatsFile exampleWorld ''stats/2024-01-01_10-00-00_x.json'' = Inr fileA"
proof -
  have b: "Base ''stats/2024-01-01_10-00-00_x.json'' = ''2024-01-01_10-00-00_x.json''"
    by code_simp
  show ?thesis
    by (simp add: parseStatsFile_def world_Open_A world_Unmarshal world_Now rawLines_A scan_A b stamp_A fileA_def del: scanLoop.simps)
qed

lemma parse_fileB: "parseStatsFile exampleWorld ''stats/2024-01-01_11-00-00_x.json'' = Inr fileB"
proof -
  have b: "Base ''stats/2024-01-01_11-00-00_x.json'' = ''2024-01-01_11-00-00_x.json''"
    by code_simp
  show ?thesis
    by (simp add: parseStatsFile_def world_Open_B world_Unmarshal world_Now rawLines_B scan_B b stamp_B fileB_def del: append.simps scanLoop.simps)
qed

lemma parse_broken:
  "parseStatsFile exampleWorld ''stats/broken_1_2.json'' = Inl (ErrParseLine 2 ''stats/broken_1_2.json'')"
  by (simp add: parseStatsFile_def world_Open_broken world_Unmarshal rawLines_broken scan_broken del: append.simps scanLoop.simps)

lemma world_ReadDir:
  "ReadDir exampleWorld ''stats/'' =
     Some [\<lparr>DirEntry.Name = ''2024-01-01_10-00-00_x.json'', IsDir = False\<rparr>,
           \<lparr>DirEntry.Name = ''2024-01-01_11-00-00_x.json'', IsDir = False\<rparr>,
           \<lparr>DirEntry.Name = ''archive.json'', IsDir = True\<rparr>,
           \<lparr>DirEntry.Name = ''broken_1_2.json'', IsDir = False\<rparr>,
           \<lparr>DirEntry.Name = ''notes.txt'', IsDir = False\<rparr>]"
  by (simp add: exampleWorld_def)

lemma example_names:
  "HasSuffix ''2024-01-01_10-00-00_x.json'' ''.json''"
  "HasSuffix ''2024-01-01_11-00-00_x.json'' ''.json''"
  "HasSuffix ''broken_1_2.json'' ''.json''"
  "\<not> HasSuffix ''notes.txt'' ''.json''"
  by code_simp+

lemma example_paths:
  "Join ''stats/'' ''2024-01-01_10-00-00_x.json'' = ''stats/2024-01-01_10-00-00_x.json''"
  "Join ''stats/'' ''2024-01-01_11-00-00_x.json'' = ''stats/2024-01-01_11-00-00_x.json''"
  "Join ''stats/'' ''broken_1_2.json'' = ''stats/broken_1_2.json''"
  by code_simp+

lemma example_order: "After t11 t10" "\<not> After t10 t11"
  by code_simp+

lemma loadLoop_example:
  "loadLoop exampleWorld ''stats/'' [] []
     [\<lparr>DirEntry.Name = ''2024-01-01_10-00-00_x.json'', IsDir = False\<rparr>,
      \<lparr>DirEntry.Name = ''2024-01-01_11-00-00_x.json'', IsDir = False\<rparr>,
      \<lparr>DirEntry.Name = ''archive.json'', IsDir = True\<rparr>,
      \<lparr>DirEntry.Name = ''broken_1_2.json'', IsDir = False\<rparr>,
      \<lparr>DirEntry.Name = ''notes.txt'', IsDir = False\<rparr>]
   = ([(''stats/broken_1_2.json'', ErrParseLine 2 ''stats/broken_1_2.json'')], [fileA, fileB])"
  by (simp add: example_names example_paths parse_fileA parse_fileB parse_broken Let_def)

lemma sort_example: "insertionSort newestFirst [fileA, fileB] = [fileB, fileA]"
  by (simp add: insertionSort_def newestFirst_def fileA_def fileB_def example_order)

lemma load_example:
  "loadAllStatsFiles insertionSort exampleWorld ''stats/'' =
     ([(''stats/broken_1_2.json'', ErrParseLine 2 ''stats/broken_1_2.json'')], Inr [fileB, fileA])"
  by (simp add: loadAllStatsFiles_def world_ReadDir loadLoop_example sort_example del: loadLoop.simps)

lemma Split_nonempty: "Split s c \<noteq> []"
  by (induction s) (auto split: list.splits)

lemma Split_no_sep: "c \<notin> set s \<Longrightarrow> Split s c = [s]"
  by (induction s) auto

lemma fileTimestamp_cases:
  "fileTimestamp basename fallback =
     (if 3 \<le> length (Split basename CHR ''_'') then
        (case parseFileStamp (Split basename CHR ''_'' ! 0 @ ''_'' @ Split basename CHR ''_'' ! 1) of
           Some t \<Rightarrow> t | None \<Rightarrow> fallback)
      else fallback)"
proof (cases "CHR ''_'' \<in> set basename")
  case True
  then show ?thesis by (simp add: fileTimestamp_def Let_def)
next
  case False
  then have "Split basename CHR ''_'' = [basename]" by (rule Split_no_sep)
  with False show ?thesis by (simp add: fileTimestamp_def)
qed

lemma parseStatsFile_Inr:
  "parseStatsFile w filePath = Inr statsFile \<Longrightarrow>
     StatsFile.Name statsFile = Base filePath
     \<and> StatsFile.Timestamp statsFile = fileTimestamp (Base filePath) (Now w filePath)"
  by (auto simp: parseStatsFile_def Let_def split: option.splits sum.splits if_splits)

lemma split_A:
  "Split (Base ''stats/2024-01-01_10-00-00_x.json'') CHR ''_'' = [''2024-01-01'', ''10-00-00'', ''x.json'']"
  by code_simp

lemma split_broken:
  "Split (Base ''stats/broken_1_2.json'') CHR ''_'' = [''broken'', ''1'', ''2.json'']"
  by code_simp

lemma stamp_ok: "parseFileStamp ''2024-01-01_10-00-00'' = Some t10"
  by code_simp

lemma stamp_bad: "parseFileStamp ''broken_1'' = None"
  by code_simp

lemma rawLines_empty: "rawLines [] = []"
  by code_simp

lemma now_differs: "exampleNow \<noteq> t10"
  by (simp add: exampleNow_def t10_def)

lemma load_unreadable:
  "loadAllStatsFiles insertionSort unreadableWorld ''stats/'' = ([], Inl (ErrReadDir ''stats/''))"
  by (simp add: loadAllStatsFiles_def unreadableWorld_def)

lemma load_empty: "loadAllStatsFiles insertionSort emptyWorld ''stats/'' = ([], Inr [])"
  by (simp add: loadAllStatsFiles_def emptyWorld_def insertionSort_def)

section \<open>A line too long for the scanner\<close>

lemma Split_replicate:
  "c \<noteq> sep \<Longrightarrow> Split (replicate n c @ sep # rest) sep = replicate n c # Split rest sep"
  by (induction n) simp_all

lemma leadingSpace_space: "leadingSpace (CHR '' '' # s) = 1"
  by (simp add: leadingSpace_def spaceRunes_def char_of_def bit_Suc_0_iff)

lemma TrimLeft_spaces: "TrimLeft (replicate n CHR '' '') = []"
proof (induction n)
  case 0
  then show ?case by simp
next
  case (Suc n)
  show ?case
    by (subst TrimLeft.simps) (simp add: leadingSpace_space Suc.IH del: TrimLeft.simps)
qed

lemma TrimRight_Nil: "TrimRight [] = []"
  by (subst TrimRight.simps) simp

lemma dropCR_spaces: "dropCR (replicate n CHR '' '') = replicate n CHR '' ''"
  by (cases n) (simp_all add: dropCR_def char_of_def bit_Suc_0_iff)

lemma longBlank_blank: "TrimSpace (dropCR longBlank) = []"
  by (simp only: longBlank_def dropCR_spaces TrimSpace_def TrimLeft_spaces TrimRight_Nil)

lemma longBlank_long: "MaxScanTokenSize \<le> length longBlank"
  by (simp add: longBlank_def MaxScanTokenSize_def)

lemma lineA_one_line: "Split lineA (char_of (10::nat)) = [lineA]"
  by (rule Split_no_sep) (simp add: lineA_def char_of_def bit_Suc_0_iff)

lemma rawLines_long: "rawLines (longBlank @ [char_of (10::nat)] @ lineA) = [longBlank, lineA]"
proof -
  have "Split (longBlank @ char_of (10::nat) # lineA) (char_of (10::nat))
          = longBlank # Split lineA (char_of (10::nat))"
    unfolding longBlank_def by (rule Split_replicate) (simp add: char_of_def bit_Suc_0_iff)
  then show ?thesis
    by (simp add: rawLines_def lineA_one_line lineA_nonempty)
qed

lemma world_Open_long:
  "Open longLineWorld p = Some \<lparr>bytes = longBlank @ [char_of (10::nat)] @ lineA, readFails = False\<rparr>"
  by (simp add: longLineWorld_def)

lemma world_Unmarshal_long: "Unmarshal longLineWorld = exampleUnmarshal"
  by (simp add: longLineWorld_def exampleWorld_def)

lemma wellFormed_long: "structurallyWellFormed longLineWorld p"
  by (simp add: structurallyWellFormed_def world_Open_long world_Unmarshal_long rawLines_long
      lineDecodes_def longBlank_blank lineA_trim unmarshal_lineA del: append.simps)

lemma parse_long: "parseStatsFile longLineWorld p = Inl (ErrRead p)"
  by (simp add: parseStatsFile_def world_Open_long rawLines_long longBlank_long
      del: append.simps)

lemma longLineWorld_ReadDir:
  "ReadDir longLineWorld dir
     = Some [\<lparr>DirEntry.Name = ''2024-01-01_10-00-00_x.json'', IsDir = False\<rparr>]"
  by (simp add: longLineWorld_def)

lemma load_long:
  "loadAllStatsFiles insertionSort longLineWorld ''stats/''
     = ([(''stats/2024-01-01_10-00-00_x.json'', ErrRead ''stats/2024-01-01_10-00-00_x.json'')], Inr [])"
  by (simp add: loadAllStatsFiles_def longLineWorld_ReadDir example_names example_paths parse_long
      insertionSort_def Let_def)

section \<open>What a file stamp ends in\<close>

lemma getnum_rest:
  "getnum v fixed = Some (n, r) \<Longrightarrow> \<exists>pre. v = pre @ r \<and> pre \<noteq> [] \<and> isDigit (last pre)"
proof (cases v)
  case Nil
  assume "getnum v fixed = Some (n, r)"
  with Nil show ?thesis by simp
next
  case (Cons c v')
  assume g: "getnum v fixed = Some (n, r)"
  show ?thesis
  proof (cases v')
    case Nil
    with Cons g show ?thesis by (auto split: if_splits)
  next
    case (Cons d r')
    show ?thesis
    proof (cases "isDigit d")
      case True
      with g \<open>v = c # v'\<close> Cons have "v = [c, d] @ r"
        by (auto split: if_splits)
      with True show ?thesis by (intro exI[of _ "[c, d]"]) simp
    next
      case False
      with g \<open>v = c # v'\<close> Cons have "v = [c] @ r \<and> isDigit c"
        by (auto split: if_splits)
      then show ?thesis by (intro exI[of _ "[c]"]) simp
    qed
  qed
qed

lemma getnum_last:
  assumes "getnum v fixed = Some (n, r)" and "r = [] \<or> isDigit (last r)"
  shows "v \<noteq> [] \<and> isDigit (last v)"
proof -
  obtain pre where p: "v = pre @ r" "pre \<noteq> []" "isDigit (last pre)"
    using getnum_rest[OF assms(1)] by blast
  show ?thesis
    using p assms(2) by (cases "r = []") simp_all
qed

lemma skip_rest: "skip v lit = Some r \<Longrightarrow> \<exists>pre. v = pre @ r"
proof (cases v)
  case Nil
  assume "skip v lit = Some r"
  with Nil show ?thesis by (auto split: if_splits)
next
  case (Cons c v')
  assume s: "skip v lit = Some r"
  show ?thesis
  proof (cases "lit = CHR '' ''")
    case True
    with s Cons have "r = dropWhile (\<lambda>x. x = CHR '' '') v"
      by (auto split: if_splits)
    then have "v = takeWhile (\<lambda>x. x = CHR '' '') v @ r" by simp
    then show ?thesis by blast
  next
    case False
    with s Cons have "v = [c] @ r" by (auto split: if_splits)
    then show ?thesis by blast
  qed
qed

lemma skip_last:
  assumes "skip v lit = Some r" and "r \<noteq> [] \<and> isDigit (last r)"
  shows "v \<noteq> [] \<and> isDigit (last v)"
proof -
  obtain pre where "v = pre @ r" using skip_rest[OF assms(1)] by blast
  then show ?thesis using assms(2) by simp
qed

lemma getyear_last:
  assumes "getyear v = Some (y, r)" and "r \<noteq> [] \<and> isDigit (last r)"
  shows "v \<noteq> [] \<and> isDigit (last v)"
proof -
  have r: "r = drop 4 v" using assms(1) by (auto simp: getyear_def split: if_splits)
  have "v = take 4 v @ r" unfolding r by simp
  then obtain pre where "v = pre @ r" ..
  then show ?thesis using assms(2) by simp
qed

lemma getfrac_last:
  assumes "getfrac v = (ns, [])"
  shows "v = [] \<or> isDigit (last v)"
proof (cases v)
  case Nil
  then show ?thesis by simp
next
  case (Cons c v')
  show ?thesis
  proof (cases v')
    case Nil
    with Cons assms show ?thesis by (simp add: getfrac_def)
  next
    case (Cons d r)
    with \<open>v = c # v'\<close> assms have dw: "dropWhile isDigit (d # r) = []"
      by (auto simp: getfrac_def Let_def split: if_splits)
    then have "\<forall>x \<in> set (d # r). isDigit x"
      by (simp only: dropWhile_eq_Nil_conv)
    then have "isDigit (last (d # r))"
      using last_in_set[of "d # r"] by blast
    with Cons \<open>v = c # v'\<close> show ?thesis by simp
  qed
qed

lemma parseClock_last:
  assumes "parseClock sep v6 = Some (x, [])"
  shows "v6 \<noteq> [] \<and> isDigit (last v6)"
proof -
  from assms obtain h v7 v8 mi v9 v10 s v11 where
    a: "getnum v6 False = Some (h, v7)" and b: "skip v7 sep = Some v8"
    and c: "getnum v8 True = Some (mi, v9)" and d: "skip v9 sep = Some v10"
    and e: "getnum v10 True = Some (s, v11)" and g: "snd (getfrac v11) = []"
    by (auto simp: parseClock_def Option.bind_eq_Some_conv case_prod_beta split: if_splits)
  have f: "getfrac v11 = (fst (getfrac v11), [])"
    using g by (simp add: prod_eq_iff)
  have "v10 \<noteq> [] \<and> isDigit (last v10)" using getnum_last[OF e getfrac_last[OF f]] .
  then have "v9 \<noteq> [] \<and> isDigit (last v9)" by (rule skip_last[OF d])
  then have "v8 \<noteq> [] \<and> isDigit (last v8)" using getnum_last[OF c] by blast
  then have "v7 \<noteq> [] \<and> isDigit (last v7)" by (rule skip_last[OF b])
  then show ?thesis using getnum_last[OF a] by blast
qed

lemma parseDate_last:
  assumes "parseDate v0 = Some (x, v5)" and "v5 \<noteq> [] \<and> isDigit (last v5)"
  shows "v0 \<noteq> [] \<and> isDigit (last v0)"
proof -
  from assms(1) obtain y v1 v2 mo v3 v4 d where
    a: "getyear v0 = Some (y, v1)" and b: "skip v1 CHR ''-'' = Some v2"
    and c: "getnum v2 True = Some (mo, v3)" and d: "skip v3 CHR ''-'' = Some v4"
    and e: "getnum v4 True = Some (d, v5)"
    by (auto simp: parseDate_def Option.bind_eq_Some_conv split: if_splits prod.splits)
  have "v4 \<noteq> [] \<and> isDigit (last v4)" using getnum_last[OF e] assms(2) by blast
  then have "v3 \<noteq> [] \<and> isDigit (last v3)" by (rule skip_last[OF d])
  then have "v2 \<noteq> [] \<and> isDigit (last v2)" using getnum_last[OF c] by blast
  then have "v1 \<noteq> [] \<and> isDigit (last v1)" by (rule skip_last[OF b])
  then show ?thesis by (rule getyear_last[OF a])
qed

lemma parseLayout_last:
  assumes "parseLayout mid sep v0 = Some t"
  shows "v0 \<noteq> [] \<and> isDigit (last v0)"
proof -
  from assms obtain x v5 v6 z where
    a: "parseDate v0 = Some (x, v5)" and b: "skip v5 mid = Some v6"
    and c: "parseClock sep v6 = Some (z, [])"
    by (auto simp: parseLayout_def Option.bind_eq_Some_conv split: if_splits prod.splits)
  have "v6 \<noteq> [] \<and> isDigit (last v6)" by (rule parseClock_last[OF c])
  then have "v5 \<noteq> [] \<and> isDigit (last v5)" by (rule skip_last[OF b])
  then show ?thesis by (rule parseDate_last[OF a])
qed

lemma parseFileStamp_last: "parseFileStamp s = Some t \<Longrightarrow> s \<noteq> [] \<and> isDigit (last s)"
  unfolding parseFileStamp_def by (rule parseLayout_last)

lemma Split_sep_length: "sep \<in> set s \<Longrightarrow> 2 \<le> length (Split s sep)"
proof (induction s)
  case Nil
  then show ?case by simp
next
  case (Cons c cs)
  show ?case
  proof (cases "c = sep")
    case True
    then show ?thesis using Split_nonempty[of cs sep] by (cases "Split cs sep") simp_all
  next
    case False
    with Cons.prems have "sep \<in> set cs" by simp
    then have "2 \<le> length (Split cs sep)" by (rule Cons.IH)
    with False show ?thesis by (cases "Split cs sep") simp_all
  qed
qed

lemma Split_two: "Split s sep = [p, q] \<Longrightarrow> s = p @ sep # q"
proof (induction s arbitrary: p)
  case Nil
  then show ?case by simp
next
  case (Cons c cs)
  show ?case
  proof (cases "c = sep")
    case True
    with Cons.prems have "p = []" "Split cs sep = [q]" by simp_all
    moreover have "sep \<notin> set cs"
    proof
      assume "sep \<in> set cs"
      then have "2 \<le> length (Split cs sep)" by (rule Split_sep_length)
      with \<open>Split cs sep = [q]\<close> show False by simp
    qed
    then have "Split cs sep = [cs]" by (rule Split_no_sep)
    ultimately show ?thesis using True by simp
  next
    case False
    with Cons.prems obtain p' where "p = c # p'" "Split cs sep = [p', q]"
      by (auto split: list.splits)
    then show ?thesis using Cons.IH by simp
  qed
qed

lemma HasSuffix_last: "HasSuffix s (x @ [c]) \<Longrightarrow> s \<noteq> [] \<and> last s = c"
proof -
  assume h: "HasSuffix s (x @ [c])"
  then have "s = take (length s - length (x @ [c])) s @ (x @ [c])"
    by (metis HasSuffix_def append_take_drop_id)
  then obtain pre where "s = pre @ x @ [c]" ..
  then show ?thesis by simp
qed

lemma json_two_segments:
  assumes "HasSuffix b ''.json''" and "length (Split b CHR ''_'') = 2"
  shows "parseFileStamp (Split b CHR ''_'' ! 0 @ ''_'' @ Split b CHR ''_'' ! 1) = None"
proof -
  obtain p q where pq: "Split b CHR ''_'' = [p, q]"
    using assms(2) by (cases "Split b CHR ''_''" rule: list.exhaust; simp)
       (metis (no_types) Suc_length_conv length_0_conv One_nat_def)
  have b: "b = p @ CHR ''_'' # q" by (rule Split_two[OF pq])
  have "last b = CHR ''n''" using HasSuffix_last[of b "''.jso''" "CHR ''n''"] assms(1) by simp
  then have "\<not> isDigit (last b)" by (simp add: isDigit_def)
  then have "parseFileStamp b = None"
    using parseFileStamp_last[of b] by (cases "parseFileStamp b") auto
  then show ?thesis using pq b by simp
qed

lemma fileTimestamp_json:
  assumes "HasSuffix b ''.json''"
  shows "fileTimestamp b fallback =
     (if 2 \<le> length (Split b CHR ''_'') then
        (case parseFileStamp (Split b CHR ''_'' ! 0 @ ''_'' @ Split b CHR ''_'' ! 1) of
           Some t \<Rightarrow> t | None \<Rightarrow> fallback)
      else fallback)"
proof (cases "length (Split b CHR ''_'') = 2")
  case True
  then show ?thesis
    using json_two_segments[OF assms True] by (simp add: fileTimestamp_cases)
next
  case False
  then show ?thesis by (auto simp: fileTimestamp_cases)
qed

lemma two_parse: "parseStatsFile twoSegmentWorld ''stats/2024-01-01_10-00-00.json''
       = Inr \<lparr>StatsFile.Name = ''2024-01-01_10-00-00.json'', StatsFile.Timestamp = exampleNow, Stats = []\<rparr>"
proof -
  have b: "Base ''stats/2024-01-01_10-00-00.json'' = ''2024-01-01_10-00-00.json''"
    by code_simp
  have s: "Split ''2024-01-01_10-00-00.json'' CHR ''_'' = [''2024-01-01'', ''10-00-00.json'']"
    by code_simp
  show ?thesis
    using s by (simp add: parseStatsFile_def twoSegmentWorld_def exampleWorld_def rawLines_empty b
      fileTimestamp_cases)
qed

lemma two_split:
  "Split (Base ''stats/2024-01-01_10-00-00.json'') CHR ''_'' = [''2024-01-01'', ''10-00-00.json'']"
  by code_simp

lemma two_suffix: "HasSuffix (Base ''stats/2024-01-01_10-00-00.json'') ''.json''"
  by code_simp

lemma A_suffix: "HasSuffix (Base ''stats/2024-01-01_10-00-00_x.json'') ''.json''"
  by code_simp

lemma two_stamp: "parseFileStamp ''2024-01-01_10-00-00.json'' = None"
  by code_simp

section \<open>A directory read in the year 10000\<close>















section \<open>Evaluating float64 arithmetic\<close>

lemma floor_numeral_div: "\<lfloor>numeral a / numeral b :: rat\<rfloor> = numeral a div numeral b"
  using floor_divide_of_int_eq[of "numeral a" "numeral b", where ?'a = rat] by simp

lemma ceiling_numeral_div: "\<lceil>numeral a / numeral b :: rat\<rceil> = - ((- numeral a) div numeral b)"
proof -
  have "\<lceil>numeral a / numeral b :: rat\<rceil> = - \<lfloor>- (numeral a / numeral b :: rat)\<rfloor>"
    by (simp add: ceiling_def)
  also have "- (numeral a / numeral b :: rat) = of_int (- numeral a) / of_int (numeral b)"
    by simp
  also have "\<lfloor>of_int (- numeral a) / of_int (numeral b) :: rat\<rfloor> = (- numeral a) div numeral b"
    by (rule floor_divide_of_int_eq)
  finally show ?thesis .
qed

lemma bitLength_numeral: "bitLength (numeral n) = 1 + bitLength (numeral n div 2)"
  by (subst bitLength.simps) simp

lemma bitLength_0: "bitLength 0 = 0"
  by (subst bitLength.simps) simp

lemma bitLength_1: "bitLength 1 = 1"
  by (subst bitLength.simps) (simp add: bitLength_0)

lemmas float_eval =
  round64_def roundToUlp_def fromMagnitude_def floorLog2_def roundEven_def pow2_def
  bitLength_numeral bitLength_0 bitLength_1 floor_numeral_div ceiling_numeral_div
  fadd_def fdiv_def float64_of_int_def isNaN_def isInf_def isZero_def valueOf_def signbit_def
  signedInf_def signedZero_def flt_def fgt_def fle_def rank_def

section \<open>The order of float64 and the statistics loop\<close>

lemma flt_asym: "flt x y \<Longrightarrow> \<not> flt y x"
  by (auto simp: flt_def)

lemma flt_negtrans:
  "x \<noteq> NaN \<Longrightarrow> y \<noteq> NaN \<Longrightarrow> z \<noteq> NaN \<Longrightarrow> \<not> flt x y \<Longrightarrow> \<not> flt y z \<Longrightarrow> \<not> flt x z"
  by (auto simp: flt_def isNaN_def)

lemma fle_refl: "x \<noteq> NaN \<Longrightarrow> fle x x"
  by (simp add: fle_def flt_def isNaN_def)

lemma fle_trans: "fle x y \<Longrightarrow> fle y z \<Longrightarrow> fle x z"
  using flt_negtrans[of z y x] by (auto simp: fle_def isNaN_def)

lemma fle_total: "x \<noteq> NaN \<Longrightarrow> y \<noteq> NaN \<Longrightarrow> fle x y \<or> fle y x"
  using flt_asym[of x y] by (auto simp: fle_def isNaN_def)

lemma not_flt_fle: "x \<noteq> NaN \<Longrightarrow> y \<noteq> NaN \<Longrightarrow> \<not> flt x y \<longleftrightarrow> fle y x"
  by (simp add: fle_def isNaN_def)

lemma flt_fle: "flt x y \<Longrightarrow> fle x y"
  using flt_asym[of x y] by (auto simp: fle_def flt_def)

lemma statLoop_sum: "fst (statLoop (sumV, maxV, minV) vs) = foldl fadd sumV vs"
  by (induction vs arbitrary: sumV maxV minV) auto

lemma statLoop_max:
  assumes "maxV \<noteq> NaN" and "NaN \<notin> set vs"
  shows "fst (snd (statLoop (sumV, maxV, minV) vs)) \<in> insert maxV (set vs)
         \<and> (\<forall>v\<in>insert maxV (set vs). fle v (fst (snd (statLoop (sumV, maxV, minV) vs))))"
  using assms
proof (induction vs arbitrary: sumV maxV minV)
  case Nil
  then show ?case by (simp add: fle_refl)
next
  case (Cons v vs)
  let ?m = "if fgt v maxV then v else maxV"
  have v: "v \<noteq> NaN" and vs: "NaN \<notin> set vs" using Cons.prems(2) by auto
  have m: "?m \<noteq> NaN" using v Cons.prems(1) by simp
  have ih: "fst (snd (statLoop (fadd sumV v, ?m, (if flt v minV then v else minV)) vs)) \<in> insert ?m (set vs)
      \<and> (\<forall>w\<in>insert ?m (set vs). fle w (fst (snd (statLoop (fadd sumV v, ?m, (if flt v minV then v else minV)) vs))))"
    by (rule Cons.IH[OF m vs])
  have le1: "fle v ?m" and le2: "fle maxV ?m"
    using v Cons.prems(1) by (auto simp: fgt_def fle_refl flt_fle not_flt_fle)
  from ih have top: "fle ?m (fst (snd (statLoop (fadd sumV v, ?m, (if flt v minV then v else minV)) vs)))"
    by blast
  show ?case
    using ih fle_trans[OF le1 top] fle_trans[OF le2 top] by auto
qed

lemma statLoop_min:
  assumes "minV \<noteq> NaN" and "NaN \<notin> set vs"
  shows "snd (snd (statLoop (sumV, maxV, minV) vs)) \<in> insert minV (set vs)
         \<and> (\<forall>v\<in>insert minV (set vs). fle (snd (snd (statLoop (sumV, maxV, minV) vs))) v)"
  using assms
proof (induction vs arbitrary: sumV maxV minV)
  case Nil
  then show ?case by (simp add: fle_refl)
next
  case (Cons v vs)
  let ?m = "if flt v minV then v else minV"
  have v: "v \<noteq> NaN" and vs: "NaN \<notin> set vs" using Cons.prems(2) by auto
  have m: "?m \<noteq> NaN" using v Cons.prems(1) by simp
  have ih: "snd (snd (statLoop (fadd sumV v, (if fgt v maxV then v else maxV), ?m) vs)) \<in> insert ?m (set vs)
      \<and> (\<forall>w\<in>insert ?m (set vs). fle (snd (snd (statLoop (fadd sumV v, (if fgt v maxV then v else maxV), ?m) vs))) w)"
    by (rule Cons.IH[OF m vs])
  have le1: "fle ?m v" and le2: "fle ?m minV"
    using v Cons.prems(1) by (auto simp: fle_refl flt_fle not_flt_fle)
  from ih have bot: "fle (snd (snd (statLoop (fadd sumV v, (if fgt v maxV then v else maxV), ?m) vs))) ?m"
    by blast
  show ?case
    using ih fle_trans[OF bot le1] fle_trans[OF bot le2] by auto
qed

lemma seriesStats_avg:
  "fst (seriesStats vs) = fdiv (foldl fadd (Fin 0) vs) (float64_of_int (int (length vs)))"
  using statLoop_sum[of "Fin 0" "hd vs" "hd vs" vs]
  by (auto simp: seriesStats_def split: prod.splits)

lemma seriesStats_max:
  assumes "vs \<noteq> []" and "NaN \<notin> set vs"
  shows "fst (snd (seriesStats vs)) \<in> set vs \<and> (\<forall>v\<in>set vs. fle v (fst (snd (seriesStats vs))))"
proof -
  have h: "hd vs \<in> set vs" using assms(1) by simp
  then have "hd vs \<noteq> NaN" using assms(2) by metis
  from statLoop_max[OF this assms(2), of "Fin 0" "hd vs"] h
  show ?thesis by (auto simp: seriesStats_def insert_absorb split: prod.splits)
qed

lemma seriesStats_min:
  assumes "vs \<noteq> []" and "NaN \<notin> set vs"
  shows "snd (snd (seriesStats vs)) \<in> set vs \<and> (\<forall>v\<in>set vs. fle (snd (snd (seriesStats vs))) v)"
proof -
  have h: "hd vs \<in> set vs" using assms(1) by simp
  then have "hd vs \<noteq> NaN" using assms(2) by metis
  from statLoop_min[OF this assms(2), of "Fin 0" "hd vs"] h
  show ?thesis by (auto simp: seriesStats_def insert_absorb split: prod.splits)
qed

lemma ParseFloat_syntax_zero: "snd (ParseFloat s) = Some ErrSyntax \<Longrightarrow> fst (ParseFloat s) = Fin 0"
  by (auto simp: ParseFloat_def Let_def split: option.splits prod.splits if_splits)

lemma ParseFloat_range_inf: "snd (ParseFloat s) = Some ErrRange \<Longrightarrow> isInf (fst (ParseFloat s))"
  by (auto simp: ParseFloat_def Let_def split: option.splits prod.splits if_splits)

lemma ParseFloat_empty: "ParseFloat [] = (Fin 0, Some ErrSyntax)"
  by (simp add: ParseFloat_def special_def readFloat_def)

section \<open>The scan of the catalog\<close>

lemma firstName_foldl:
  "foldl (\<lambda>c n. if c = [] then n else c) name names = firstNonEmpty (name # names)"
  by (induction names arbitrary: name) (auto simp: firstNonEmpty_def)

lemma matchLoop_eq:
  "matchLoop containerID statsFile (dataPoints, containerName) stats =
     (dataPoints @ map (dataPointOf statsFile) (filter (\<lambda>s. ID s = containerID) stats),
      firstNonEmpty (containerName # map DockerStat.Name (filter (\<lambda>s. ID s = containerID) stats)))"
proof (induction stats arbitrary: dataPoints containerName)
  case Nil
  then show ?case by (simp add: firstNonEmpty_def)
next
  case (Cons stat stats)
  show ?case by (simp add: Cons.IH firstNonEmpty_def)
qed

lemma firstNonEmpty_append:
  "firstNonEmpty (firstNonEmpty xs # ys) = firstNonEmpty (xs @ ys)"
  by (induction xs) (auto simp: firstNonEmpty_def split: list.splits)

lemma firstNonEmpty_Nil_Cons: "firstNonEmpty ([] # xs) = firstNonEmpty xs"
  by (simp add: firstNonEmpty_def)

lemma filesLoop_eq:
  "filesLoop containerID (dataPoints, firstNonEmpty names) catalog =
     (dataPoints @ pointsOf containerID catalog,
      firstNonEmpty (names @ map (\<lambda>r. DockerStat.Name (snd r)) (matches containerID catalog)))"
proof (induction catalog arbitrary: dataPoints names)
  case Nil
  then show ?case by (simp add: pointsOf_def matches_def records_def)
next
  case (Cons statsFile catalog)
  have step: "matchLoop containerID statsFile (dataPoints, firstNonEmpty names) (Stats statsFile) =
      (dataPoints @ map (dataPointOf statsFile) (filter (\<lambda>s. ID s = containerID) (Stats statsFile)),
       firstNonEmpty (names @ map DockerStat.Name (filter (\<lambda>s. ID s = containerID) (Stats statsFile))))"
    by (simp add: matchLoop_eq firstNonEmpty_append)
  show ?case
    unfolding filesLoop.simps step Cons.IH
    by (simp add: pointsOf_def matches_def records_def filter_map comp_def)
qed

lemma filesLoop_init:
  "filesLoop containerID ([], []) catalog =
     (pointsOf containerID catalog,
      firstNonEmpty (map (\<lambda>r. DockerStat.Name (snd r)) (matches containerID catalog)))"
proof -
  have "([] :: string) = firstNonEmpty []" by (simp add: firstNonEmpty_def)
  then have "filesLoop containerID ([], []) catalog
      = filesLoop containerID ([], firstNonEmpty []) catalog" by simp
  also have "\<dots> = (pointsOf containerID catalog,
      firstNonEmpty (map (\<lambda>r. DockerStat.Name (snd r)) (matches containerID catalog)))"
    by (simp add: filesLoop_eq)
  finally show ?thesis .
qed

lemma getContainerComparison_eq:
  "getContainerComparison srt catalog containerID =
     \<lparr>ContainerComparison.ContainerID = containerID,
      ContainerComparison.ContainerName =
        firstNonEmpty (map (\<lambda>r. DockerStat.Name (snd r)) (matches containerID catalog)),
      ContainerComparison.Data = srt oldestFirst (pointsOf containerID catalog)\<rparr>"
  by (simp add: getContainerComparison_def filesLoop_init)

lemma oldestFirst_strictWeak: "strictWeak oldestFirst A"
  unfolding strictWeak_def oldestFirst_def Before_def by auto


lemma series_sorted:
  assumes "sortContract srt"
  shows "sorted_wrt (\<lambda>a b. unixNano (pointTime a) \<le> unixNano (pointTime b)) (srt oldestFirst ps)"
proof -
  have "sorted_wrt (\<lambda>a b. \<not> oldestFirst b a) (srt oldestFirst ps)"
    by (rule sortContract_sorted[OF assms oldestFirst_strictWeak])
  then show ?thesis by (simp add: oldestFirst_def Before_def not_less)
qed

section \<open>The maps of getAllContainerSummaries\<close>

lemma map_of_mapSet: "map_of (mapSet m k v) = (map_of m)(k \<mapsto> v)"
  by (induction m) auto

lemma keys_mapSet: "fst ` set (mapSet m k v) = insert k (fst ` set m)"
proof (induction m)
  case Nil
  then show ?case by simp
next
  case (Cons e m)
  obtain k' v' where e: "e = (k', v')" by (cases e)
  show ?case using Cons.IH by (cases "k' = k") (auto simp: e)
qed

lemma distinct_mapSet: "distinct (map fst m) \<Longrightarrow> distinct (map fst (mapSet m k v))"
proof (induction m)
  case Nil
  then show ?case by simp
next
  case (Cons e m)
  obtain k' v' where e: "e = (k', v')" by (cases e)
  show ?case
  proof (cases "k' = k")
    case True
    with Cons.prems e show ?thesis by simp
  next
    case False
    have "k' \<notin> fst ` set (mapSet m k v)"
      using Cons.prems e False by (simp add: keys_mapSet)
    with Cons e False show ?thesis by simp
  qed
qed

lemma scanned_step:
  assumes "scanned (containerData, containerNames) rs"
  shows "scanned (mapSet containerData (ID stat)
                    (mapGet [] containerData (ID stat) @ [dataPointOf statsFile stat]),
                  mapSet containerNames (ID stat) (DockerStat.Name stat))
           (rs @ [(statsFile, stat)])"
proof -
  have d1: "distinct (map fst containerData)" and d2: "distinct (map fst containerNames)"
    and m1: "\<And>k. map_of containerData k =
            (if filter (\<lambda>r. ID (snd r) = k) rs = [] then None
             else Some (map (\<lambda>r. dataPointOf (fst r) (snd r)) (filter (\<lambda>r. ID (snd r) = k) rs)))"
    and m2: "\<And>k. map_of containerNames k =
            (if filter (\<lambda>r. ID (snd r) = k) rs = [] then None
             else Some (DockerStat.Name (snd (last (filter (\<lambda>r. ID (snd r) = k) rs)))))"
    using assms by (simp_all add: scanned_def)
  have g: "mapGet [] containerData (ID stat)
      = map (\<lambda>r. dataPointOf (fst r) (snd r)) (filter (\<lambda>r. ID (snd r) = ID stat) rs)"
    by (simp add: mapGet_def m1)
  show ?thesis
    unfolding scanned_def
    by (simp add: distinct_mapSet d1 d2 map_of_mapSet m1 m2 g)
qed

lemma collectStats_scanned:
  "scanned st rs \<Longrightarrow> scanned (collectStats statsFile st stats) (rs @ map (Pair statsFile) stats)"
proof (induction stats arbitrary: st rs)
  case Nil
  then show ?case by (cases st) simp
next
  case (Cons stat stats)
  obtain containerData containerNames where st: "st = (containerData, containerNames)"
    by (cases st)
  have "scanned (mapSet containerData (ID stat)
                    (mapGet [] containerData (ID stat) @ [dataPointOf statsFile stat]),
                  mapSet containerNames (ID stat) (DockerStat.Name stat))
           (rs @ [(statsFile, stat)])"
    using Cons.prems st by (simp add: scanned_step)
  from Cons.IH[OF this] show ?case by (simp add: st)
qed

lemma collectFiles_scanned:
  "scanned st rs \<Longrightarrow> scanned (collectFiles st catalog) (rs @ records catalog)"
proof (induction catalog arbitrary: st rs)
  case Nil
  then show ?case by (simp add: records_def)
next
  case (Cons statsFile catalog)
  have "scanned (collectStats statsFile st (Stats statsFile)) (rs @ map (Pair statsFile) (Stats statsFile))"
    by (rule collectStats_scanned[OF Cons.prems])
  from Cons.IH[OF this] show ?case by (simp add: records_def)
qed

lemma collectFiles_init: "scanned (collectFiles ([], []) catalog) (records catalog)"
  using collectFiles_scanned[of "([], [])" "[]" catalog] by (simp add: scanned_def)

lemma collected_entry:
  assumes "(k, dataPoints) \<in> set (fst (collectFiles ([], []) catalog))"
  shows "dataPoints = pointsOf k catalog \<and> dataPoints \<noteq> []"
proof -
  let ?st = "collectFiles ([], []) catalog"
  have sc: "scanned ?st (records catalog)" by (rule collectFiles_init)
  then have "distinct (map fst (fst ?st))" by (simp add: scanned_def)
  with assms have "map_of (fst ?st) k = Some dataPoints" by simp
  moreover have "map_of (fst ?st) k =
            (if filter (\<lambda>r. ID (snd r) = k) (records catalog) = [] then None
             else Some (map (\<lambda>r. dataPointOf (fst r) (snd r)) (filter (\<lambda>r. ID (snd r) = k) (records catalog))))"
    using sc by (simp add: scanned_def)
  ultimately show ?thesis
    by (auto simp: pointsOf_def matches_def split: if_splits)
qed

lemma collected_name:
  assumes "matches k catalog \<noteq> []"
  shows "mapGet [] (snd (collectFiles ([], []) catalog)) k
           = DockerStat.Name (snd (last (matches k catalog)))"
proof -
  have "scanned (collectFiles ([], []) catalog) (records catalog)" by (rule collectFiles_init)
  then have "map_of (snd (collectFiles ([], []) catalog)) k =
            (if filter (\<lambda>r. ID (snd r) = k) (records catalog) = [] then None
             else Some (DockerStat.Name (snd (last (filter (\<lambda>r. ID (snd r) = k) (records catalog))))))"
    by (simp add: scanned_def)
  with assms show ?thesis by (simp add: mapGet_def matches_def)
qed

lemma summaryLoop_eq:
  "summaryLoop srt containerNames summaries entries =
     summaries @ map (\<lambda>e. summarize srt containerNames (fst e) (snd e))
                   (filter (\<lambda>e. snd e \<noteq> []) entries)"
proof (induction entries arbitrary: summaries)
  case Nil
  then show ?case by simp
next
  case (Cons e entries)
  obtain k ps where e: "e = (k, ps)" by (cases e)
  show ?case by (simp add: e Cons.IH)
qed

lemma rangeContract_mset: "rangeContract rng \<Longrightarrow> mset (rng m) = mset m"
  unfolding rangeContract_def by blast

lemma getAllContainerSummaries_mset:
  assumes "sortContract srtSummaries" and "rangeContract rng"
  shows "mset (getAllContainerSummaries srtPoints srtSummaries rng catalog) =
           image_mset (\<lambda>e. summarize srtPoints (snd (collectFiles ([], []) catalog)) (fst e) (snd e))
             (mset (fst (collectFiles ([], []) catalog)))"
proof -
  let ?cd = "fst (collectFiles ([], []) catalog)"
  let ?cn = "snd (collectFiles ([], []) catalog)"
  have set_rng: "set (rng ?cd) = set ?cd"
    using rangeContract_mset[OF assms(2), of ?cd] by (metis set_mset_mset)
  have "\<forall>e\<in>set (rng ?cd). snd e \<noteq> []"
  proof
    fix e assume "e \<in> set (rng ?cd)"
    then have "(fst e, snd e) \<in> set ?cd" using set_rng by simp
    then show "snd e \<noteq> []" using collected_entry by blast
  qed
  then have f: "filter (\<lambda>e. snd e \<noteq> []) (rng ?cd) = rng ?cd" by simp
  have "getAllContainerSummaries srtPoints srtSummaries rng catalog
      = srtSummaries byAvgCPU (map (\<lambda>e. summarize srtPoints ?cn (fst e) (snd e)) (rng ?cd))"
    by (simp add: getAllContainerSummaries_def summaryLoop_eq f case_prod_beta)
  then have "mset (getAllContainerSummaries srtPoints srtSummaries rng catalog)
      = mset (map (\<lambda>e. summarize srtPoints ?cn (fst e) (snd e)) (rng ?cd))"
    by (simp add: sortContract_mset[OF assms(1)])
  also have "\<dots> = image_mset (\<lambda>e. summarize srtPoints ?cn (fst e) (snd e)) (mset (rng ?cd))"
    by simp
  finally show ?thesis by (simp add: rangeContract_mset[OF assms(2)])
qed

lemma getAllContainerSummaries_member:
  assumes "sortContract srtSummaries" and "rangeContract rng"
    and "s \<in> set (getAllContainerSummaries srtPoints srtSummaries rng catalog)"
  shows "\<exists>k. pointsOf k catalog \<noteq> []
           \<and> s = summarize srtPoints (snd (collectFiles ([], []) catalog)) k (pointsOf k catalog)"
proof -
  let ?cd = "fst (collectFiles ([], []) catalog)"
  let ?cn = "snd (collectFiles ([], []) catalog)"
  have "s \<in># mset (getAllContainerSummaries srtPoints srtSummaries rng catalog)"
    using assms(3) by simp
  then have "s \<in># image_mset (\<lambda>e. summarize srtPoints ?cn (fst e) (snd e)) (mset ?cd)"
    by (simp only: getAllContainerSummaries_mset[OF assms(1,2)])
  then obtain e where e: "e \<in> set ?cd" and s: "s = summarize srtPoints ?cn (fst e) (snd e)"
    by auto
  from e have "(fst e, snd e) \<in> set ?cd" by simp
  then have "snd e = pointsOf (fst e) catalog \<and> snd e \<noteq> []" by (rule collected_entry)
  with s show ?thesis by metis
qed

section \<open>Summaries of a non-empty series\<close>

lemma sorted_hd_min:
  assumes "sorted_wrt (\<lambda>a b. f a \<le> (f b :: int)) xs" and "q \<in> set xs"
  shows "f (hd xs) \<le> f q"
  using assms by (cases xs) auto

lemma sorted_last_max:
  assumes "sorted_wrt (\<lambda>a b. f a \<le> (f b :: int)) xs" and "q \<in> set xs"
  shows "f q \<le> f (last xs)"
  using assms
proof (induction xs)
  case Nil
  then show ?case by simp
next
  case (Cons x xs)
  show ?case
  proof (cases "xs = []")
    case True
    with Cons.prems show ?thesis by simp
  next
    case False
    then have l: "last xs \<in> set xs" by simp
    show ?thesis
    proof (cases "q = x")
      case True
      with Cons.prems(1) l False show ?thesis by auto
    next
      case qx: False
      with Cons.prems have "q \<in> set xs" by simp
      with Cons.IH Cons.prems(1) False show ?thesis by simp
    qed
  qed
qed

lemma sort_set: "sortContract srt \<Longrightarrow> set (srt lt xs) = set xs"
  by (metis sortContract_mset set_mset_mset)

lemma sort_length: "sortContract srt \<Longrightarrow> length (srt lt xs) = length xs"
  by (metis sortContract_mset mset_eq_length)

lemma sort_nonempty: "sortContract srt \<Longrightarrow> xs \<noteq> [] \<Longrightarrow> srt lt xs \<noteq> []"
  by (metis sort_length length_0_conv)

lemma summarize_fields:
  "ContainerSummary.ContainerID (summarize srt containerNames k ps) = k"
  "ContainerSummary.ContainerName (summarize srt containerNames k ps) = mapGet [] containerNames k"
  "DataPoints (summarize srt containerNames k ps) = int (length (srt oldestFirst ps))"
  "ContainerSummary.AvgCPU (summarize srt containerNames k ps)
     = fst (seriesStats (map CPUPerc (srt oldestFirst ps)))"
  "ContainerSummary.MaxCPU (summarize srt containerNames k ps)
     = fst (snd (seriesStats (map CPUPerc (srt oldestFirst ps))))"
  "ContainerSummary.MinCPU (summarize srt containerNames k ps)
     = snd (snd (seriesStats (map CPUPerc (srt oldestFirst ps))))"
  "ContainerSummary.AvgMem (summarize srt containerNames k ps)
     = fst (seriesStats (map MemPerc (srt oldestFirst ps)))"
  "ContainerSummary.MaxMem (summarize srt containerNames k ps)
     = fst (snd (seriesStats (map MemPerc (srt oldestFirst ps))))"
  "ContainerSummary.MinMem (summarize srt containerNames k ps)
     = snd (snd (seriesStats (map MemPerc (srt oldestFirst ps))))"
  "FirstSeen (summarize srt containerNames k ps)
     = ContainerDataPoint.Timestamp (hd (srt oldestFirst ps))"
  "LastSeen (summarize srt containerNames k ps)
     = ContainerDataPoint.Timestamp (last (srt oldestFirst ps))"
  by (simp_all add: summarize_def Let_def case_prod_beta)

lemma stats_bounds:
  assumes "vs \<noteq> []" and "NaN \<notin> set vs"
  shows "fst (snd (seriesStats vs)) \<in> set vs" and "snd (snd (seriesStats vs)) \<in> set vs"
    and "\<forall>v\<in>set vs. fle (snd (snd (seriesStats vs))) v \<and> fle v (fst (snd (seriesStats vs)))"
    and "fle (snd (snd (seriesStats vs))) (fst (snd (seriesStats vs)))"
  using seriesStats_max[OF assms] seriesStats_min[OF assms] by auto

section \<open>The order of the summaries\<close>

lemma flt_irrefl: "\<not> flt x x"
  by (simp add: flt_def)

lemma byAvgCPU_strictWeak:
  assumes "\<forall>s\<in>A. ContainerSummary.AvgCPU s \<noteq> NaN"
  shows "strictWeak byAvgCPU A"
  unfolding strictWeak_def byAvgCPU_def fgt_def
proof (intro conjI ballI impI)
  fix a b assume "a \<in> A" "b \<in> A" "flt (ContainerSummary.AvgCPU b) (ContainerSummary.AvgCPU a)"
  then show "\<not> flt (ContainerSummary.AvgCPU a) (ContainerSummary.AvgCPU b)"
    using flt_asym by blast
next
  fix a b c
  assume "a \<in> A" "b \<in> A" "c \<in> A"
    and "\<not> flt (ContainerSummary.AvgCPU b) (ContainerSummary.AvgCPU a)
         \<and> \<not> flt (ContainerSummary.AvgCPU c) (ContainerSummary.AvgCPU b)"
  then show "\<not> flt (ContainerSummary.AvgCPU c) (ContainerSummary.AvgCPU a)"
    using assms flt_negtrans by blast
qed

lemma getAllContainerSummaries_sorted:
  assumes "sortContract srtSummaries"
    and "\<forall>s\<in>set (getAllContainerSummaries srtPoints srtSummaries rng catalog).
           ContainerSummary.AvgCPU s \<noteq> NaN"
  shows "sorted_wrt (\<lambda>a b. fle (ContainerSummary.AvgCPU b) (ContainerSummary.AvgCPU a))
           (getAllContainerSummaries srtPoints srtSummaries rng catalog)"
proof -
  obtain xs where g: "getAllContainerSummaries srtPoints srtSummaries rng catalog
      = srtSummaries byAvgCPU xs"
    by (simp add: getAllContainerSummaries_def case_prod_beta)
  have "set xs = set (srtSummaries byAvgCPU xs)"
    by (simp add: sort_set[OF assms(1)])
  then have nn: "\<forall>s\<in>set xs. ContainerSummary.AvgCPU s \<noteq> NaN"
    using assms(2) g by simp
  have s: "sorted_wrt (\<lambda>a b. \<not> byAvgCPU b a) (srtSummaries byAvgCPU xs)"
    by (rule sortContract_sorted[OF assms(1) byAvgCPU_strictWeak[OF nn]])
  have "sorted_wrt (\<lambda>a b. fle (ContainerSummary.AvgCPU b) (ContainerSummary.AvgCPU a))
           (srtSummaries byAvgCPU xs)"
  proof (rule sorted_wrt_mono_rel[OF _ s])
    fix a b
    assume a: "a \<in> set (srtSummaries byAvgCPU xs)" and b: "b \<in> set (srtSummaries byAvgCPU xs)"
      and n: "\<not> byAvgCPU b a"
    have "ContainerSummary.AvgCPU a \<noteq> NaN" "ContainerSummary.AvgCPU b \<noteq> NaN"
      using a b assms(2) g by simp_all
    then show "fle (ContainerSummary.AvgCPU b) (ContainerSummary.AvgCPU a)"
      using n by (simp add: byAvgCPU_def fgt_def fle_def isNaN_def)
  qed
  then show ?thesis by (simp add: g)
qed

section \<open>The example catalogs, evaluated\<close>

lemma decimal_numeral:
  "decimal (numeral n) = (if numeral n < (10::nat) then [char_of (48 + numeral n :: nat)]
     else decimal (numeral n div 10) @ [char_of (48 + numeral n mod 10 :: nat)])"
  by (subst decimal.simps) simp

lemma decimal_0: "decimal 0 = ''0''"
  by (subst decimal.simps) (simp add: char_of_def bit_Suc_0_iff)

lemma decimal_1: "decimal 1 = ''1''"
  by (subst decimal.simps) (simp add: char_of_def bit_Suc_0_iff)

lemmas time_eval =
  Format_def appendInt_def decimal_numeral decimal_0 decimal_1 char_of_def bit_Suc_0_iff
  parsePointStamp_def parseFileStamp_def parseLayout_def parseDate_def parseClock_def getyear_def
  getfrac_def isDigit_def digitVal_def daysIn_def isLeap_def unixNano_def daysFromCivil_def Let_def

lemmas parse_eval =
  special_def infPrefix_def toLowerASCII_def char_of_def bit_Suc_0_iff readFloat_def dropSign_def
  isDigit_def digitVal_def readExponent_def Let_def TrimSuffix_def HasSuffix_def

lemma trim_examples:
  "TrimSuffix ''10.00%'' ''%'' = ''10.00''"
  "TrimSuffix ''20.00%'' ''%'' = ''20.00''"
  "TrimSuffix ''30.00%'' ''%'' = ''30.00''"
  "TrimSuffix ''40.00%'' ''%'' = ''40.00''"
  "TrimSuffix ''0.10%'' ''%'' = ''0.10''"
  "TrimSuffix ''NaN%'' ''%'' = ''NaN''"
  "TrimSuffix ''--'' ''%'' = ''--''"
  by (simp_all add: TrimSuffix_def HasSuffix_def)

lemma special_examples:
  "special ''10.00'' = None" "special ''20.00'' = None" "special ''30.00'' = None"
  "special ''40.00'' = None" "special ''0.10'' = None" "special ''--'' = None"
  "special ''NaN'' = Some (NaN, 3)"
  by (simp_all add: parse_eval)

lemma readFloat_examples:
  "readFloat ''10.00'' = Some (False, 10, [])"
  "readFloat ''20.00'' = Some (False, 20, [])"
  "readFloat ''30.00'' = Some (False, 30, [])"
  "readFloat ''40.00'' = Some (False, 40, [])"
  "readFloat ''0.10'' = Some (False, 1 / 10, [])"
  "readFloat ''--'' = None"
  by (simp_all add: parse_eval)

lemma round64_examples:
  "round64 10 = Fin 10" "round64 20 = Fin 20" "round64 30 = Fin 30" "round64 40 = Fin 40"
  "round64 (1 / 10) = Fin tenth"
  by (simp_all add: float_eval tenth_def)

lemma ParseFloat_examples:
  "ParseFloat ''10.00'' = (Fin 10, None)"
  "ParseFloat ''20.00'' = (Fin 20, None)"
  "ParseFloat ''30.00'' = (Fin 30, None)"
  "ParseFloat ''40.00'' = (Fin 40, None)"
  "ParseFloat ''0.10'' = (Fin tenth, None)"
  "ParseFloat ''NaN'' = (NaN, None)"
  "ParseFloat ''--'' = (Fin 0, Some ErrSyntax)"
  by (simp_all add: ParseFloat_def special_examples readFloat_examples round64_examples isInf_def
      tenth_def)

lemma Format_examples:
  "Format t10 = ''2024-01-01 10:00:00''"
  "Format t11 = ''2024-01-01 11:00:00''"
  "Format t12 = ''2024-01-01 12:00:00''"
  "Format tFar = ''10000-01-01 00:00:00''"
  by (simp_all add: time_eval t10_def t11_def t12_def tFar_def)

lemma parsePointStamp_examples:
  "parsePointStamp ''2024-01-01 10:00:00'' = Some t10"
  "parsePointStamp ''2024-01-01 11:00:00'' = Some t11"
  "parsePointStamp ''2024-01-01 12:00:00'' = Some t12"
  "parsePointStamp ''10000-01-01 00:00:00'' = None"
  by (simp_all add: time_eval t10_def t11_def t12_def)

lemma unixNano_examples:
  "unixNano t10 = 1704103200000000000"
  "unixNano t11 = 1704106800000000000"
  "unixNano t12 = 1704110400000000000"
  "unixNano zeroTime = - 62135596800000000000"
  by (simp_all add: time_eval t10_def t11_def t12_def zeroTime_def)

lemma pointTime_examples:
  "pointTime (pointAt ''2024-01-01 10:00:00'' c m) = t10"
  "pointTime (pointAt ''2024-01-01 11:00:00'' c m) = t11"
  "pointTime (pointAt ''2024-01-01 12:00:00'' c m) = t12"
  "pointTime (pointAt ''10000-01-01 00:00:00'' c m) = zeroTime"
  by (simp_all add: pointTime_def pointAt_def parsePointStamp_examples)

lemma oldestFirst_examples:
  "oldestFirst (pointAt ''2024-01-01 10:00:00'' c m) (pointAt ''2024-01-01 11:00:00'' c' m')"
  "\<not> oldestFirst (pointAt ''2024-01-01 11:00:00'' c m) (pointAt ''2024-01-01 10:00:00'' c' m')"
  "oldestFirst (pointAt ''2024-01-01 11:00:00'' c m) (pointAt ''2024-01-01 12:00:00'' c' m')"
  "\<not> oldestFirst (pointAt ''2024-01-01 12:00:00'' c m) (pointAt ''2024-01-01 11:00:00'' c' m')"
  "oldestFirst (pointAt ''2024-01-01 10:00:00'' c m) (pointAt ''2024-01-01 12:00:00'' c' m')"
  "\<not> oldestFirst (pointAt ''2024-01-01 12:00:00'' c m) (pointAt ''2024-01-01 10:00:00'' c' m')"
  "oldestFirst (pointAt ''10000-01-01 00:00:00'' c m) (pointAt ''2024-01-01 11:00:00'' c' m')"
  "\<not> oldestFirst (pointAt ''2024-01-01 11:00:00'' c m) (pointAt ''10000-01-01 00:00:00'' c' m')"
  by (simp_all add: oldestFirst_def Before_def pointTime_examples unixNano_examples)

lemma dataPointOf_statAbc:
  "dataPointOf statsFile (statAbc cpu mem) =
     pointAt (Format (StatsFile.Timestamp statsFile))
       (fst (ParseFloat (TrimSuffix cpu ''%''))) (fst (ParseFloat (TrimSuffix mem ''%'')))"
  by (simp add: dataPointOf_def statAbc_def pointAt_def)

lemma dataPointOf_renamed:
  "dataPointOf statsFile (stat\<lparr>DockerStat.Name := n\<rparr>) = dataPointOf statsFile stat"
  "dataPointOf statsFile (stat\<lparr>DockerStat.ID := k\<rparr>) = dataPointOf statsFile stat"
  by (simp_all add: dataPointOf_def)

lemma insertionSort_two:
  "insertionSort lt [a, b] = (if lt b a then [b, a] else [a, b])"
  by (simp add: insertionSort_def)

lemma insertionSort_one: "insertionSort lt [a] = [a]"
  by (simp add: insertionSort_def)

lemma insertionSort_three_rev:
  "lt b c \<Longrightarrow> lt a b \<Longrightarrow> lt a c \<Longrightarrow> insertionSort lt [c, b, a] = [a, b, c]"
  by (simp add: insertionSort_def)

lemma seriesStats_scenario: "seriesStats [Fin 10, Fin 30] = (Fin 20, Fin 30, Fin 10)"
  by (simp add: seriesStats_def float_eval)

lemma seriesStats_scenario_mem: "seriesStats [Fin 20, Fin 40] = (Fin 30, Fin 40, Fin 20)"
  by (simp add: seriesStats_def float_eval)

lemma seriesStats_tenths:
  "seriesStats [Fin tenth, Fin tenth, Fin tenth] = (Fin tenthAvg, Fin tenth, Fin tenth)"
  by (simp add: seriesStats_def float_eval tenth_def tenthAvg_def)

lemma tenthAvg_above: "flt (Fin tenth) (Fin tenthAvg)"
  by (simp add: float_eval tenth_def tenthAvg_def)

lemma seriesStats_nan: "seriesStats [NaN, Fin 30] = (NaN, NaN, NaN)"
  by (simp add: seriesStats_def float_eval)

lemma trim_huge: "TrimSuffix ''1e309%'' ''%'' = ''1e309''"
  by (simp add: TrimSuffix_def HasSuffix_def)

lemma special_huge: "special ''1e309'' = None"
  by (simp add: parse_eval)

lemma readFloat_huge: "readFloat ''1e309'' = Some (False, 10 ^ 309, [])"
  by (simp add: parse_eval)

lemma round64_huge: "round64 (10 ^ 309) = PosInf"
  by (simp add: float_eval)

lemma ParseFloat_huge: "ParseFloat ''1e309'' = (PosInf, Some ErrRange)"
  using round64_huge by (simp add: ParseFloat_def special_huge readFloat_huge isInf_def)

lemma stat_fields:
  "ID (statAbc cpu mem) = ''abc''"
  "DockerStat.Name (statAbc cpu mem) = ''web''"
  "Stats (snapshot t rs) = rs"
  "StatsFile.Timestamp (snapshot t rs) = t"
  "Stats fileA = [statAbc ''10.00%'' ''20.00%'']"
  "Stats fileB = [statAbc ''30.00%'' ''40.00%'']"
  "StatsFile.Timestamp fileA = t10"
  "StatsFile.Timestamp fileB = t11"
  "Stats fileFar = [statAbc ''10.00%'' ''20.00%'']"
  "StatsFile.Timestamp fileFar = tFar"
  by (simp_all add: statAbc_def snapshot_def fileA_def fileB_def fileFar_def)

lemma snapshot_names:
  "StatsFile.Name (snapshot t10 rs) = ''2024-01-01_10-00-00_x.json''"
  "StatsFile.Name (snapshot t11 rs) = ''2024-01-01_11-00-00_x.json''"
  "StatsFile.Name (snapshot t12 rs) = ''2024-01-01_12-00-00_x.json''"
  by (simp_all add: snapshot_def snapshotName_def Format_examples)

lemma snapshot_scenarioA:
  "snapshot t10 [statAbc ''10.00%'' ''20.00%''] = fileA"
  "snapshot t11 [statAbc ''30.00%'' ''40.00%''] = fileB"
  by (simp_all add: snapshot_def snapshotName_def Format_examples fileA_def fileB_def)

lemmas point_eval =
  dataPointOf_statAbc dataPointOf_renamed stat_fields Format_examples trim_examples
  ParseFloat_examples

lemma points_scenarioA: "pointsOf ''abc'' scenarioA = [pointB, pointA]"
  by (simp add: pointsOf_def matches_def records_def scenarioA_def point_eval pointA_def pointB_def)

lemma points_absent: "pointsOf ''nobody'' scenarioA = []"
  by (simp add: pointsOf_def matches_def records_def scenarioA_def stat_fields)


lemma points_nan: "pointsOf ''abc'' nanCatalog = [pointB, pointNaN]"
  by (simp add: pointsOf_def matches_def records_def nanCatalog_def point_eval pointB_def pointNaN_def)

lemma series_scenarioA:
  "Data (getContainerComparison insertionSort scenarioA ''abc'') = [pointA, pointB]"
  by (simp add: getContainerComparison_eq points_scenarioA insertionSort_two pointA_def pointB_def
      oldestFirst_examples)

lemma series_absent: "Data (getContainerComparison insertionSort scenarioA ''nobody'') = []"
  by (simp add: getContainerComparison_eq points_absent insertionSort_def)


lemma series_nan:
  "Data (getContainerComparison insertionSort nanCatalog ''abc'') = [pointNaN, pointB]"
  by (simp add: getContainerComparison_eq points_nan insertionSort_two pointNaN_def pointB_def
      oldestFirst_examples)

lemma point_fields:
  "CPUPerc (pointAt ts c m) = c" "MemPerc (pointAt ts c m) = m"
  "ContainerDataPoint.Timestamp (pointAt ts c m) = ts"
  by (simp_all add: pointAt_def)

lemma withStats_data:
  "Data (getContainerComparisonWithStats srt catalog containerID)
     = Data (getContainerComparison srt catalog containerID)"
  by (simp add: getContainerComparisonWithStats_def Let_def case_prod_beta)

lemma withStats_empty:
  assumes "Data (getContainerComparison srt catalog containerID) = []"
  shows "ContainerComparisonWithStats.AvgCPU (getContainerComparisonWithStats srt catalog containerID) = Fin 0"
    "ContainerComparisonWithStats.MaxCPU (getContainerComparisonWithStats srt catalog containerID) = Fin 0"
    "ContainerComparisonWithStats.MinCPU (getContainerComparisonWithStats srt catalog containerID) = Fin 0"
    "ContainerComparisonWithStats.AvgMem (getContainerComparisonWithStats srt catalog containerID) = Fin 0"
    "ContainerComparisonWithStats.MaxMem (getContainerComparisonWithStats srt catalog containerID) = Fin 0"
    "ContainerComparisonWithStats.MinMem (getContainerComparisonWithStats srt catalog containerID) = Fin 0"
  using assms by (simp_all add: getContainerComparisonWithStats_def Let_def)

lemma withStats_nonempty:
  assumes "Data (getContainerComparison srt catalog containerID) \<noteq> []"
  shows "ContainerComparisonWithStats.AvgCPU (getContainerComparisonWithStats srt catalog containerID)
           = fst (seriesStats (map CPUPerc (Data (getContainerComparison srt catalog containerID))))"
    "ContainerComparisonWithStats.MaxCPU (getContainerComparisonWithStats srt catalog containerID)
           = fst (snd (seriesStats (map CPUPerc (Data (getContainerComparison srt catalog containerID)))))"
    "ContainerComparisonWithStats.MinCPU (getContainerComparisonWithStats srt catalog containerID)
           = snd (snd (seriesStats (map CPUPerc (Data (getContainerComparison srt catalog containerID)))))"
    "ContainerComparisonWithStats.AvgMem (getContainerComparisonWithStats srt catalog containerID)
           = fst (seriesStats (map MemPerc (Data (getContainerComparison srt catalog containerID))))"
    "ContainerComparisonWithStats.MaxMem (getContainerComparisonWithStats srt catalog containerID)
           = fst (snd (seriesStats (map MemPerc (Data (getContainerComparison srt catalog containerID)))))"
    "ContainerComparisonWithStats.MinMem (getContainerComparisonWithStats srt catalog containerID)
           = snd (snd (seriesStats (map MemPerc (Data (getContainerComparison srt catalog containerID)))))"
  using assms by (simp_all add: getContainerComparisonWithStats_def Let_def case_prod_beta)

lemma getAllContainerSummaries_unfold:
  "getAllContainerSummaries srtPoints srtSummaries rng catalog =
     srtSummaries byAvgCPU
       (summaryLoop srtPoints (snd (collectFiles ([], []) catalog)) []
          (rng (fst (collectFiles ([], []) catalog))))"
  by (simp add: getAllContainerSummaries_def case_prod_beta)

lemma rangeContract_id: "rangeContract id"
  by (simp add: rangeContract_def)

lemma rangeContract_rev: "rangeContract rev"
  by (simp add: rangeContract_def)

lemma collect_scenarioA:
  "collectFiles ([], []) scenarioA = ([(''abc'', [pointB, pointA])], [(''abc'', ''web'')])"
  by (simp add: scenarioA_def point_eval mapGet_def pointA_def pointB_def)

lemma collect_renamed:
  "collectFiles ([], []) renamedCatalog = ([(''abc'', [pointB, pointA])], [(''abc'', ''web'')])"
  by (simp add: renamedCatalog_def point_eval mapGet_def pointA_def pointB_def)

lemma collect_tie:
  "collectFiles ([], []) tieCatalog
     = ([(''aaa'', [pointA]), (''bbb'', [pointA])], [(''aaa'', ''web''), (''bbb'', ''web'')])"
  by (simp add: tieCatalog_def point_eval mapGet_def pointA_def)

lemma collect_tenth:
  "collectFiles ([], []) tenthCatalog
     = ([(''abc'', [pointAt ''2024-01-01 12:00:00'' (Fin tenth) (Fin 20),
                    pointAt ''2024-01-01 11:00:00'' (Fin tenth) (Fin 20),
                    pointAt ''2024-01-01 10:00:00'' (Fin tenth) (Fin 20)])],
        [(''abc'', ''web'')])"
  by (simp add: tenthCatalog_def point_eval mapGet_def)

lemma sort_scenarioA: "insertionSort oldestFirst [pointB, pointA] = [pointA, pointB]"
  by (simp add: insertionSort_two pointA_def pointB_def oldestFirst_examples)

lemma sort_tenth:
  "insertionSort oldestFirst
     [pointAt ''2024-01-01 12:00:00'' (Fin tenth) (Fin 20),
      pointAt ''2024-01-01 11:00:00'' (Fin tenth) (Fin 20),
      pointAt ''2024-01-01 10:00:00'' (Fin tenth) (Fin 20)]
   = [pointAt ''2024-01-01 10:00:00'' (Fin tenth) (Fin 20),
      pointAt ''2024-01-01 11:00:00'' (Fin tenth) (Fin 20),
      pointAt ''2024-01-01 12:00:00'' (Fin tenth) (Fin 20)]"
  by (rule insertionSort_three_rev) (simp_all add: oldestFirst_examples)

lemma summarize_scenarioA:
  "summarize insertionSort [(''abc'', ''web'')] ''abc'' [pointB, pointA] = summaryA"
  unfolding summarize_def sort_scenarioA Let_def
  by (simp add: pointA_def pointB_def point_fields seriesStats_scenario seriesStats_scenario_mem
      summaryA_def mapGet_def)

lemma summaries_scenarioA:
  "getAllContainerSummaries insertionSort insertionSort id scenarioA = [summaryA]"
  by (simp add: getAllContainerSummaries_unfold collect_scenarioA summarize_scenarioA
      insertionSort_one)

lemma summaries_renamed:
  "getAllContainerSummaries insertionSort insertionSort id renamedCatalog = [summaryA]"
  by (simp add: getAllContainerSummaries_unfold collect_renamed summarize_scenarioA
      insertionSort_one)

lemma seriesStats_single: "seriesStats [Fin 10] = (Fin 10, Fin 10, Fin 10)"
  by (simp add: seriesStats_def float_eval)

lemma tie_not_less:
  "\<not> byAvgCPU (summarize insertionSort cn k [pointA]) (summarize insertionSort cn k' [pointA])"
  by (simp add: byAvgCPU_def fgt_def summarize_fields flt_irrefl)

lemma summaries_tie_id:
  "getAllContainerSummaries insertionSort insertionSort id tieCatalog
     = [summarize insertionSort [(''aaa'', ''web''), (''bbb'', ''web'')] ''aaa'' [pointA],
        summarize insertionSort [(''aaa'', ''web''), (''bbb'', ''web'')] ''bbb'' [pointA]]"
  by (simp add: getAllContainerSummaries_unfold collect_tie insertionSort_two tie_not_less)

lemma summaries_tie_rev:
  "getAllContainerSummaries insertionSort insertionSort rev tieCatalog
     = [summarize insertionSort [(''aaa'', ''web''), (''bbb'', ''web'')] ''bbb'' [pointA],
        summarize insertionSort [(''aaa'', ''web''), (''bbb'', ''web'')] ''aaa'' [pointA]]"
  by (simp add: getAllContainerSummaries_unfold collect_tie insertionSort_two tie_not_less)

lemma tie_avg:
  "ContainerSummary.AvgCPU (summarize insertionSort cn k [pointA]) = Fin 10"
  by (simp add: summarize_fields insertionSort_one pointA_def point_fields seriesStats_single)

lemma summaries_tenth:
  "getAllContainerSummaries insertionSort insertionSort id tenthCatalog
     = [summarize insertionSort [(''abc'', ''web'')] ''abc''
          [pointAt ''2024-01-01 12:00:00'' (Fin tenth) (Fin 20),
           pointAt ''2024-01-01 11:00:00'' (Fin tenth) (Fin 20),
           pointAt ''2024-01-01 10:00:00'' (Fin tenth) (Fin 20)]]"
  by (simp add: getAllContainerSummaries_unfold collect_tenth insertionSort_one)

lemma name_renamed:
  "ContainerComparison.ContainerName (getContainerComparison insertionSort renamedCatalog ''abc'') = ''api''"
  by (simp add: getContainerComparison_eq matches_def records_def renamedCatalog_def stat_fields
      firstNonEmpty_def statAbc_def)

lemma collect_nan:
  "collectFiles ([], []) nanCatalog = ([(''abc'', [pointB, pointNaN])], [(''abc'', ''web'')])"
  by (simp add: nanCatalog_def point_eval mapGet_def pointB_def pointNaN_def)

lemma sort_nan: "insertionSort oldestFirst [pointB, pointNaN] = [pointNaN, pointB]"
  by (simp add: insertionSort_two pointB_def pointNaN_def oldestFirst_examples)

lemma summaries_nan:
  "getAllContainerSummaries insertionSort insertionSort id nanCatalog
     = [summarize insertionSort [(''abc'', ''web'')] ''abc'' [pointB, pointNaN]]"
  by (simp add: getAllContainerSummaries_unfold collect_nan insertionSort_one)

lemma summaries_nan_bounds:
  "map ContainerSummary.MinCPU
     (getAllContainerSummaries insertionSort insertionSort id nanCatalog) = [NaN]"
  "map ContainerSummary.MaxCPU
     (getAllContainerSummaries insertionSort insertionSort id nanCatalog) = [NaN]"
  by (simp_all add: summaries_nan summarize_fields sort_nan)
    (simp_all add: pointB_def pointNaN_def point_fields seriesStats_nan)

section \<open>The catalog loader\<close>

text \<open>
  C1, as amended. When the directory can be read, loading succeeds whatever the files
  hold. The catalog has exactly one snapshot for each snapshot file of the directory
  that is structurally well-formed and has no line of 65536 bytes or more, namely the
  one \<open>parseStatsFile\<close> returns for it, and each other snapshot file is skipped with
  one warning that names its path.
\<close>

theorem loadAllStatsFiles_count:
  assumes "sortContract srt" and "ReadDir w dir = Some files"
  shows "\<exists>warnings catalog.
           loadAllStatsFiles srt w dir = (warnings, Inr catalog)
           \<and> length catalog
               = length (filter (\<lambda>e. candidate e
                                    \<and> structurallyWellFormed w (Join dir (DirEntry.Name e))
                                    \<and> linesFit w (Join dir (DirEntry.Name e))) files)
           \<and> mset catalog
               = mset (map (\<lambda>e. projr (parseStatsFile w (Join dir (DirEntry.Name e))))
                        (filter (\<lambda>e. candidate e
                                    \<and> structurallyWellFormed w (Join dir (DirEntry.Name e))
                                    \<and> linesFit w (Join dir (DirEntry.Name e))) files))
           \<and> map fst warnings
               = map (\<lambda>e. Join dir (DirEntry.Name e))
                   (filter (\<lambda>e. candidate e
                               \<and> \<not> (structurallyWellFormed w (Join dir (DirEntry.Name e))
                                    \<and> linesFit w (Join dir (DirEntry.Name e)))) files)"
proof -
  let ?good = "filter (\<lambda>e. candidate e
                          \<and> structurallyWellFormed w (Join dir (DirEntry.Name e))
                          \<and> linesFit w (Join dir (DirEntry.Name e))) files"
  let ?parsed = "map (\<lambda>e. projr (parseStatsFile w (Join dir (DirEntry.Name e)))) ?good"
  have m: "mset (srt newestFirst ?parsed) = mset ?parsed"
    by (rule sortContract_mset[OF assms(1)])
  have l: "length (srt newestFirst ?parsed) = length ?good"
    using mset_eq_length[OF m] by simp
  show ?thesis
    using m l assms(2) by (simp add: loadAllStatsFiles_def loadLoop_result comp_def)
qed

theorem loadAllStatsFiles_count_witness:
  "sortContract (insertionSort :: (StatsFile \<Rightarrow> StatsFile \<Rightarrow> bool) \<Rightarrow> StatsFile list \<Rightarrow> StatsFile list)
   \<and> length (the (ReadDir exampleWorld ''stats/'')) = 5
   \<and> length (filter (\<lambda>e. candidate e
                        \<and> structurallyWellFormed exampleWorld (Join ''stats/'' (DirEntry.Name e))
                        \<and> linesFit exampleWorld (Join ''stats/'' (DirEntry.Name e)))
               (the (ReadDir exampleWorld ''stats/''))) = 2
   \<and> map (\<lambda>e. Join ''stats/'' (DirEntry.Name e))
        (filter (\<lambda>e. candidate e
                    \<and> \<not> (structurallyWellFormed exampleWorld (Join ''stats/'' (DirEntry.Name e))
                         \<and> linesFit exampleWorld (Join ''stats/'' (DirEntry.Name e))))
               (the (ReadDir exampleWorld ''stats/''))) = [''stats/broken_1_2.json'']"
  using loadAllStatsFiles_count[OF insertionSort_contract world_ReadDir] insertionSort_contract
  by (simp add: load_example world_ReadDir)

text \<open>
  C1 as stated fails for a structurally well-formed file with a line too long for the
  scanner of line 97: a directory whose one snapshot file holds a blank line of 65536
  spaces and then a record has one well-formed file and no malformed one, and the
  catalog loaded from it is empty.
\<close>

theorem loadAllStatsFiles_long_line_counterexample:
  "ReadDir longLineWorld ''stats/''
     = Some [\<lparr>DirEntry.Name = ''2024-01-01_10-00-00_x.json'', IsDir = False\<rparr>]
   \<and> candidate \<lparr>DirEntry.Name = ''2024-01-01_10-00-00_x.json'', IsDir = False\<rparr>
   \<and> structurallyWellFormed longLineWorld (Join ''stats/'' ''2024-01-01_10-00-00_x.json'')
   \<and> loadAllStatsFiles insertionSort longLineWorld ''stats/''
       = ([(''stats/2024-01-01_10-00-00_x.json'', ErrRead ''stats/2024-01-01_10-00-00_x.json'')],
          Inr [])"
  by (simp add: longLineWorld_ReadDir candidate_def example_names wellFormed_long load_long)

text \<open>
  C2. Every catalog the loader returns is sorted by timestamp, newest first: no
  snapshot denotes a later instant than the snapshot before it.
\<close>

theorem loadAllStatsFiles_sorted:
  assumes "sortContract srt" and "loadAllStatsFiles srt w dir = (warnings, Inr catalog)"
  shows "\<forall>i. i + 1 < length catalog
           \<longrightarrow> unixNano (StatsFile.Timestamp (catalog ! (i + 1))) \<le> unixNano (StatsFile.Timestamp (catalog ! i))"
proof -
  obtain files where rd: "ReadDir w dir = Some files"
    using assms(2) by (cases "ReadDir w dir") (simp_all add: loadAllStatsFiles_def)
  obtain ws sfs where ll: "loadLoop w dir [] [] files = (ws, sfs)"
    by (cases "loadLoop w dir [] [] files")
  have cat: "catalog = srt newestFirst sfs"
    using assms(2) rd ll by (simp add: loadAllStatsFiles_def)
  have "sorted_wrt (\<lambda>a b. \<not> newestFirst b a) catalog"
    unfolding cat by (rule sortContract_sorted[OF assms(1) newestFirst_strictWeak])
  then have s: "sorted_wrt (\<lambda>a b. unixNano (StatsFile.Timestamp b) \<le> unixNano (StatsFile.Timestamp a)) catalog"
    by (simp add: newestFirst_def After_def not_less)
  show ?thesis
  proof (intro allI impI)
    fix i assume "i + 1 < length catalog"
    then show "unixNano (StatsFile.Timestamp (catalog ! (i + 1))) \<le> unixNano (StatsFile.Timestamp (catalog ! i))"
      using sorted_wrt_nth_less[OF s, of i "i + 1"] by simp
  qed
qed

theorem loadAllStatsFiles_sorted_witness:
  "loadAllStatsFiles insertionSort exampleWorld ''stats/''
     = ([(''stats/broken_1_2.json'', ErrParseLine 2 ''stats/broken_1_2.json'')], Inr [fileB, fileA])
   \<and> (0::nat) + 1 < length [fileB, fileA]
   \<and> unixNano (StatsFile.Timestamp fileA) \<le> unixNano (StatsFile.Timestamp fileB)"
  using loadAllStatsFiles_sorted[OF insertionSort_contract load_example] load_example
  by (auto dest: spec[of _ 0])

section \<open>The timestamp of a snapshot\<close>

text \<open>
  C8. The loader parses the paths whose base name ends in \<open>.json\<close> (line 149). For each
  of them: when the base name, split on \<open>_\<close>, has at least two segments and the first
  two, joined with \<open>_\<close>, parse against \<open>2006-01-02_15-04-05\<close>, the snapshot's timestamp
  is the parsed time; with fewer than two segments, or when the two segments do not
  parse, it is the reading of the clock. (Line 125 asks for three segments; a base name
  of exactly two segments that ends in \<open>.json\<close> has a second segment that does not
  parse, since a parsed stamp ends in a digit.)
\<close>

theorem parseStatsFile_timestamp:
  assumes "parseStatsFile w filePath = Inr statsFile"
    and "HasSuffix (Base filePath) ''.json''"
  shows "(\<forall>t. 2 \<le> length (Split (Base filePath) CHR ''_'')
              \<and> parseFileStamp (Split (Base filePath) CHR ''_'' ! 0 @ ''_''
                                  @ Split (Base filePath) CHR ''_'' ! 1) = Some t
            \<longrightarrow> StatsFile.Timestamp statsFile = t)
         \<and> (length (Split (Base filePath) CHR ''_'') < 2
              \<or> parseFileStamp (Split (Base filePath) CHR ''_'' ! 0 @ ''_''
                                  @ Split (Base filePath) CHR ''_'' ! 1) = None
            \<longrightarrow> StatsFile.Timestamp statsFile = Now w filePath)"
  using parseStatsFile_Inr[OF assms(1)] by (auto simp: fileTimestamp_json[OF assms(2)])

theorem parseStatsFile_timestamp_witness:
  "parseStatsFile exampleWorld ''stats/2024-01-01_10-00-00_x.json'' = Inr fileA
   \<and> HasSuffix (Base ''stats/2024-01-01_10-00-00_x.json'') ''.json''
   \<and> 2 \<le> length (Split (Base ''stats/2024-01-01_10-00-00_x.json'') CHR ''_'')
   \<and> parseFileStamp (''2024-01-01'' @ ''_'' @ ''10-00-00'') = Some t10
   \<and> StatsFile.Timestamp fileA = t10
   \<and> parseStatsFile twoSegmentWorld ''stats/2024-01-01_10-00-00.json''
       = Inr \<lparr>StatsFile.Name = ''2024-01-01_10-00-00.json'', StatsFile.Timestamp = exampleNow, Stats = []\<rparr>
   \<and> HasSuffix (Base ''stats/2024-01-01_10-00-00.json'') ''.json''
   \<and> parseFileStamp (''2024-01-01'' @ ''_'' @ ''10-00-00.json'') = None
   \<and> StatsFile.Timestamp \<lparr>StatsFile.Name = ''2024-01-01_10-00-00.json'', StatsFile.Timestamp = exampleNow, Stats = []\<rparr>
       = Now twoSegmentWorld ''stats/2024-01-01_10-00-00.json''"
  using parseStatsFile_timestamp[OF parse_fileA A_suffix] parseStatsFile_timestamp[OF two_parse two_suffix]
  by (simp add: split_A two_split stamp_ok two_stamp parse_fileA two_parse A_suffix two_suffix)

section \<open>The refresh loop\<close>

text \<open>
  C9. A pass of the refresh loop whose reload fails or yields no snapshot leaves the
  state as it was. The stored catalog changes only when the script ran and the reload
  yields at least one snapshot, and then it is the reloaded catalog as a whole.
\<close>

theorem refreshTick_store:
  "((\<exists>err. snd (loadAllStatsFiles srt w ''stats/'') = Inl err)
      \<or> snd (loadAllStatsFiles srt w ''stats/'') = Inr []
    \<longrightarrow> refreshTick srt w scriptOk st = st)
   \<and> (refreshTick srt w scriptOk st \<noteq> st
      \<longrightarrow> scriptOk \<and> (\<exists>new. snd (loadAllStatsFiles srt w ''stats/'') = Inr new \<and> new \<noteq> []
                \<and> Files (serverData (refreshTick srt w scriptOk st)) = new
                \<and> statsFiles (refreshTick srt w scriptOk st) = new))
   \<and> (\<forall>new. scriptOk \<and> snd (loadAllStatsFiles srt w ''stats/'') = Inr new \<and> new \<noteq> []
      \<longrightarrow> Files (serverData (refreshTick srt w scriptOk st)) = new)"
  by (auto simp: refreshTick_def split: sum.splits)

theorem refreshTick_store_witness:
  "refreshTick insertionSort unreadableWorld True state0 = state0
   \<and> refreshTick insertionSort emptyWorld True state0 = state0
   \<and> Files (serverData (refreshTick insertionSort exampleWorld True state0)) = [fileB, fileA]
   \<and> Files (serverData state0) = [fileA]"
  using refreshTick_store[of insertionSort unreadableWorld True state0]
    refreshTick_store[of insertionSort emptyWorld True state0]
    refreshTick_store[of insertionSort exampleWorld True state0]
  by (simp add: load_unreadable load_empty load_example state0_def)

section \<open>The container series\<close>




section \<open>The conversion of a record into a data point\<close>

text \<open>
  C4, as amended. A data point gets the percentages parsed after one trailing \<open>%\<close> is
  removed, and the error of the parse is not looked at. Missing text, and text the parse
  rejects with a syntax error, gives 0; text the parse rejects with a range error, a
  number too large for float64, gives an infinity. The four text fields are copied as
  they are. These are the points of every series and of every group the summaries are
  computed from.
\<close>

theorem dataPointOf_lossy:
  "ContainerDataPoint.CPUPerc (dataPointOf statsFile stat)
     = fst (ParseFloat (TrimSuffix (DockerStat.CPUPerc stat) ''%''))
   \<and> ContainerDataPoint.MemPerc (dataPointOf statsFile stat)
     = fst (ParseFloat (TrimSuffix (DockerStat.MemPerc stat) ''%''))
   \<and> (snd (ParseFloat (TrimSuffix (DockerStat.CPUPerc stat) ''%'')) = Some ErrSyntax
        \<longrightarrow> ContainerDataPoint.CPUPerc (dataPointOf statsFile stat) = Fin 0)
   \<and> (snd (ParseFloat (TrimSuffix (DockerStat.MemPerc stat) ''%'')) = Some ErrSyntax
        \<longrightarrow> ContainerDataPoint.MemPerc (dataPointOf statsFile stat) = Fin 0)
   \<and> (snd (ParseFloat (TrimSuffix (DockerStat.CPUPerc stat) ''%'')) = Some ErrRange
        \<longrightarrow> isInf (ContainerDataPoint.CPUPerc (dataPointOf statsFile stat)))
   \<and> (snd (ParseFloat (TrimSuffix (DockerStat.MemPerc stat) ''%'')) = Some ErrRange
        \<longrightarrow> isInf (ContainerDataPoint.MemPerc (dataPointOf statsFile stat)))
   \<and> (DockerStat.CPUPerc stat = [] \<longrightarrow> ContainerDataPoint.CPUPerc (dataPointOf statsFile stat) = Fin 0)
   \<and> (DockerStat.MemPerc stat = [] \<longrightarrow> ContainerDataPoint.MemPerc (dataPointOf statsFile stat) = Fin 0)
   \<and> ContainerDataPoint.MemUsage (dataPointOf statsFile stat) = DockerStat.MemUsage stat
   \<and> ContainerDataPoint.NetIO (dataPointOf statsFile stat) = DockerStat.NetIO stat
   \<and> ContainerDataPoint.BlockIO (dataPointOf statsFile stat) = DockerStat.BlockIO stat
   \<and> ContainerDataPoint.PIDs (dataPointOf statsFile stat) = DockerStat.PIDs stat
   \<and> (sortContract srt
        \<longrightarrow> mset (Data (getContainerComparison srt catalog containerID))
            = mset (map (\<lambda>r. dataPointOf (fst r) (snd r)) (matches containerID catalog)))
   \<and> (\<forall>k dataPoints. (k, dataPoints) \<in> set (fst (collectFiles ([], []) catalog))
        \<longrightarrow> dataPoints = map (\<lambda>r. dataPointOf (fst r) (snd r)) (matches k catalog))"
proof -
  have e: "TrimSuffix [] ''%'' = []" by (simp add: TrimSuffix_def HasSuffix_def)
  have m: "sortContract srt
        \<longrightarrow> mset (Data (getContainerComparison srt catalog containerID))
            = mset (map (\<lambda>r. dataPointOf (fst r) (snd r)) (matches containerID catalog))"
    by (simp add: getContainerComparison_eq sortContract_mset pointsOf_def)
  have c: "\<forall>k dataPoints. (k, dataPoints) \<in> set (fst (collectFiles ([], []) catalog))
        \<longrightarrow> dataPoints = map (\<lambda>r. dataPointOf (fst r) (snd r)) (matches k catalog)"
    using collected_entry[of _ _ catalog] by (simp add: pointsOf_def)
  show ?thesis
    using m c
    by (simp add: dataPointOf_def ParseFloat_syntax_zero ParseFloat_range_inf e ParseFloat_empty)
qed

theorem dataPointOf_lossy_witness:
  "CPUPerc (dataPointOf fileA (statAbc ''10.00%'' ''--'')) = Fin 10
   \<and> snd (ParseFloat (TrimSuffix ''--'' ''%'')) = Some ErrSyntax
   \<and> MemPerc (dataPointOf fileA (statAbc ''10.00%'' ''--'')) = Fin 0
   \<and> MemUsage (dataPointOf fileA (statAbc ''10.00%'' ''--'')) = ''10MiB / 1GiB''
   \<and> snd (ParseFloat (TrimSuffix ''1e309%'' ''%'')) = Some ErrRange
   \<and> isInf (CPUPerc (dataPointOf fileA (statAbc ''1e309%'' [])))
   \<and> MemPerc (dataPointOf fileA (statAbc ''1e309%'' [])) = Fin 0
   \<and> sortContract (insertionSort :: (ContainerDataPoint \<Rightarrow> ContainerDataPoint \<Rightarrow> bool)
                   \<Rightarrow> ContainerDataPoint list \<Rightarrow> ContainerDataPoint list)
   \<and> mset (Data (getContainerComparison insertionSort scenarioA ''abc''))
       = mset (map (\<lambda>r. dataPointOf (fst r) (snd r)) (matches ''abc'' scenarioA))"
  using dataPointOf_lossy[of fileA "statAbc ''10.00%'' ''--''" insertionSort scenarioA "''abc''"]
    dataPointOf_lossy[of fileA "statAbc ''1e309%'' []" insertionSort scenarioA "''abc''"]
    insertionSort_contract[where ?'a = ContainerDataPoint]
  by (simp add: statAbc_def trim_examples trim_huge ParseFloat_examples ParseFloat_huge
      ParseFloat_empty isInf_def TrimSuffix_def HasSuffix_def)

text \<open>
  C4 as stated fails for text the parse rejects as out of range: for \<open>1e309%\<close>
  \<open>ParseFloat\<close> returns the range error together with the positive infinity, and the
  data point holds the infinity, not 0. The text \<open>NaN%\<close> is a number to the parse, and
  the data point holds NaN.
\<close>

theorem dataPointOf_range_counterexample:
  "snd (ParseFloat (TrimSuffix ''1e309%'' ''%'')) = Some ErrRange
   \<and> ContainerDataPoint.CPUPerc (dataPointOf fileA (statAbc ''1e309%'' ''NaN%'')) = PosInf
   \<and> ContainerDataPoint.MemPerc (dataPointOf fileA (statAbc ''1e309%'' ''NaN%'')) = NaN"
  by (simp add: dataPointOf_statAbc point_fields trim_examples trim_huge ParseFloat_examples
      ParseFloat_huge)

section \<open>The statistics of one container\<close>

text \<open>
  C7, as amended. For an empty series the six statistics are 0. For a series that is
  not empty the averages are the float64 sum of the values, added in the order of the
  series from 0, divided by the number of points; when no CPU value is NaN the maximum
  and the minimum of the CPU are values of the series that bound all of them, and the
  same for the memory. For the files of Scenario A the series of \<open>abc\<close> has the CPU
  values 10 and 30 in this order, average 20, maximum 30 and minimum 10.
\<close>

theorem getContainerComparisonWithStats_stats:
  "(Data (getContainerComparisonWithStats srt catalog containerID) = []
      \<longrightarrow> ContainerComparisonWithStats.AvgCPU (getContainerComparisonWithStats srt catalog containerID) = Fin 0
        \<and> ContainerComparisonWithStats.MaxCPU (getContainerComparisonWithStats srt catalog containerID) = Fin 0
        \<and> ContainerComparisonWithStats.MinCPU (getContainerComparisonWithStats srt catalog containerID) = Fin 0
        \<and> ContainerComparisonWithStats.AvgMem (getContainerComparisonWithStats srt catalog containerID) = Fin 0
        \<and> ContainerComparisonWithStats.MaxMem (getContainerComparisonWithStats srt catalog containerID) = Fin 0
        \<and> ContainerComparisonWithStats.MinMem (getContainerComparisonWithStats srt catalog containerID) = Fin 0)
   \<and> (Data (getContainerComparisonWithStats srt catalog containerID) \<noteq> []
      \<longrightarrow> ContainerComparisonWithStats.AvgCPU (getContainerComparisonWithStats srt catalog containerID)
            = fdiv (foldl fadd (Fin 0)
                      (map CPUPerc (Data (getContainerComparisonWithStats srt catalog containerID))))
                   (float64_of_int
                      (int (length (Data (getContainerComparisonWithStats srt catalog containerID)))))
        \<and> ContainerComparisonWithStats.AvgMem (getContainerComparisonWithStats srt catalog containerID)
            = fdiv (foldl fadd (Fin 0)
                      (map MemPerc (Data (getContainerComparisonWithStats srt catalog containerID))))
                   (float64_of_int
                      (int (length (Data (getContainerComparisonWithStats srt catalog containerID)))))
        \<and> (NaN \<notin> CPUPerc ` set (Data (getContainerComparisonWithStats srt catalog containerID))
            \<longrightarrow> ContainerComparisonWithStats.MaxCPU (getContainerComparisonWithStats srt catalog containerID)
                  \<in> CPUPerc ` set (Data (getContainerComparisonWithStats srt catalog containerID))
              \<and> ContainerComparisonWithStats.MinCPU (getContainerComparisonWithStats srt catalog containerID)
                  \<in> CPUPerc ` set (Data (getContainerComparisonWithStats srt catalog containerID))
              \<and> (\<forall>p\<in>set (Data (getContainerComparisonWithStats srt catalog containerID)).
                    fle (ContainerComparisonWithStats.MinCPU
                           (getContainerComparisonWithStats srt catalog containerID)) (CPUPerc p)
                    \<and> fle (CPUPerc p)
                          (ContainerComparisonWithStats.MaxCPU
                             (getContainerComparisonWithStats srt catalog containerID))))
        \<and> (NaN \<notin> MemPerc ` set (Data (getContainerComparisonWithStats srt catalog containerID))
            \<longrightarrow> ContainerComparisonWithStats.MaxMem (getContainerComparisonWithStats srt catalog containerID)
                  \<in> MemPerc ` set (Data (getContainerComparisonWithStats srt catalog containerID))
              \<and> ContainerComparisonWithStats.MinMem (getContainerComparisonWithStats srt catalog containerID)
                  \<in> MemPerc ` set (Data (getContainerComparisonWithStats srt catalog containerID))
              \<and> (\<forall>p\<in>set (Data (getContainerComparisonWithStats srt catalog containerID)).
                    fle (ContainerComparisonWithStats.MinMem
                           (getContainerComparisonWithStats srt catalog containerID)) (MemPerc p)
                    \<and> fle (MemPerc p)
                          (ContainerComparisonWithStats.MaxMem
                             (getContainerComparisonWithStats srt catalog containerID)))))
   \<and> snd (loadAllStatsFiles insertionSort exampleWorld ''stats/'') = Inr scenarioA
   \<and> map CPUPerc (Data (getContainerComparisonWithStats insertionSort scenarioA ''abc''))
       = [Fin 10, Fin 30]
   \<and> ContainerComparisonWithStats.AvgCPU (getContainerComparisonWithStats insertionSort scenarioA ''abc'') = Fin 20
   \<and> ContainerComparisonWithStats.MaxCPU (getContainerComparisonWithStats insertionSort scenarioA ''abc'') = Fin 30
   \<and> ContainerComparisonWithStats.MinCPU (getContainerComparisonWithStats insertionSort scenarioA ''abc'') = Fin 10"
proof -
  let ?d = "Data (getContainerComparison srt catalog containerID)"
  have e: "?d = [] \<longrightarrow>
        ContainerComparisonWithStats.AvgCPU (getContainerComparisonWithStats srt catalog containerID) = Fin 0
        \<and> ContainerComparisonWithStats.MaxCPU (getContainerComparisonWithStats srt catalog containerID) = Fin 0
        \<and> ContainerComparisonWithStats.MinCPU (getContainerComparisonWithStats srt catalog containerID) = Fin 0
        \<and> ContainerComparisonWithStats.AvgMem (getContainerComparisonWithStats srt catalog containerID) = Fin 0
        \<and> ContainerComparisonWithStats.MaxMem (getContainerComparisonWithStats srt catalog containerID) = Fin 0
        \<and> ContainerComparisonWithStats.MinMem (getContainerComparisonWithStats srt catalog containerID) = Fin 0"
    by (simp add: withStats_empty)
  have avg: "?d \<noteq> [] \<longrightarrow>
        ContainerComparisonWithStats.AvgCPU (getContainerComparisonWithStats srt catalog containerID)
            = fdiv (foldl fadd (Fin 0) (map CPUPerc ?d)) (float64_of_int (int (length ?d)))
        \<and> ContainerComparisonWithStats.AvgMem (getContainerComparisonWithStats srt catalog containerID)
            = fdiv (foldl fadd (Fin 0) (map MemPerc ?d)) (float64_of_int (int (length ?d)))"
    by (simp add: withStats_nonempty seriesStats_avg)
  have cpu: "?d \<noteq> [] \<longrightarrow> NaN \<notin> CPUPerc ` set ?d
            \<longrightarrow> ContainerComparisonWithStats.MaxCPU (getContainerComparisonWithStats srt catalog containerID)
                  \<in> CPUPerc ` set ?d
              \<and> ContainerComparisonWithStats.MinCPU (getContainerComparisonWithStats srt catalog containerID)
                  \<in> CPUPerc ` set ?d
              \<and> (\<forall>p\<in>set ?d.
                    fle (ContainerComparisonWithStats.MinCPU
                           (getContainerComparisonWithStats srt catalog containerID)) (CPUPerc p)
                    \<and> fle (CPUPerc p)
                          (ContainerComparisonWithStats.MaxCPU
                             (getContainerComparisonWithStats srt catalog containerID)))"
  proof (intro impI)
    assume ne: "?d \<noteq> []" and nn: "NaN \<notin> CPUPerc ` set ?d"
    have vne: "map CPUPerc ?d \<noteq> []" using ne by simp
    have vnn: "NaN \<notin> set (map CPUPerc ?d)" using nn by simp
    from stats_bounds[OF vne vnn]
    show "ContainerComparisonWithStats.MaxCPU (getContainerComparisonWithStats srt catalog containerID)
                  \<in> CPUPerc ` set ?d
              \<and> ContainerComparisonWithStats.MinCPU (getContainerComparisonWithStats srt catalog containerID)
                  \<in> CPUPerc ` set ?d
              \<and> (\<forall>p\<in>set ?d.
                    fle (ContainerComparisonWithStats.MinCPU
                           (getContainerComparisonWithStats srt catalog containerID)) (CPUPerc p)
                    \<and> fle (CPUPerc p)
                          (ContainerComparisonWithStats.MaxCPU
                             (getContainerComparisonWithStats srt catalog containerID)))"
      by (simp add: withStats_nonempty[OF ne])
  qed
  have mem: "?d \<noteq> [] \<longrightarrow> NaN \<notin> MemPerc ` set ?d
            \<longrightarrow> ContainerComparisonWithStats.MaxMem (getContainerComparisonWithStats srt catalog containerID)
                  \<in> MemPerc ` set ?d
              \<and> ContainerComparisonWithStats.MinMem (getContainerComparisonWithStats srt catalog containerID)
                  \<in> MemPerc ` set ?d
              \<and> (\<forall>p\<in>set ?d.
                    fle (ContainerComparisonWithStats.MinMem
                           (getContainerComparisonWithStats srt catalog containerID)) (MemPerc p)
                    \<and> fle (MemPerc p)
                          (ContainerComparisonWithStats.MaxMem
                             (getContainerComparisonWithStats srt catalog containerID)))"
  proof (intro impI)
    assume ne: "?d \<noteq> []" and nn: "NaN \<notin> MemPerc ` set ?d"
    have vne: "map MemPerc ?d \<noteq> []" using ne by simp
    have vnn: "NaN \<notin> set (map MemPerc ?d)" using nn by simp
    from stats_bounds[OF vne vnn]
    show "ContainerComparisonWithStats.MaxMem (getContainerComparisonWithStats srt catalog containerID)
                  \<in> MemPerc ` set ?d
              \<and> ContainerComparisonWithStats.MinMem (getContainerComparisonWithStats srt catalog containerID)
                  \<in> MemPerc ` set ?d
              \<and> (\<forall>p\<in>set ?d.
                    fle (ContainerComparisonWithStats.MinMem
                           (getContainerComparisonWithStats srt catalog containerID)) (MemPerc p)
                    \<and> fle (MemPerc p)
                          (ContainerComparisonWithStats.MaxMem
                             (getContainerComparisonWithStats srt catalog containerID)))"
      by (simp add: withStats_nonempty[OF ne])
  qed
  have ne: "Data (getContainerComparison insertionSort scenarioA ''abc'') \<noteq> []"
    by (simp add: series_scenarioA)
  have sc: "snd (loadAllStatsFiles insertionSort exampleWorld ''stats/'') = Inr scenarioA
   \<and> map CPUPerc (Data (getContainerComparisonWithStats insertionSort scenarioA ''abc''))
       = [Fin 10, Fin 30]
   \<and> ContainerComparisonWithStats.AvgCPU (getContainerComparisonWithStats insertionSort scenarioA ''abc'') = Fin 20
   \<and> ContainerComparisonWithStats.MaxCPU (getContainerComparisonWithStats insertionSort scenarioA ''abc'') = Fin 30
   \<and> ContainerComparisonWithStats.MinCPU (getContainerComparisonWithStats insertionSort scenarioA ''abc'') = Fin 10"
    by (simp add: load_example scenarioA_def[symmetric] withStats_data withStats_nonempty[OF ne]
        series_scenarioA pointA_def pointB_def point_fields seriesStats_scenario)
  show ?thesis
    unfolding withStats_data
    using e avg cpu mem sc[unfolded withStats_data] by blast
qed

theorem getContainerComparisonWithStats_stats_witness:
  "Data (getContainerComparisonWithStats insertionSort scenarioA ''nobody'') = []
   \<and> ContainerComparisonWithStats.AvgCPU (getContainerComparisonWithStats insertionSort scenarioA ''nobody'') = Fin 0
   \<and> ContainerComparisonWithStats.MaxMem (getContainerComparisonWithStats insertionSort scenarioA ''nobody'') = Fin 0
   \<and> Data (getContainerComparisonWithStats insertionSort scenarioA ''abc'') = [pointA, pointB]
   \<and> NaN \<notin> CPUPerc ` set [pointA, pointB]
   \<and> NaN \<notin> MemPerc ` set [pointA, pointB]
   \<and> fle (ContainerComparisonWithStats.MinCPU (getContainerComparisonWithStats insertionSort scenarioA ''abc''))
          (CPUPerc pointB)
   \<and> fle (MemPerc pointA)
          (ContainerComparisonWithStats.MaxMem (getContainerComparisonWithStats insertionSort scenarioA ''abc''))"
  using getContainerComparisonWithStats_stats[of insertionSort scenarioA "''nobody''"]
    getContainerComparisonWithStats_stats[of insertionSort scenarioA "''abc''"]
  by (auto simp add: withStats_data series_absent series_scenarioA pointA_def pointB_def
      point_fields)

text \<open>
  C7 as stated fails when a value is NaN, which \<open>ParseFloat\<close> returns without an
  error for the text \<open>NaN\<close>: with the CPU values NaN and 30 the maximum and the minimum
  are NaN, and 30 is not below the maximum.
\<close>

theorem getContainerComparisonWithStats_nan_counterexample:
  "map CPUPerc (Data (getContainerComparisonWithStats insertionSort nanCatalog ''abc'')) = [NaN, Fin 30]
   \<and> ContainerComparisonWithStats.MaxCPU (getContainerComparisonWithStats insertionSort nanCatalog ''abc'') = NaN
   \<and> ContainerComparisonWithStats.MinCPU (getContainerComparisonWithStats insertionSort nanCatalog ''abc'') = NaN
   \<and> \<not> fle (Fin 30)
          (ContainerComparisonWithStats.MaxCPU (getContainerComparisonWithStats insertionSort nanCatalog ''abc''))"
proof -
  have ne: "Data (getContainerComparison insertionSort nanCatalog ''abc'') \<noteq> []"
    by (simp add: series_nan)
  show ?thesis
    by (simp add: withStats_data withStats_nonempty[OF ne] series_nan pointNaN_def pointB_def
        point_fields seriesStats_nan fle_def isNaN_def)
qed

section \<open>The summaries of all containers\<close>

text \<open>
  C5, at a catalog in which the container \<open>abc\<close> is named \<open>api\<close> in the newer
  snapshot and \<open>web\<close> in the older one. The series carries the first non-empty name of
  the scan, \<open>api\<close>; the summary carries \<open>web\<close>, the name of the last record scanned,
  because line 304 overwrites the name at every record.
\<close>

theorem container_name_renamed:
  "map (\<lambda>r. DockerStat.Name (snd r)) (matches ''abc'' renamedCatalog) = [''api'', ''web'']
   \<and> ContainerComparison.ContainerName (getContainerComparison insertionSort renamedCatalog ''abc'')
       = ''api''
   \<and> map ContainerSummary.ContainerName
         (getAllContainerSummaries insertionSort insertionSort id renamedCatalog) = [''web'']"
proof -
  have scan: "map (\<lambda>r. DockerStat.Name (snd r)) (matches ''abc'' renamedCatalog) = [''api'', ''web'']"
    by (simp add: matches_def records_def renamedCatalog_def stat_fields statAbc_def)
  show ?thesis
    by (simp add: scan name_renamed summaries_renamed summaryA_def)
qed

text \<open>
  C6, as amended. Two computations of the summaries of one catalog, whatever order
  \<open>range\<close> takes in each, return the same summaries with the same field values, each as
  often. When no average CPU is NaN both results are sorted by average CPU, highest
  first, so they differ at most in the order of summaries with equal averages.
\<close>

theorem getAllContainerSummaries_same_summaries:
  assumes "sortContract srtSummaries" and "rangeContract rng1" and "rangeContract rng2"
  shows "mset (getAllContainerSummaries srtPoints srtSummaries rng1 catalog)
           = mset (getAllContainerSummaries srtPoints srtSummaries rng2 catalog)
         \<and> ((\<forall>s\<in>set (getAllContainerSummaries srtPoints srtSummaries rng1 catalog).
                ContainerSummary.AvgCPU s \<noteq> NaN)
             \<longrightarrow> sorted_wrt (\<lambda>a b. fle (ContainerSummary.AvgCPU b) (ContainerSummary.AvgCPU a))
                   (getAllContainerSummaries srtPoints srtSummaries rng1 catalog)
                 \<and> sorted_wrt (\<lambda>a b. fle (ContainerSummary.AvgCPU b) (ContainerSummary.AvgCPU a))
                   (getAllContainerSummaries srtPoints srtSummaries rng2 catalog))"
proof -
  have m: "mset (getAllContainerSummaries srtPoints srtSummaries rng1 catalog)
           = mset (getAllContainerSummaries srtPoints srtSummaries rng2 catalog)"
    by (simp add: getAllContainerSummaries_mset[OF assms(1,2)]
        getAllContainerSummaries_mset[OF assms(1,3)])
  then have "set (getAllContainerSummaries srtPoints srtSummaries rng1 catalog)
           = set (getAllContainerSummaries srtPoints srtSummaries rng2 catalog)"
    by (metis set_mset_mset)
  then show ?thesis
    using m getAllContainerSummaries_sorted[OF assms(1), of srtPoints rng1 catalog]
      getAllContainerSummaries_sorted[OF assms(1), of srtPoints rng2 catalog]
    by simp
qed

theorem getAllContainerSummaries_same_summaries_witness:
  "sortContract (insertionSort :: (ContainerSummary \<Rightarrow> ContainerSummary \<Rightarrow> bool)
                   \<Rightarrow> ContainerSummary list \<Rightarrow> ContainerSummary list)
   \<and> rangeContract (id :: (string \<times> ContainerDataPoint list) list \<Rightarrow> _)
   \<and> rangeContract (rev :: (string \<times> ContainerDataPoint list) list \<Rightarrow> _)
   \<and> map ContainerSummary.AvgCPU
         (getAllContainerSummaries insertionSort insertionSort id tieCatalog) = [Fin 10, Fin 10]
   \<and> mset (getAllContainerSummaries insertionSort insertionSort id tieCatalog)
       = mset (getAllContainerSummaries insertionSort insertionSort rev tieCatalog)
   \<and> sorted_wrt (\<lambda>a b. fle (ContainerSummary.AvgCPU b) (ContainerSummary.AvgCPU a))
         (getAllContainerSummaries insertionSort insertionSort rev tieCatalog)"
proof -
  have nn: "\<forall>s\<in>set (getAllContainerSummaries insertionSort insertionSort id tieCatalog).
         ContainerSummary.AvgCPU s \<noteq> NaN"
    by (simp add: summaries_tie_id tie_avg)
  have av: "map ContainerSummary.AvgCPU
         (getAllContainerSummaries insertionSort insertionSort id tieCatalog) = [Fin 10, Fin 10]"
    by (simp add: summaries_tie_id tie_avg)
  show ?thesis
    using getAllContainerSummaries_same_summaries[OF insertionSort_contract rangeContract_id
        rangeContract_rev, of insertionSort tieCatalog] nn
      insertionSort_contract[where ?'a = ContainerSummary]
      rangeContract_id[where ?'a = "ContainerDataPoint list"]
      rangeContract_rev[where ?'a = "ContainerDataPoint list"] av
    by simp
qed

text \<open>
  C6 as stated fails for two containers with equal averages: when \<open>range\<close> visits
  the map in one order the summary of \<open>aaa\<close> comes first, in the other order that of
  \<open>bbb\<close>.
\<close>

theorem getAllContainerSummaries_tie_counterexample:
  "map ContainerSummary.ContainerID
     (getAllContainerSummaries insertionSort insertionSort id tieCatalog) = [''aaa'', ''bbb'']
   \<and> map ContainerSummary.ContainerID
     (getAllContainerSummaries insertionSort insertionSort rev tieCatalog) = [''bbb'', ''aaa'']
   \<and> getAllContainerSummaries insertionSort insertionSort id tieCatalog
       \<noteq> getAllContainerSummaries insertionSort insertionSort rev tieCatalog"
proof -
  have a: "map ContainerSummary.ContainerID
     (getAllContainerSummaries insertionSort insertionSort id tieCatalog) = [''aaa'', ''bbb'']"
    by (simp add: summaries_tie_id summarize_fields)
  have b: "map ContainerSummary.ContainerID
     (getAllContainerSummaries insertionSort insertionSort rev tieCatalog) = [''bbb'', ''aaa'']"
    by (simp add: summaries_tie_rev summarize_fields)
  have "map ContainerSummary.ContainerID
     (getAllContainerSummaries insertionSort insertionSort id tieCatalog)
     \<noteq> map ContainerSummary.ContainerID
     (getAllContainerSummaries insertionSort insertionSort rev tieCatalog)"
    unfolding a b by simp
  then have "getAllContainerSummaries insertionSort insertionSort id tieCatalog
       \<noteq> getAllContainerSummaries insertionSort insertionSort rev tieCatalog"
    by metis
  with a b show ?thesis by simp
qed

text \<open>
  C10, as amended. Every summary the aggregator returns belongs to a container with at
  least one data point and counts its points. Its averages are the float64 sum of the
  values, added from 0 in ascending order of time, divided by the count. When no CPU
  value of the container is NaN, its minimum and maximum CPU are values of its points,
  bound all of them and the minimum is at most the maximum; the same for the memory.
  FirstSeen and LastSeen are the timestamps of a point with the earliest and of a point
  with the latest time, the time of a point being its timestamp parsed again.
\<close>

theorem getAllContainerSummaries_invariants:
  assumes "sortContract srtPoints" and "sortContract srtSummaries" and "rangeContract rng"
    and "s \<in> set (getAllContainerSummaries srtPoints srtSummaries rng catalog)"
  shows "pointsOf (ContainerSummary.ContainerID s) catalog \<noteq> []
         \<and> DataPoints s = int (length (pointsOf (ContainerSummary.ContainerID s) catalog))
         \<and> 1 \<le> DataPoints s
         \<and> ContainerSummary.AvgCPU s
             = fdiv (foldl fadd (Fin 0)
                       (map CPUPerc (srtPoints oldestFirst (pointsOf (ContainerSummary.ContainerID s) catalog))))
                    (float64_of_int (DataPoints s))
         \<and> ContainerSummary.AvgMem s
             = fdiv (foldl fadd (Fin 0)
                       (map MemPerc (srtPoints oldestFirst (pointsOf (ContainerSummary.ContainerID s) catalog))))
                    (float64_of_int (DataPoints s))
         \<and> (NaN \<notin> CPUPerc ` set (pointsOf (ContainerSummary.ContainerID s) catalog)
             \<longrightarrow> ContainerSummary.MinCPU s \<in> CPUPerc ` set (pointsOf (ContainerSummary.ContainerID s) catalog)
               \<and> ContainerSummary.MaxCPU s \<in> CPUPerc ` set (pointsOf (ContainerSummary.ContainerID s) catalog)
               \<and> (\<forall>p\<in>set (pointsOf (ContainerSummary.ContainerID s) catalog).
                     fle (ContainerSummary.MinCPU s) (CPUPerc p) \<and> fle (CPUPerc p) (ContainerSummary.MaxCPU s))
               \<and> fle (ContainerSummary.MinCPU s) (ContainerSummary.MaxCPU s))
         \<and> (NaN \<notin> MemPerc ` set (pointsOf (ContainerSummary.ContainerID s) catalog)
             \<longrightarrow> ContainerSummary.MinMem s \<in> MemPerc ` set (pointsOf (ContainerSummary.ContainerID s) catalog)
               \<and> ContainerSummary.MaxMem s \<in> MemPerc ` set (pointsOf (ContainerSummary.ContainerID s) catalog)
               \<and> (\<forall>p\<in>set (pointsOf (ContainerSummary.ContainerID s) catalog).
                     fle (ContainerSummary.MinMem s) (MemPerc p) \<and> fle (MemPerc p) (ContainerSummary.MaxMem s))
               \<and> fle (ContainerSummary.MinMem s) (ContainerSummary.MaxMem s))
         \<and> (\<exists>p\<in>set (pointsOf (ContainerSummary.ContainerID s) catalog).
               FirstSeen s = ContainerDataPoint.Timestamp p
               \<and> (\<forall>q\<in>set (pointsOf (ContainerSummary.ContainerID s) catalog).
                     unixNano (pointTime p) \<le> unixNano (pointTime q)))
         \<and> (\<exists>p\<in>set (pointsOf (ContainerSummary.ContainerID s) catalog).
               LastSeen s = ContainerDataPoint.Timestamp p
               \<and> (\<forall>q\<in>set (pointsOf (ContainerSummary.ContainerID s) catalog).
                     unixNano (pointTime q) \<le> unixNano (pointTime p)))"
proof -
  obtain k where ne: "pointsOf k catalog \<noteq> []"
    and s: "s = summarize srtPoints (snd (collectFiles ([], []) catalog)) k (pointsOf k catalog)"
    using getAllContainerSummaries_member[OF assms(2,3,4)] by blast
  let ?ps = "pointsOf k catalog"
  let ?d = "srtPoints oldestFirst ?ps"
  have k: "ContainerSummary.ContainerID s = k" by (simp add: s summarize_fields)
  have set_d: "set ?d = set ?ps" by (rule sort_set[OF assms(1)])
  have len_d: "length ?d = length ?ps" by (rule sort_length[OF assms(1)])
  have d_ne: "?d \<noteq> []" by (rule sort_nonempty[OF assms(1) ne])
  have sorted: "sorted_wrt (\<lambda>a b. unixNano (pointTime a) \<le> unixNano (pointTime b)) ?d"
    by (rule series_sorted[OF assms(1)])
  have dp: "DataPoints s = int (length ?ps)" by (simp add: s summarize_fields len_d)
  have one: "1 \<le> DataPoints s" using ne dp by (cases ?ps) simp_all
  have avgc: "ContainerSummary.AvgCPU s
      = fdiv (foldl fadd (Fin 0) (map CPUPerc ?d)) (float64_of_int (DataPoints s))"
    by (simp add: s summarize_fields seriesStats_avg len_d)
  have avgm: "ContainerSummary.AvgMem s
      = fdiv (foldl fadd (Fin 0) (map MemPerc ?d)) (float64_of_int (DataPoints s))"
    by (simp add: s summarize_fields seriesStats_avg len_d)
  have cpu: "NaN \<notin> CPUPerc ` set ?ps
             \<longrightarrow> ContainerSummary.MinCPU s \<in> CPUPerc ` set ?ps
               \<and> ContainerSummary.MaxCPU s \<in> CPUPerc ` set ?ps
               \<and> (\<forall>p\<in>set ?ps. fle (ContainerSummary.MinCPU s) (CPUPerc p)
                     \<and> fle (CPUPerc p) (ContainerSummary.MaxCPU s))
               \<and> fle (ContainerSummary.MinCPU s) (ContainerSummary.MaxCPU s)"
  proof
    assume "NaN \<notin> CPUPerc ` set ?ps"
    then have nn: "NaN \<notin> set (map CPUPerc ?d)" by (simp add: set_d)
    have vne: "map CPUPerc ?d \<noteq> []" using d_ne by simp
    from stats_bounds[OF vne nn]
    show "ContainerSummary.MinCPU s \<in> CPUPerc ` set ?ps
               \<and> ContainerSummary.MaxCPU s \<in> CPUPerc ` set ?ps
               \<and> (\<forall>p\<in>set ?ps. fle (ContainerSummary.MinCPU s) (CPUPerc p)
                     \<and> fle (CPUPerc p) (ContainerSummary.MaxCPU s))
               \<and> fle (ContainerSummary.MinCPU s) (ContainerSummary.MaxCPU s)"
      by (simp add: s summarize_fields set_d)
  qed
  have mem: "NaN \<notin> MemPerc ` set ?ps
             \<longrightarrow> ContainerSummary.MinMem s \<in> MemPerc ` set ?ps
               \<and> ContainerSummary.MaxMem s \<in> MemPerc ` set ?ps
               \<and> (\<forall>p\<in>set ?ps. fle (ContainerSummary.MinMem s) (MemPerc p)
                     \<and> fle (MemPerc p) (ContainerSummary.MaxMem s))
               \<and> fle (ContainerSummary.MinMem s) (ContainerSummary.MaxMem s)"
  proof
    assume "NaN \<notin> MemPerc ` set ?ps"
    then have nn: "NaN \<notin> set (map MemPerc ?d)" by (simp add: set_d)
    have vne: "map MemPerc ?d \<noteq> []" using d_ne by simp
    from stats_bounds[OF vne nn]
    show "ContainerSummary.MinMem s \<in> MemPerc ` set ?ps
               \<and> ContainerSummary.MaxMem s \<in> MemPerc ` set ?ps
               \<and> (\<forall>p\<in>set ?ps. fle (ContainerSummary.MinMem s) (MemPerc p)
                     \<and> fle (MemPerc p) (ContainerSummary.MaxMem s))
               \<and> fle (ContainerSummary.MinMem s) (ContainerSummary.MaxMem s)"
      by (simp add: s summarize_fields set_d)
  qed
  have first: "\<exists>p\<in>set ?ps. FirstSeen s = ContainerDataPoint.Timestamp p
               \<and> (\<forall>q\<in>set ?ps. unixNano (pointTime p) \<le> unixNano (pointTime q))"
  proof (intro bexI[of _ "hd ?d"] conjI ballI)
    show "FirstSeen s = ContainerDataPoint.Timestamp (hd ?d)" by (simp add: s summarize_fields)
    show "hd ?d \<in> set ?ps" using d_ne set_d by (metis hd_in_set)
    fix q assume "q \<in> set ?ps"
    then have "q \<in> set ?d" by (simp add: set_d)
    then show "unixNano (pointTime (hd ?d)) \<le> unixNano (pointTime q)"
      by (rule sorted_hd_min[OF sorted])
  qed
  have last: "\<exists>p\<in>set ?ps. LastSeen s = ContainerDataPoint.Timestamp p
               \<and> (\<forall>q\<in>set ?ps. unixNano (pointTime q) \<le> unixNano (pointTime p))"
  proof (intro bexI[of _ "last ?d"] conjI ballI)
    show "LastSeen s = ContainerDataPoint.Timestamp (last ?d)" by (simp add: s summarize_fields)
    show "last ?d \<in> set ?ps" using d_ne set_d by (metis last_in_set)
    fix q assume "q \<in> set ?ps"
    then have "q \<in> set ?d" by (simp add: set_d)
    then show "unixNano (pointTime q) \<le> unixNano (pointTime (last ?d))"
      by (rule sorted_last_max[OF sorted])
  qed
  show ?thesis
    unfolding k using ne dp one avgc avgm cpu mem first last by (simp only: k simp_thms)
qed

theorem getAllContainerSummaries_invariants_witness:
  "getAllContainerSummaries insertionSort insertionSort id scenarioA = [summaryA]
   \<and> rangeContract (id :: (string \<times> ContainerDataPoint list) list \<Rightarrow> _)
   \<and> pointsOf ''abc'' scenarioA = [pointB, pointA]
   \<and> NaN \<notin> CPUPerc ` set [pointB, pointA]
   \<and> NaN \<notin> MemPerc ` set [pointB, pointA]
   \<and> DataPoints summaryA = 2
   \<and> fle (ContainerSummary.MinCPU summaryA) (ContainerSummary.MaxCPU summaryA)
   \<and> fle (ContainerSummary.MinMem summaryA) (ContainerSummary.MaxMem summaryA)
   \<and> FirstSeen summaryA = ContainerDataPoint.Timestamp pointA
   \<and> LastSeen summaryA = ContainerDataPoint.Timestamp pointB"
proof -
  have m: "summaryA \<in> set (getAllContainerSummaries insertionSort insertionSort id scenarioA)"
    by (simp add: summaries_scenarioA)
  have k: "ContainerSummary.ContainerID summaryA = ''abc''"
    by (simp add: summaryA_def)
  have nn: "NaN \<notin> CPUPerc ` set [pointB, pointA]" "NaN \<notin> MemPerc ` set [pointB, pointA]"
    by (simp_all add: pointA_def pointB_def point_fields)
  have ts: "FirstSeen summaryA = ContainerDataPoint.Timestamp pointA"
    "LastSeen summaryA = ContainerDataPoint.Timestamp pointB"
    by (simp_all add: summaryA_def pointA_def pointB_def point_fields)
  show ?thesis
    using getAllContainerSummaries_invariants[OF insertionSort_contract insertionSort_contract
        rangeContract_id m] nn ts rangeContract_id[where ?'a = "ContainerDataPoint list"]
    by (simp add: k points_scenarioA summaries_scenarioA)
qed

text \<open>
  C10 as stated fails by the rounding of float64: for three snapshots that report
  \<open>0.10%\<close> the sum of the three values divided by 3 is the next float64 above the
  value itself, so the average CPU is greater than the maximum CPU. It fails as well
  when a percentage reads \<open>NaN%\<close>: the minimum and the maximum are NaN then, and NaN is
  not at most NaN.
\<close>

theorem getAllContainerSummaries_average_counterexample:
  "map ContainerSummary.AvgCPU
     (getAllContainerSummaries insertionSort insertionSort id tenthCatalog) = [Fin tenthAvg]
   \<and> map ContainerSummary.MaxCPU
     (getAllContainerSummaries insertionSort insertionSort id tenthCatalog) = [Fin tenth]
   \<and> fgt (Fin tenthAvg) (Fin tenth)
   \<and> \<not> fle (Fin tenthAvg) (Fin tenth)
   \<and> map ContainerSummary.MinCPU
     (getAllContainerSummaries insertionSort insertionSort id nanCatalog) = [NaN]
   \<and> map ContainerSummary.MaxCPU
     (getAllContainerSummaries insertionSort insertionSort id nanCatalog) = [NaN]
   \<and> \<not> fle NaN NaN"
  using tenthAvg_above
  by (simp add: summaries_tenth summarize_fields sort_tenth point_fields seriesStats_tenths
      summaries_nan_bounds fgt_def fle_def isNaN_def)

end
